theory Spec2Isabelle
  imports Complex_Main
begin

section \<open>Exceptions and tensor shapes\<close>

text \<open>
  The models of \<^verbatim>\<open>MuRaL/nn_models.py\<close> are compositions of PyTorch layers. A forward
  pass is embedded first at the level of tensor shapes: a float tensor is represented by
  its shape (a list of dimension sizes), and every layer either returns the shape of its
  output or raises. The entries of the tensors follow further down, for the arithmetic
  that the source writes itself and for the local model. The exceptions of Python,
  PyTorch and Ray are values; the string is the message, shortened, which tells the
  raising statements apart.
\<close>

datatype error =
    AssertionError string
  | RuntimeError string
  | ValueError string
  | IndexError string
  | TypeError string
  | UnboundLocalError string
  | TuneError string

type_synonym shape = "nat list"

text \<open>Sequencing of statements that may raise: the first exception aborts the rest.\<close>

definition and_then :: "error + 'a \<Rightarrow> ('a \<Rightarrow> error + 'b) \<Rightarrow> error + 'b" where
  "and_then r f = (case r of Inl e \<Rightarrow> Inl e | Inr x \<Rightarrow> f x)"

text \<open>\<^verbatim>\<open>x.shape[i]\<close> for a non-negative literal \<open>i\<close>.\<close>

definition shape_at :: "shape \<Rightarrow> nat \<Rightarrow> error + nat" where
  "shape_at s i =
     (if i < length s then Inr (s ! i) else Inl (IndexError ''tuple index out of range''))"

text \<open>
  Length of a Python slice \<^verbatim>\<open>[start:stop]\<close> of a dimension of size \<open>n\<close>: a negative
  bound counts from the end, and both bounds are clipped to the dimension.
\<close>

definition slice_bound :: "nat \<Rightarrow> int \<Rightarrow> int" where
  "slice_bound n i = (if i < 0 then max 0 (i + int n) else min i (int n))"

definition slice_len :: "nat \<Rightarrow> int \<Rightarrow> int \<Rightarrow> nat" where
  "slice_len n start stop = nat (slice_bound n stop - slice_bound n start)"

text \<open>\<^verbatim>\<open>x[:,:,start:stop]\<close>: needs three dimensions, slices the third.\<close>

fun slice_dim2 :: "shape \<Rightarrow> int \<Rightarrow> int \<Rightarrow> error + shape" where
  "slice_dim2 (b # c # l # rest) start stop = Inr (b # c # slice_len l start stop # rest)"
| "slice_dim2 _ start stop = Inl (IndexError ''too many indices for tensor'')"

text \<open>
  Element-wise \<^verbatim>\<open>a + b\<close>: the shapes are broadcast, aligned at the last dimension; two
  sizes are compatible when they are equal or one of them is 1.
\<close>

fun broadcast_rev :: "nat list \<Rightarrow> nat list \<Rightarrow> error + nat list" where
  "broadcast_rev [] ys = Inr ys"
| "broadcast_rev (x # xs) [] = Inr (x # xs)"
| "broadcast_rev (x # xs) (y # ys) =
     (if x = y \<or> y = 1 then and_then (broadcast_rev xs ys) (\<lambda>r. Inr (x # r))
      else if x = 1 then and_then (broadcast_rev xs ys) (\<lambda>r. Inr (y # r))
      else Inl (RuntimeError ''The size of tensor a must match the size of tensor b''))"

definition tensor_add :: "shape \<Rightarrow> shape \<Rightarrow> error + shape" where
  "tensor_add a b = and_then (broadcast_rev (rev a) (rev b)) (\<lambda>r. Inr (rev r))"

text \<open>\<^verbatim>\<open>torch.max(x, dim=2)\<close>: the values over the third dimension, which must not be empty.\<close>

fun torch_max_dim2 :: "shape \<Rightarrow> error + shape" where
  "torch_max_dim2 (b # c # l # rest) =
     (if l = 0 then Inl (IndexError ''max(): Expected reduction dim 2 to have non-zero size'')
      else Inr (b # c # rest))"
| "torch_max_dim2 _ = Inl (IndexError ''Dimension out of range'')"

text \<open>\<^verbatim>\<open>F.softmax(x, dim=1)\<close> keeps the shape and needs a second dimension.\<close>

definition softmax_dim1 :: "shape \<Rightarrow> error + shape" where
  "softmax_dim1 x = (if 1 < length x then Inr x else Inl (IndexError ''Dimension out of range''))"

text \<open>
  \<^verbatim>\<open>torch.cat(xs, dim=1)\<close> of two-dimensional tensors: the list must not be empty and
  the tensors must agree in the first dimension.
\<close>

fun torch_cat_dim1 :: "shape list \<Rightarrow> error + shape" where
  "torch_cat_dim1 [] = Inl (RuntimeError ''torch.cat(): expected a non-empty list of Tensors'')"
| "torch_cat_dim1 [[b, n]] = Inr [b, n]"
| "torch_cat_dim1 ([b, n] # x # xs) =
     and_then (torch_cat_dim1 (x # xs))
       (\<lambda>r. case r of
              [b', m] \<Rightarrow> if b' = b then Inr [b, n + m]
                         else Inl (RuntimeError ''Sizes of tensors must match except in dimension 1'')
            | _ \<Rightarrow> Inl (RuntimeError ''Tensors must have same number of dimensions''))"
| "torch_cat_dim1 _ = Inl (RuntimeError ''Tensors must have same number of dimensions'')"

section \<open>PyTorch layers\<close>

text \<open>
  The layers the models are built from, each with the arguments the source passes, in
  the order of the PyTorch constructors:
  \<^verbatim>\<open>BatchNorm1d(num_features)\<close>,
  \<^verbatim>\<open>Conv1d(in_channels, out_channels, kernel_size, stride, padding, dilation)\<close>,
  \<^verbatim>\<open>MaxPool1d(kernel_size, stride, padding)\<close>, \<^verbatim>\<open>ReLU()\<close>, \<^verbatim>\<open>Dropout(p)\<close>,
  \<^verbatim>\<open>Linear(in_features, out_features)\<close>, \<^verbatim>\<open>Sequential(...)\<close>, and the repository's
  own \<^verbatim>\<open>ResBlock\<close>, which holds its \<^verbatim>\<open>self.layer\<close>.
\<close>

datatype module =
    BatchNorm1d nat
  | Conv1d nat nat nat nat nat nat
  | MaxPool1d nat nat nat
  | ReLU
  | Dropout real
  | Linear nat nat
  | Sequential "module list"
  | ResBlock module

text \<open>
  Batch normalisation takes \<open>[N, C]\<close> or \<open>[N, C, L]\<close>. In training mode it refuses an
  input with a single value per channel (\<open>N * L = 1\<close>). An input without elements is
  returned as it is, multiplied by \<^verbatim>\<open>weight[0]\<close>: that read fails for a layer built with
  \<open>num_features = 0\<close>, whose weight is empty, so such a layer raises on every input. Of an
  input with elements the number of channels must be \<open>num_features\<close>.
\<close>

fun BatchNorm1d_forward :: "bool \<Rightarrow> nat \<Rightarrow> shape \<Rightarrow> error + shape" where
  "BatchNorm1d_forward training num_features [n, c] =
     (if training \<and> n = 1
      then Inl (ValueError ''Expected more than 1 value per channel when training'')
      else if n * c = 0
      then (if num_features = 0
            then Inl (IndexError ''index 0 is out of bounds for dimension 0 with size 0'')
            else Inr [n, c])
      else if c \<noteq> num_features
      then Inl (RuntimeError ''running_mean should contain a different number of elements'')
      else Inr [n, c])"
| "BatchNorm1d_forward training num_features [n, c, l] =
     (if training \<and> n * l = 1
      then Inl (ValueError ''Expected more than 1 value per channel when training'')
      else if n * c * l = 0
      then (if num_features = 0
            then Inl (IndexError ''index 0 is out of bounds for dimension 0 with size 0'')
            else Inr [n, c, l])
      else if c \<noteq> num_features
      then Inl (RuntimeError ''running_mean should contain a different number of elements'')
      else Inr [n, c, l])"
| "BatchNorm1d_forward training num_features _ = Inl (ValueError ''expected 2D or 3D input'')"

text \<open>
  Output length of a convolution, as in the source's comment
  \<^verbatim>\<open>L_out = floor((L_in+2*padding-kernel_size)/stride + 1)\<close>, with the dilation of the
  PyTorch documentation. The padded input must hold one dilated kernel.
\<close>

definition conv_out_len :: "nat \<Rightarrow> nat \<Rightarrow> nat \<Rightarrow> nat \<Rightarrow> nat \<Rightarrow> error + nat" where
  "conv_out_len kernel_size stride padding dilation l =
     (if kernel_size = 0 \<or> stride = 0 \<or> dilation = 0
      then Inl (RuntimeError ''kernel size, stride and dilation must be positive'')
      else if l + 2 * padding < dilation * (kernel_size - 1) + 1
      then Inl (RuntimeError ''Kernel size can't be greater than actual input size'')
      else Inr ((l + 2 * padding - dilation * (kernel_size - 1) - 1) div stride + 1))"

text \<open>
  A convolution takes \<open>[N, C, L]\<close>, or \<open>[C, L]\<close> without a batch. Its checks, in the order of
  PyTorch: the weight must have an output channel; the input must have \<open>in_channels\<close>
  channels; the padded input must hold the kernel; and an input without elements is
  accepted only when it is the batch or the channels that are empty.
\<close>

fun Conv1d_forward :: "nat \<Rightarrow> nat \<Rightarrow> nat \<Rightarrow> nat \<Rightarrow> nat \<Rightarrow> nat \<Rightarrow> shape \<Rightarrow> error + shape" where
  "Conv1d_forward in_channels out_channels kernel_size stride padding dilation [n, c, l] =
     (if out_channels = 0
      then Inl (RuntimeError ''expected weight to be at least 1 at dimension 0'')
      else if c \<noteq> in_channels
      then Inl (RuntimeError ''conv1d: input has a different number of channels'')
      else and_then (conv_out_len kernel_size stride padding dilation l)
             (\<lambda>l_out. if n \<noteq> 0 \<and> c \<noteq> 0 \<and> l = 0
                      then Inl (RuntimeError ''Only zero batch or zero channel inputs are supported'')
                      else Inr [n, out_channels, l_out]))"
| "Conv1d_forward in_channels out_channels kernel_size stride padding dilation [c, l] =
     (if out_channels = 0
      then Inl (RuntimeError ''expected weight to be at least 1 at dimension 0'')
      else if c \<noteq> in_channels
      then Inl (RuntimeError ''conv1d: input has a different number of channels'')
      else and_then (conv_out_len kernel_size stride padding dilation l)
             (\<lambda>l_out. if c \<noteq> 0 \<and> l = 0
                      then Inl (RuntimeError ''Only zero batch or zero channel inputs are supported'')
                      else Inr [out_channels, l_out]))"
| "Conv1d_forward in_channels out_channels kernel_size stride padding dilation _ =
     Inl (RuntimeError ''Expected 2D (unbatched) or 3D (batched) input to conv1d'')"

text \<open>
  Max pooling (dilation 1, floor mode) takes \<open>[N, C, L]\<close>, or \<open>[C, L]\<close> without a batch; only
  the batch may be empty. The padding is at most half the kernel.
\<close>

definition pool_out_len :: "nat \<Rightarrow> nat \<Rightarrow> nat \<Rightarrow> nat \<Rightarrow> error + nat" where
  "pool_out_len kernel_size stride padding l =
     (if kernel_size = 0 \<or> stride = 0
      then Inl (RuntimeError ''kernel size and stride must be positive'')
      else if kernel_size < 2 * padding
      then Inl (RuntimeError ''pad should be at most half of effective kernel size'')
      else if l + 2 * padding < kernel_size
      then Inl (RuntimeError ''max_pool1d: Output size is too small'')
      else Inr ((l + 2 * padding - kernel_size) div stride + 1))"

fun MaxPool1d_forward :: "nat \<Rightarrow> nat \<Rightarrow> nat \<Rightarrow> shape \<Rightarrow> error + shape" where
  "MaxPool1d_forward kernel_size stride padding [n, c, l] =
     (if c = 0 \<or> l = 0
      then Inl (RuntimeError ''max_pool1d: Expected 2D or 3D tensor with optional 0 dim batch size'')
      else and_then (pool_out_len kernel_size stride padding l) (\<lambda>l_out. Inr [n, c, l_out]))"
| "MaxPool1d_forward kernel_size stride padding [c, l] =
     (if c = 0 \<or> l = 0
      then Inl (RuntimeError ''max_pool1d: Expected 2D or 3D tensor with optional 0 dim batch size'')
      else and_then (pool_out_len kernel_size stride padding l) (\<lambda>l_out. Inr [c, l_out]))"
| "MaxPool1d_forward kernel_size stride padding _ =
     Inl (RuntimeError ''max_pool1d: Expected 2D or 3D tensor with optional 0 dim batch size'')"

text \<open>A linear layer maps the last dimension, which must be \<open>in_features\<close>.\<close>

definition Linear_forward :: "nat \<Rightarrow> nat \<Rightarrow> shape \<Rightarrow> error + shape" where
  "Linear_forward in_features out_features x =
     (if x \<noteq> [] \<and> last x = in_features then Inr (butlast x @ [out_features])
      else Inl (RuntimeError ''mat1 and mat2 shapes cannot be multiplied''))"

text \<open>
  The skip connection of \<^verbatim>\<open>ResBlock.forward\<close>, after \<^verbatim>\<open>out = self.layer(x)\<close>:
  \<^verbatim>\<open>d = x.shape[2] - out.shape[2]; out = x[:,:,0:x.shape[2]-d] + out\<close>.
\<close>

definition ResBlock_skip :: "shape \<Rightarrow> shape \<Rightarrow> error + shape" where
  "ResBlock_skip x out =
     and_then (shape_at x 2) (\<lambda>x_len.
     and_then (shape_at out 2) (\<lambda>out_len.
       let d = int x_len - int out_len in
       and_then (slice_dim2 x 0 (int x_len - d)) (\<lambda>x_cut. tensor_add x_cut out)))"

text \<open>
  Calling a module. \<open>training\<close> is the module's \<^verbatim>\<open>self.training\<close> flag, which
  \<^verbatim>\<open>train()\<close> and \<^verbatim>\<open>eval()\<close> set on a model and all its layers at once.
\<close>

fun forward :: "bool \<Rightarrow> module \<Rightarrow> shape \<Rightarrow> error + shape"
  and forward_seq :: "bool \<Rightarrow> module list \<Rightarrow> shape \<Rightarrow> error + shape" where
  "forward training (BatchNorm1d num_features) x = BatchNorm1d_forward training num_features x"
| "forward training (Conv1d in_channels out_channels kernel_size stride padding dilation) x =
     Conv1d_forward in_channels out_channels kernel_size stride padding dilation x"
| "forward training (MaxPool1d kernel_size stride padding) x =
     MaxPool1d_forward kernel_size stride padding x"
| "forward training ReLU x = Inr x"
| "forward training (Dropout p) x = Inr x"
| "forward training (Linear in_features out_features) x = Linear_forward in_features out_features x"
| "forward training (Sequential layers) x = forward_seq training layers x"
| "forward training (ResBlock layer) x =
     (case forward training layer x of Inl e \<Rightarrow> Inl e | Inr out \<Rightarrow> ResBlock_skip x out)"
| "forward_seq training [] x = Inr x"
| "forward_seq training (m # ms) x =
     (case forward training m x of Inl e \<Rightarrow> Inl e | Inr y \<Rightarrow> forward_seq training ms y)"

text \<open>
  \<^verbatim>\<open>ResBlock.__init__(in_channels=32, kernel_size=3, stride=1, padding=0, dilation=1)\<close>:
  \<^verbatim>\<open>self.layer = nn.Sequential(nn.ReLU(), self.bn1, self.conv1, nn.ReLU(), self.bn2, self.conv2)\<close>.
\<close>

definition ResBlock_init :: "nat \<Rightarrow> nat \<Rightarrow> nat \<Rightarrow> nat \<Rightarrow> nat \<Rightarrow> module" where
  "ResBlock_init in_channels kernel_size stride padding dilation =
     (let bn1 = BatchNorm1d in_channels;
          conv1 = Conv1d in_channels in_channels kernel_size stride padding dilation;
          bn2 = BatchNorm1d in_channels;
          conv2 = Conv1d in_channels in_channels kernel_size stride padding dilation
      in ResBlock (Sequential [ReLU, bn1, conv1, ReLU, bn2, conv2]))"

section \<open>The local feed-forward model\<close>

text \<open>
  The categorical input \<^verbatim>\<open>cat_data\<close> is a two-dimensional tensor of k-mer indices; its
  entries matter, since the embedding table refuses an index outside the table.
\<close>

record index_tensor =
  n_rows :: nat
  n_cols :: nat
  entry :: "nat \<Rightarrow> nat \<Rightarrow> int"

text \<open>\<^verbatim>\<open>cat_data[:, i]\<close>: column \<open>i\<close>, one index per sample.\<close>

definition select_column :: "index_tensor \<Rightarrow> nat \<Rightarrow> error + int list" where
  "select_column t i =
     (if i < n_cols t then Inr (map (\<lambda>r. entry t r i) [0..<n_rows t])
      else Inl (IndexError ''index is out of bounds for dimension 1''))"

text \<open>\<^verbatim>\<open>nn.Embedding(num_embeddings, embedding_dim)\<close> applied to a vector of indices.\<close>

datatype embedding = Embedding nat nat

fun Embedding_forward :: "embedding \<Rightarrow> int list \<Rightarrow> error + shape" where
  "Embedding_forward (Embedding num_embeddings embedding_dim) idx =
     (if list_all (\<lambda>v. 0 \<le> v \<and> v < int num_embeddings) idx
      then Inr [length idx, embedding_dim]
      else Inl (IndexError ''index out of range in self''))"

text \<open>
  The list comprehension
  \<^verbatim>\<open>[self.emb_layer(cat_data[:, i]) for i in range(self.no_of_cat)]\<close>.
\<close>

fun embed_columns :: "embedding \<Rightarrow> index_tensor \<Rightarrow> nat list \<Rightarrow> error + shape list" where
  "embed_columns emb cat_data [] = Inr []"
| "embed_columns emb cat_data (i # is) =
     and_then (select_column cat_data i) (\<lambda>col.
     and_then (Embedding_forward emb col) (\<lambda>x.
     and_then (embed_columns emb cat_data is) (\<lambda>xs. Inr (x # xs))))"

text \<open>
  The loop
  \<^verbatim>\<open>for lin_layer, dropout_layer, bn_layer in zip(self.lin_layers, self.droput_layers, self.bn_layers)\<close>
  with the body \<^verbatim>\<open>relu(lin_layer(local_out))\<close>, \<^verbatim>\<open>bn_layer\<close>, \<^verbatim>\<open>dropout_layer\<close>.
\<close>

fun lin_loop :: "bool \<Rightarrow> (module \<times> module \<times> module) list \<Rightarrow> shape \<Rightarrow> error + shape" where
  "lin_loop training [] local_out = Inr local_out"
| "lin_loop training ((lin_layer, dropout_layer, bn_layer) # rest) local_out =
     and_then (forward training lin_layer local_out) (\<lambda>local_out.
     and_then (forward training ReLU local_out) (\<lambda>local_out.
     and_then (forward training bn_layer local_out) (\<lambda>local_out.
     and_then (forward training dropout_layer local_out) (\<lambda>local_out.
       lin_loop training rest local_out))))"

text \<open>\<^verbatim>\<open>nn.Dropout(p)\<close> refuses a probability outside \<open>[0, 1]\<close>.\<close>

definition Dropout_init :: "real \<Rightarrow> error + module" where
  "Dropout_init p =
     (if p < 0 \<or> 1 < p
      then Inl (ValueError ''dropout probability has to be between 0 and 1'')
      else Inr (Dropout p))"

fun Dropout_init_list :: "real list \<Rightarrow> error + module list" where
  "Dropout_init_list [] = Inr []"
| "Dropout_init_list (p # ps) =
     and_then (Dropout_init p) (\<lambda>m. and_then (Dropout_init_list ps) (\<lambda>ms. Inr (m # ms)))"

text \<open>
  \<^verbatim>\<open>[first_lin_layer] + [nn.Linear(lin_layer_sizes[i], lin_layer_sizes[i + 1]) for i in range(len(lin_layer_sizes) - 1)]\<close>
\<close>

definition make_lin_layers :: "nat \<Rightarrow> nat list \<Rightarrow> module list" where
  "make_lin_layers first_in lin_layer_sizes =
     Linear first_in (lin_layer_sizes ! 0) #
     map (\<lambda>i. Linear (lin_layer_sizes ! i) (lin_layer_sizes ! (i + 1)))
       [0..<length lin_layer_sizes - 1]"

text \<open>
  The local layers up to the last hidden layer. \<^verbatim>\<open>FeedForwardNN.forward\<close> has this block
  at lines 74-91 and \<^verbatim>\<open>Network2.forward\<close> at lines 449-466, each on its own attributes,
  which are the arguments here. The variable \<^verbatim>\<open>local_out\<close> is bound only when
  \<^verbatim>\<open>self.no_of_embs != 0\<close>; the call \<^verbatim>\<open>torch.cat(local_out, dim = 1)\<close> that follows is
  outside the \<^verbatim>\<open>if\<close> and reads it in either case.
\<close>

definition local_layers ::
  "bool \<Rightarrow> nat \<Rightarrow> nat \<Rightarrow> embedding \<Rightarrow> module \<Rightarrow> nat \<Rightarrow> module \<Rightarrow> module list \<Rightarrow> module list
   \<Rightarrow> module list \<Rightarrow> shape \<Rightarrow> index_tensor \<Rightarrow> error + shape" where
  "local_layers training no_of_embs no_of_cat emb_layer emb_dropout_layer no_of_cont
      first_bn_layer lin_layers droput_layers bn_layers cont_data cat_data =
     and_then
       (if no_of_embs \<noteq> 0
        then and_then (embed_columns emb_layer cat_data [0..<no_of_cat]) (\<lambda>xs. Inr (Some xs))
        else Inr None) (\<lambda>local_out.
     and_then
       (case local_out of
          None \<Rightarrow> Inl (UnboundLocalError ''local variable local_out referenced before assignment'')
        | Some xs \<Rightarrow> torch_cat_dim1 xs) (\<lambda>local_out.
     and_then (forward training emb_dropout_layer local_out) (\<lambda>local_out.
     and_then
       (if no_of_cont \<noteq> 0
        then and_then (forward training first_bn_layer cont_data) (\<lambda>normalized_cont_data.
               if no_of_embs \<noteq> 0 then torch_cat_dim1 [local_out, normalized_cont_data]
               else Inr normalized_cont_data)
        else Inr local_out) (\<lambda>local_out.
     lin_loop training (zip lin_layers (zip droput_layers bn_layers)) local_out))))"

record FeedForwardNN =
  n_class :: nat
  no_of_cat :: nat
  emb_layer :: embedding
  no_of_embs :: nat
  no_of_cont :: nat
  lin_layers :: "module list"
  first_bn_layer :: module
  bn_layers :: "module list"
  emb_dropout_layer :: module
  droput_layers :: "module list"
  output_layer :: module
  training :: bool

text \<open>
  \<^verbatim>\<open>FeedForwardNN.__init__\<close>. The default \<^verbatim>\<open>emb_padding_idx=None\<close> fails at
  \<^verbatim>\<open>emb_padding_idx+1\<close>, an empty \<^verbatim>\<open>lin_layer_sizes\<close> at \<^verbatim>\<open>lin_layer_sizes[0]\<close>.
  A new module is in training mode. (A constructor parameter that shares its name with
  an attribute is written with a prime.)
\<close>

definition FeedForwardNN_init ::
  "(nat \<times> nat) list \<Rightarrow> nat \<Rightarrow> nat list \<Rightarrow> real \<Rightarrow> real list \<Rightarrow> nat \<Rightarrow> nat option
   \<Rightarrow> error + FeedForwardNN" where
  "FeedForwardNN_init emb_dims no_of_cont' lin_layer_sizes emb_dropout lin_layer_dropouts
      n_class' emb_padding_idx =
     (case emb_padding_idx of
        None \<Rightarrow> Inl (TypeError ''unsupported operand type(s) for +: NoneType and int'')
      | Some padding_idx \<Rightarrow>
          if lin_layer_sizes = [] then Inl (IndexError ''list index out of range'')
          else
            and_then (Dropout_init emb_dropout) (\<lambda>emb_dropout_layer'.
            and_then (Dropout_init_list lin_layer_dropouts) (\<lambda>droput_layers'.
              Inr \<lparr> n_class = n_class',
                    no_of_cat = length emb_dims,
                    emb_layer = Embedding (padding_idx + 1) 5,
                    no_of_embs = length emb_dims * 5,
                    no_of_cont = no_of_cont',
                    lin_layers = make_lin_layers (length emb_dims * 5 + no_of_cont') lin_layer_sizes,
                    first_bn_layer = BatchNorm1d no_of_cont',
                    bn_layers = map BatchNorm1d lin_layer_sizes,
                    emb_dropout_layer = emb_dropout_layer',
                    droput_layers = droput_layers',
                    output_layer = Linear (last lin_layer_sizes) n_class',
                    training = True \<rparr>)))"

text \<open>
  \<^verbatim>\<open>FeedForwardNN.forward(cont_data, cat_data)\<close>: the local layers, then
  \<^verbatim>\<open>self.output_layer\<close>.
\<close>

definition FeedForwardNN_forward :: "FeedForwardNN \<Rightarrow> shape \<Rightarrow> index_tensor \<Rightarrow> error + shape" where
  "FeedForwardNN_forward self cont_data cat_data =
     and_then
       (local_layers (training self) (no_of_embs self) (no_of_cat self) (emb_layer self)
          (emb_dropout_layer self) (no_of_cont self) (first_bn_layer self) (lin_layers self)
          (droput_layers self) (bn_layers self) cont_data cat_data) (\<lambda>local_out.
     forward (training self) (output_layer self) local_out)"

section \<open>Network0: the local-only model\<close>

record Network0 =
  model :: FeedForwardNN

definition Network0_init ::
  "(nat \<times> nat) list \<Rightarrow> nat \<Rightarrow> nat list \<Rightarrow> real \<Rightarrow> real list \<Rightarrow> nat \<Rightarrow> nat option
   \<Rightarrow> error + Network0" where
  "Network0_init emb_dims no_of_cont' lin_layer_sizes emb_dropout lin_layer_dropouts
      n_class' emb_padding_idx =
     and_then
       (FeedForwardNN_init emb_dims no_of_cont' lin_layer_sizes emb_dropout lin_layer_dropouts
          n_class' emb_padding_idx)
       (\<lambda>m. Inr \<lparr> model = m \<rparr>)"

text \<open>
  \<^verbatim>\<open>Network0.forward\<close> hands the local input to its model and returns what the model
  returns; it is embedded on values, after the layers on values, as \<open>Network0_forward\<close>.
\<close>

section \<open>Network1: the expanded-only model\<close>

text \<open>
  The statements that follow each group of residual blocks:
  \<^verbatim>\<open>assert(jump_input.shape[2] >= distal_out.shape[2])\<close> and
  \<^verbatim>\<open>distal_out = distal_out + jump_input[:,:,0:distal_out.shape[2]]\<close>.
\<close>

definition jump_add :: "shape \<Rightarrow> shape \<Rightarrow> error + shape" where
  "jump_add jump_input distal_out =
     and_then (shape_at jump_input 2) (\<lambda>jump_len.
     and_then (shape_at distal_out 2) (\<lambda>out_len.
       if \<not> out_len \<le> jump_len then Inl (AssertionError [])
       else and_then (slice_dim2 jump_input 0 (int out_len))
              (\<lambda>jump_cut. tensor_add distal_out jump_cut)))"

text \<open>
  One scale of the expanded module, from its first convolution to the maximum over the
  sequence axis. \<^verbatim>\<open>Network1.forward\<close> has this block at lines 239-254 for the centred
  window and at lines 260-275 for the whole window, \<^verbatim>\<open>Network2.forward\<close> at lines
  472-487 and 494-509, each time with its own eight layers.
\<close>

definition conv_stack ::
  "bool \<Rightarrow> module \<Rightarrow> module \<Rightarrow> module \<Rightarrow> module \<Rightarrow> module \<Rightarrow> module \<Rightarrow> module \<Rightarrow> module
   \<Rightarrow> shape \<Rightarrow> error + shape" where
  "conv_stack tr conv1' maxpool1' RBs1' maxpool2' conv2' RBs2' maxpool3' conv3' distal_input =
     and_then (forward tr conv1' distal_input) (\<lambda>distal_out.
     and_then (forward tr maxpool1' distal_out) (\<lambda>distal_out.
     let jump_input = distal_out in
     and_then (forward tr RBs1' distal_out) (\<lambda>distal_out.
     and_then (jump_add jump_input distal_out) (\<lambda>distal_out.
     and_then (forward tr maxpool2' distal_out) (\<lambda>distal_out.
     and_then (forward tr conv2' distal_out) (\<lambda>distal_out.
     let jump_input = distal_out in
     and_then (forward tr RBs2' distal_out) (\<lambda>distal_out.
     and_then (jump_add jump_input distal_out) (\<lambda>distal_out.
     and_then (forward tr maxpool3' distal_out) (\<lambda>distal_out.
     and_then (forward tr conv3' distal_out) (\<lambda>distal_out.
     torch_max_dim2 distal_out))))))))))"

text \<open>
  The last line of \<^verbatim>\<open>Network1.forward\<close>,
  \<^verbatim>\<open>torch.log(torch.clamp((F.softmax(a, dim=1) + F.softmax(b, dim=1))/2, min=1e-9))\<close>:
  the division, the clamp and the logarithm keep the shape of the sum.
\<close>

definition softmax_mean :: "shape \<Rightarrow> shape \<Rightarrow> error + shape" where
  "softmax_mean a b =
     and_then (softmax_dim1 a) (\<lambda>pa.
     and_then (softmax_dim1 b) (\<lambda>pb. tensor_add pa pb))"

record Network1 =
  n_class :: nat
  kernel_size :: nat
  seq_len :: int
  conv1 :: module
  maxpool1 :: module
  RBs1 :: module
  maxpool2 :: module
  conv2 :: module
  RBs2 :: module
  maxpool3 :: module
  conv3 :: module
  distal_fc1 :: module
  conv1_2 :: module
  maxpool1_2 :: module
  RBs1_2 :: module
  maxpool2_2 :: module
  conv2_2 :: module
  RBs2_2 :: module
  maxpool3_2 :: module
  conv3_2 :: module
  distal_fc2 :: module
  training :: bool

text \<open>
  \<^verbatim>\<open>Network1.__init__\<close>. The padding of every convolution is \<^verbatim>\<open>(kernel_size-1)//2\<close>;
  the kernel size is a positive number in every configuration considered below (for 0
  the convolution raises in the model as in PyTorch).
\<close>

definition Network1_init ::
  "nat \<Rightarrow> nat \<Rightarrow> nat \<Rightarrow> int \<Rightarrow> int \<Rightarrow> real \<Rightarrow> nat \<Rightarrow> error + Network1" where
  "Network1_init in_channels out_channels kernel_size' distal_radius distal_order
      distal_fc_dropout n_class' =
     (let rb1_kernel_size = 3; rb2_kernel_size = 3; cnn_fc_in_size = out_channels in
      and_then (Dropout_init distal_fc_dropout) (\<lambda>dropout1.
      and_then (Dropout_init distal_fc_dropout) (\<lambda>dropout2.
        Inr \<lparr> n_class = n_class',
              kernel_size = kernel_size',
              seq_len = distal_radius * 2 + 1 - (distal_order - 1),
              conv1 = Sequential [BatchNorm1d in_channels,
                        Conv1d in_channels out_channels kernel_size' 1 ((kernel_size' - 1) div 2) 1],
              maxpool1 = MaxPool1d 3 3 1,
              RBs1 = Sequential (map (\<lambda>x. ResBlock_init out_channels rb1_kernel_size 1
                                           ((rb1_kernel_size - 1) div 2) 1) [0..<2]),
              maxpool2 = MaxPool1d 3 3 1,
              conv2 = Sequential [BatchNorm1d out_channels,
                        Conv1d out_channels out_channels kernel_size' 1 ((kernel_size' - 1) div 2) 1],
              RBs2 = Sequential (map (\<lambda>x. ResBlock_init out_channels rb2_kernel_size 1
                                           ((rb2_kernel_size - 1) div 2) 1) [0..<2]),
              maxpool3 = MaxPool1d 3 3 1,
              conv3 = Sequential [BatchNorm1d out_channels,
                        Conv1d out_channels out_channels kernel_size' 1 ((kernel_size' - 1) div 2) 1,
                        ReLU],
              distal_fc1 = Sequential [BatchNorm1d cnn_fc_in_size, dropout1,
                             Linear cnn_fc_in_size n_class'],
              conv1_2 = Sequential [BatchNorm1d in_channels,
                          Conv1d in_channels out_channels kernel_size' 1 ((kernel_size' - 1) div 2) 1],
              maxpool1_2 = MaxPool1d 15 15 7,
              RBs1_2 = Sequential (map (\<lambda>x. ResBlock_init out_channels rb1_kernel_size 1
                                             ((rb1_kernel_size - 1) div 2) 1) [0..<2]),
              maxpool2_2 = MaxPool1d 7 7 3,
              conv2_2 = Sequential [BatchNorm1d out_channels,
                          Conv1d out_channels out_channels kernel_size' 1 ((kernel_size' - 1) div 2) 1],
              RBs2_2 = Sequential (map (\<lambda>x. ResBlock_init out_channels rb2_kernel_size 1
                                             ((rb2_kernel_size - 1) div 2) 1) [0..<2]),
              maxpool3_2 = MaxPool1d 3 3 1,
              conv3_2 = Sequential [BatchNorm1d out_channels,
                          Conv1d out_channels out_channels kernel_size' 1 ((kernel_size' - 1) div 2) 1,
                          ReLU],
              distal_fc2 = Sequential [BatchNorm1d cnn_fc_in_size, dropout2,
                             Linear cnn_fc_in_size n_class'],
              training = True \<rparr>)))"

text \<open>
  \<^verbatim>\<open>Network1.forward(local_input, distal_input)\<close>. The local input is not read. The
  assertion on the length of the expanded sequence is the first statement; the centred
  window \<^verbatim>\<open>distal_input[:,:,(L//2-100):(L//2+100+1)]\<close> feeds the first scale, the whole
  input the second.
\<close>

definition Network1_forward :: "Network1 \<Rightarrow> 'l \<Rightarrow> shape \<Rightarrow> error + shape" where
  "Network1_forward self local_input distal_input =
     and_then (shape_at distal_input 2) (\<lambda>L.
       if \<not> 200 < L then Inl (AssertionError ''Error: distal seq len must be >200bp'')
       else
     and_then (slice_dim2 distal_input (int L div 2 - 100) (int L div 2 + 100 + 1))
       (\<lambda>distal_input0.
     and_then (conv_stack (training self) (conv1 self) (maxpool1 self) (RBs1 self)
                 (maxpool2 self) (conv2 self) (RBs2 self) (maxpool3 self) (conv3 self)
                 distal_input0) (\<lambda>distal_out.
     and_then (forward (training self) (distal_fc1 self) distal_out) (\<lambda>distal_out.
     and_then (conv_stack (training self) (conv1_2 self) (maxpool1_2 self) (RBs1_2 self)
                 (maxpool2_2 self) (conv2_2 self) (RBs2_2 self) (maxpool3_2 self) (conv3_2 self)
                 distal_input) (\<lambda>distal_out2.
     and_then (forward (training self) (distal_fc2 self) distal_out2) (\<lambda>distal_out2.
     softmax_mean distal_out distal_out2))))))"

section \<open>Network2: the local and expanded model\<close>

text \<open>
  \<^verbatim>\<open>Network2\<close> has the attributes of \<^verbatim>\<open>Network1\<close>, those of the local model (without
  its output layer) and the head \<^verbatim>\<open>local_fc\<close>.
\<close>

record Network2 = Network1 +
  no_of_cat :: nat
  emb_layer :: embedding
  no_of_embs :: nat
  no_of_cont :: nat
  lin_layers :: "module list"
  first_bn_layer :: module
  bn_layers :: "module list"
  emb_dropout_layer :: module
  droput_layers :: "module list"
  local_fc :: module

definition Network2_init ::
  "(nat \<times> nat) list \<Rightarrow> nat \<Rightarrow> nat list \<Rightarrow> real \<Rightarrow> real list \<Rightarrow> nat \<Rightarrow> nat \<Rightarrow> nat \<Rightarrow> int \<Rightarrow> int
   \<Rightarrow> real \<Rightarrow> nat \<Rightarrow> nat option \<Rightarrow> error + Network2" where
  "Network2_init emb_dims no_of_cont' lin_layer_sizes emb_dropout lin_layer_dropouts
      in_channels out_channels kernel_size' distal_radius distal_order distal_fc_dropout
      n_class' emb_padding_idx =
     (case emb_padding_idx of
        None \<Rightarrow> Inl (TypeError ''unsupported operand type(s) for +: NoneType and int'')
      | Some padding_idx \<Rightarrow>
          if lin_layer_sizes = [] then Inl (IndexError ''list index out of range'')
          else
            let rb1_kernel_size = 3; rb2_kernel_size = 3; cnn_fc_in_size = out_channels in
            and_then (Dropout_init emb_dropout) (\<lambda>emb_dropout_layer'.
            and_then (Dropout_init_list lin_layer_dropouts) (\<lambda>droput_layers'.
            and_then (Dropout_init distal_fc_dropout) (\<lambda>dropout1.
            and_then (Dropout_init distal_fc_dropout) (\<lambda>dropout2.
              Inr \<lparr> n_class = n_class',
                    kernel_size = kernel_size',
                    seq_len = distal_radius * 2 + 1 - (distal_order - 1),
                    conv1 = Sequential [BatchNorm1d in_channels,
                      Conv1d in_channels out_channels kernel_size' 1 ((kernel_size' - 1) div 2) 1],
                    maxpool1 = MaxPool1d 3 3 1,
                    RBs1 = Sequential (map (\<lambda>x. ResBlock_init out_channels rb1_kernel_size 1
                                                 ((rb1_kernel_size - 1) div 2) 1) [0..<2]),
                    maxpool2 = MaxPool1d 3 3 1,
                    conv2 = Sequential [BatchNorm1d out_channels,
                      Conv1d out_channels out_channels kernel_size' 1 ((kernel_size' - 1) div 2) 1],
                    RBs2 = Sequential (map (\<lambda>x. ResBlock_init out_channels rb2_kernel_size 1
                                                 ((rb2_kernel_size - 1) div 2) 1) [0..<2]),
                    maxpool3 = MaxPool1d 3 3 1,
                    conv3 = Sequential [BatchNorm1d out_channels,
                      Conv1d out_channels out_channels kernel_size' 1 ((kernel_size' - 1) div 2) 1,
                      ReLU],
                    distal_fc1 = Sequential [BatchNorm1d cnn_fc_in_size, dropout1,
                      Linear cnn_fc_in_size n_class'],
                    conv1_2 = Sequential [BatchNorm1d in_channels,
                      Conv1d in_channels out_channels kernel_size' 1 ((kernel_size' - 1) div 2) 1],
                    maxpool1_2 = MaxPool1d 15 15 7,
                    RBs1_2 = Sequential (map (\<lambda>x. ResBlock_init out_channels rb1_kernel_size 1
                                                   ((rb1_kernel_size - 1) div 2) 1) [0..<2]),
                    maxpool2_2 = MaxPool1d 7 7 3,
                    conv2_2 = Sequential [BatchNorm1d out_channels,
                      Conv1d out_channels out_channels kernel_size' 1 ((kernel_size' - 1) div 2) 1],
                    RBs2_2 = Sequential (map (\<lambda>x. ResBlock_init out_channels rb2_kernel_size 1
                                                   ((rb2_kernel_size - 1) div 2) 1) [0..<2]),
                    maxpool3_2 = MaxPool1d 3 3 1,
                    conv3_2 = Sequential [BatchNorm1d out_channels,
                      Conv1d out_channels out_channels kernel_size' 1 ((kernel_size' - 1) div 2) 1,
                      ReLU],
                    distal_fc2 = Sequential [BatchNorm1d cnn_fc_in_size, dropout2,
                      Linear cnn_fc_in_size n_class'],
                    training = True,
                    no_of_cat = length emb_dims,
                    emb_layer = Embedding (padding_idx + 1) 5,
                    no_of_embs = length emb_dims * 5,
                    no_of_cont = no_of_cont',
                    lin_layers =
                      make_lin_layers (length emb_dims * 5 + no_of_cont') lin_layer_sizes,
                    first_bn_layer = BatchNorm1d no_of_cont',
                    bn_layers = map BatchNorm1d lin_layer_sizes,
                    emb_dropout_layer = emb_dropout_layer',
                    droput_layers = droput_layers',
                    local_fc = Sequential [Linear (last lin_layer_sizes) n_class'] \<rparr>)))))"

text \<open>\<^verbatim>\<open>x[:,1]\<close>, read by the diagnostic print: the tensor needs a second column.\<close>

fun column1 :: "shape \<Rightarrow> error + shape" where
  "column1 (b # n # rest) =
     (if 1 < n then Inr (b # rest)
      else Inl (IndexError ''index 1 is out of bounds for dimension 1''))"
| "column1 _ = Inl (IndexError ''too many indices for tensor'')"

text \<open>
  The diagnostic print of \<^verbatim>\<open>Network2.forward\<close>, taken outside training mode when the
  draw \<open>u\<close> of \<^verbatim>\<open>np.random.uniform(0,1)\<close> is below \<^verbatim>\<open>0.00001*local_out.shape[0]\<close>. It
  returns nothing, and reads column 1 of both distributions.
\<close>

definition diagnostic_print :: "bool \<Rightarrow> real \<Rightarrow> shape \<Rightarrow> shape \<Rightarrow> error + unit" where
  "diagnostic_print tr u local_out distal_out =
     (if tr = False
      then and_then (shape_at local_out 0) (\<lambda>b.
             if u < 0.00001 * real b
             then and_then (column1 local_out) (\<lambda>_.
                  and_then (column1 distal_out) (\<lambda>_. Inr ()))
             else Inr ())
      else Inr ())"

text \<open>
  \<^verbatim>\<open>Network2.forward(local_input, distal_input)\<close>, statement by statement: the local
  layers, then the assertion on the length of the expanded sequence, the first scale,
  the two heads \<^verbatim>\<open>local_fc\<close> and \<^verbatim>\<open>distal_fc1\<close>, the second scale with \<^verbatim>\<open>distal_fc2\<close>,
  and the fusion. The argument \<open>u\<close> is the random draw of the diagnostic print.
\<close>

definition Network2_forward ::
  "Network2 \<Rightarrow> shape \<times> index_tensor \<Rightarrow> shape \<Rightarrow> real \<Rightarrow> error + shape" where
  "Network2_forward self local_input distal_input u =
     (case local_input of (cont_data, cat_data) \<Rightarrow>
     and_then
       (local_layers (training self) (no_of_embs self) (no_of_cat self) (emb_layer self)
          (emb_dropout_layer self) (no_of_cont self) (first_bn_layer self) (lin_layers self)
          (droput_layers self) (bn_layers self) cont_data cat_data) (\<lambda>local_out.
     and_then (shape_at distal_input 2) (\<lambda>L.
       if \<not> 200 < L then Inl (AssertionError ''Error: distal seq len must be >200'')
       else
     and_then (slice_dim2 distal_input (int L div 2 - 100) (int L div 2 + 100 + 1))
       (\<lambda>distal_input0.
     and_then (conv_stack (training self) (conv1 self) (maxpool1 self) (RBs1 self)
                 (maxpool2 self) (conv2 self) (RBs2 self) (maxpool3 self) (conv3 self)
                 distal_input0) (\<lambda>distal_out.
     and_then (forward (training self) (local_fc self) local_out) (\<lambda>local_out.
     and_then (forward (training self) (distal_fc1 self) distal_out) (\<lambda>distal_out.
     and_then (conv_stack (training self) (conv1_2 self) (maxpool1_2 self) (RBs1_2 self)
                 (maxpool2_2 self) (conv2_2 self) (RBs2_2 self) (maxpool3_2 self) (conv3_2 self)
                 distal_input) (\<lambda>distal_out2.
     and_then (forward (training self) (distal_fc2 self) distal_out2) (\<lambda>distal_out2.
     and_then (softmax_mean distal_out distal_out2) (\<lambda>distal_out.
     and_then (softmax_dim1 local_out) (\<lambda>local_out.
     and_then (diagnostic_print (training self) u local_out distal_out) (\<lambda>_.
     tensor_add local_out distal_out))))))))))))"

section \<open>Tensor arithmetic written in the source\<close>

text \<open>
  The layers above are calls into PyTorch with learned weights. The arithmetic that the
  source itself writes on tensors (the slice and the addition of the skip connection,
  the softmax, mean, clamp and logarithm of the fusion) is embedded on values as well:
  a tensor is its shape together with its entries, one real number per index. The
  entries are exact reals; the rounding of floating-point numbers is outside this model.
\<close>

record tensor =
  tshape :: shape
  tval :: "nat list \<Rightarrow> real"

text \<open>
  Broadcasting reads an operand at the trailing positions of the index of the result,
  and at position 0 along every dimension of size 1.
\<close>

definition broadcast_index :: "shape \<Rightarrow> nat list \<Rightarrow> nat list" where
  "broadcast_index s idx =
     map2 (\<lambda>n i. if n = 1 then 0 else i) s (drop (length idx - length s) idx)"

definition t_add :: "tensor \<Rightarrow> tensor \<Rightarrow> error + tensor" where
  "t_add a b =
     and_then (tensor_add (tshape a) (tshape b)) (\<lambda>s.
       Inr \<lparr> tshape = s,
             tval = (\<lambda>idx. tval a (broadcast_index (tshape a) idx)
                          + tval b (broadcast_index (tshape b) idx)) \<rparr>)"

text \<open>\<^verbatim>\<open>x[:,:,start:stop]\<close> on values: position \<open>j\<close> of the slice is position \<open>start + j\<close>.\<close>

definition t_slice_dim2 :: "tensor \<Rightarrow> int \<Rightarrow> int \<Rightarrow> error + tensor" where
  "t_slice_dim2 x start stop =
     and_then (slice_dim2 (tshape x) start stop) (\<lambda>s.
       Inr \<lparr> tshape = s,
             tval = (\<lambda>idx. tval x (idx[2 := idx ! 2 + nat (slice_bound (tshape x ! 2) start)])) \<rparr>)"

text \<open>\<^verbatim>\<open>x / c\<close>, \<^verbatim>\<open>torch.clamp(x, min=c)\<close> and \<^verbatim>\<open>torch.log(x)\<close>, entry by entry.\<close>

definition t_div :: "tensor \<Rightarrow> real \<Rightarrow> tensor" where
  "t_div x c = \<lparr> tshape = tshape x, tval = (\<lambda>idx. tval x idx / c) \<rparr>"

definition t_clamp_min :: "tensor \<Rightarrow> real \<Rightarrow> tensor" where
  "t_clamp_min x c = \<lparr> tshape = tshape x, tval = (\<lambda>idx. max c (tval x idx)) \<rparr>"

definition t_log :: "tensor \<Rightarrow> tensor" where
  "t_log x = \<lparr> tshape = tshape x, tval = (\<lambda>idx. ln (tval x idx)) \<rparr>"

text \<open>
  \<^verbatim>\<open>F.softmax(x, dim=1)\<close>: every entry is exponentiated and divided by the sum of the
  exponentials along dimension 1.
\<close>

definition t_softmax_dim1 :: "tensor \<Rightarrow> error + tensor" where
  "t_softmax_dim1 x =
     and_then (softmax_dim1 (tshape x)) (\<lambda>s.
       Inr \<lparr> tshape = s,
             tval = (\<lambda>idx. exp (tval x idx)
                          / (\<Sum>k < tshape x ! 1. exp (tval x (idx[1 := k])))) \<rparr>)"

text \<open>
  The skip connection of \<^verbatim>\<open>ResBlock.forward\<close> on values, \<open>out\<close> being the result of
  \<^verbatim>\<open>self.layer(x)\<close>:
  \<^verbatim>\<open>d = x.shape[2] - out.shape[2]; out = x[:,:,0:x.shape[2]-d] + out\<close>.
\<close>

definition ResBlock_skip_values :: "tensor \<Rightarrow> tensor \<Rightarrow> error + tensor" where
  "ResBlock_skip_values x out =
     and_then (shape_at (tshape x) 2) (\<lambda>x_len.
     and_then (shape_at (tshape out) 2) (\<lambda>out_len.
       let d = int x_len - int out_len in
       and_then (t_slice_dim2 x 0 (int x_len - d)) (\<lambda>x_cut. t_add x_cut out)))"

text \<open>
  The fusion of \<^verbatim>\<open>Network1.forward\<close> (line 283), applied to the logits of the two heads:
  \<^verbatim>\<open>torch.log(torch.clamp((F.softmax(distal_out, dim=1)+ F.softmax(distal_out2, dim=1))/2, min=1e-9))\<close>.
\<close>

definition Network1_fusion :: "tensor \<Rightarrow> tensor \<Rightarrow> error + tensor" where
  "Network1_fusion distal_out distal_out2 =
     and_then (t_softmax_dim1 distal_out) (\<lambda>p1.
     and_then (t_softmax_dim1 distal_out2) (\<lambda>p2.
     and_then (t_add p1 p2) (\<lambda>s.
       Inr (t_log (t_clamp_min (t_div s 2) 0.000000001)))))"

text \<open>
  The fusion of \<^verbatim>\<open>Network2.forward\<close> (lines 518-526), applied to the logits of the
  three heads; \<open>tr\<close> is \<^verbatim>\<open>self.training\<close> and \<open>u\<close> the draw of the diagnostic print:
  \<^verbatim>\<open>distal_out = (F.softmax(distal_out, dim=1)+ F.softmax(distal_out2, dim=1))/2\<close>,
  \<^verbatim>\<open>local_out = F.softmax(local_out, dim=1)\<close>,
  \<^verbatim>\<open>out = torch.log(torch.clamp((local_out + distal_out)/2, min=1e-9))\<close>.
\<close>

definition Network2_fusion :: "bool \<Rightarrow> real \<Rightarrow> tensor \<Rightarrow> tensor \<Rightarrow> tensor \<Rightarrow> error + tensor" where
  "Network2_fusion tr u local_out distal_out distal_out2 =
     and_then (t_softmax_dim1 distal_out) (\<lambda>p1.
     and_then (t_softmax_dim1 distal_out2) (\<lambda>p2.
     and_then (t_add p1 p2) (\<lambda>s.
     let distal_out = t_div s 2 in
     and_then (t_softmax_dim1 local_out) (\<lambda>local_out.
     and_then (diagnostic_print tr u (tshape local_out) (tshape distal_out)) (\<lambda>_.
     and_then (t_add local_out distal_out) (\<lambda>t.
       Inr (t_log (t_clamp_min (t_div t 2) 0.000000001))))))))"

text \<open>
  For the statements about the fusion: the softmax distribution of row \<open>i\<close> of a
  two-dimensional tensor of logits, at class \<open>j\<close>.
\<close>

definition softmax_of :: "tensor \<Rightarrow> nat \<Rightarrow> nat \<Rightarrow> real" where
  "softmax_of x i j = exp (tval x [i, j]) / (\<Sum>k < tshape x ! 1. exp (tval x [i, k]))"

section \<open>The layers on values\<close>

text \<open>
  What a layer computes depends on its parameters and buffers, and for a dropout layer in
  training mode on the mask that the random generator draws in the call. The state of one
  layer holds them: \<^verbatim>\<open>weight\<close> and \<^verbatim>\<open>bias\<close>, read at an index list (\<open>[o, i]\<close> for a linear
  layer, \<open>[o, c, j]\<close> for a convolution, \<open>[c]\<close> for a batch normalisation, \<open>[v, j]\<close> for an
  embedding table), the running statistics of a batch normalisation, and the mask. A
  layer reads the fields of its kind only. A module that holds other modules gives each
  of them its own state: the state of a module maps the position of a layer inside it,
  the list of the indices that lead to it, to the state of that layer.
\<close>

record layer_state =
  weight :: "nat list \<Rightarrow> real"
  bias :: "nat list \<Rightarrow> real"
  running_mean :: "nat \<Rightarrow> real"
  running_var :: "nat \<Rightarrow> real"
  dropout_mask :: "nat list \<Rightarrow> bool"

type_synonym state = "nat list \<Rightarrow> layer_state"

text \<open>\<^verbatim>\<open>F.relu\<close>, entry by entry.\<close>

definition t_ReLU :: "tensor \<Rightarrow> tensor" where
  "t_ReLU x = \<lparr> tshape = tshape x, tval = (\<lambda>idx. max 0 (tval x idx)) \<rparr>"

text \<open>
  Dropout with probability \<open>p\<close>: outside training mode and for \<open>p = 0\<close> the input is
  returned; for \<open>p = 1\<close> every entry is 0; otherwise the entries that the mask keeps are
  divided by \<open>1 - p\<close> and the others are 0.
\<close>

definition t_Dropout :: "bool \<Rightarrow> real \<Rightarrow> layer_state \<Rightarrow> tensor \<Rightarrow> tensor" where
  "t_Dropout tr p st x =
     (if \<not> tr \<or> p = 0 then x
      else \<lparr> tshape = tshape x,
             tval = (\<lambda>idx. if p \<noteq> 1 \<and> dropout_mask st idx then tval x idx / (1 - p) else 0) \<rparr>)"

text \<open>
  A linear layer: entry \<open>o\<close> along the last dimension is the product of the input with
  row \<open>o\<close> of the weight, plus the bias.
\<close>

definition t_Linear :: "nat \<Rightarrow> nat \<Rightarrow> layer_state \<Rightarrow> tensor \<Rightarrow> error + tensor" where
  "t_Linear in_features out_features st x =
     and_then (Linear_forward in_features out_features (tshape x)) (\<lambda>s.
       Inr \<lparr> tshape = s,
             tval = (\<lambda>idx. (\<Sum>i < in_features. tval x (butlast idx @ [i]) * weight st [last idx, i])
                          + bias st [last idx]) \<rparr>)"

text \<open>
  Batch normalisation (\<^verbatim>\<open>eps=1e-05\<close>, \<^verbatim>\<open>affine=True\<close>): every entry of channel \<open>c\<close> is
  centred and scaled with the mean and the variance of the channel, in training mode those
  of the batch (the variance without Bessel's correction), otherwise the running ones.
\<close>

definition channel_entries :: "shape \<Rightarrow> nat \<Rightarrow> nat list list" where
  "channel_entries s c =
     (case s of
        [n, _] \<Rightarrow> map (\<lambda>r. [r, c]) [0..<n]
      | [n, _, l] \<Rightarrow> concat (map (\<lambda>r. map (\<lambda>t. [r, c, t]) [0..<l]) [0..<n])
      | _ \<Rightarrow> [])"

definition batch_mean :: "tensor \<Rightarrow> nat \<Rightarrow> real" where
  "batch_mean x c =
     sum_list (map (tval x) (channel_entries (tshape x) c))
       / real (length (channel_entries (tshape x) c))"

definition batch_var :: "tensor \<Rightarrow> nat \<Rightarrow> real" where
  "batch_var x c =
     sum_list (map (\<lambda>idx. (tval x idx - batch_mean x c)\<^sup>2) (channel_entries (tshape x) c))
       / real (length (channel_entries (tshape x) c))"

definition t_BatchNorm1d :: "bool \<Rightarrow> nat \<Rightarrow> layer_state \<Rightarrow> tensor \<Rightarrow> error + tensor" where
  "t_BatchNorm1d tr num_features st x =
     and_then (BatchNorm1d_forward tr num_features (tshape x)) (\<lambda>s.
       Inr \<lparr> tshape = s,
             tval = (\<lambda>idx.
               let c = idx ! 1;
                   m = (if tr then batch_mean x c else running_mean st c);
                   v = (if tr then batch_var x c else running_var st c)
               in (tval x idx - m) / sqrt (v + 0.00001) * weight st [c] + bias st [c]) \<rparr>)"

text \<open>
  A convolution with zero padding: position \<open>t\<close> of output channel \<open>o\<close> sums, over the
  input channels \<open>c\<close> and the kernel positions \<open>j\<close>, the weight times the input at position
  \<open>t * stride + j * dilation - padding\<close>, where that is a position of the input.
\<close>

definition t_Conv1d ::
  "nat \<Rightarrow> nat \<Rightarrow> nat \<Rightarrow> nat \<Rightarrow> nat \<Rightarrow> nat \<Rightarrow> layer_state \<Rightarrow> tensor \<Rightarrow> error + tensor" where
  "t_Conv1d in_channels out_channels kernel_size' stride padding dilation st x =
     and_then (Conv1d_forward in_channels out_channels kernel_size' stride padding dilation
                 (tshape x)) (\<lambda>s.
       Inr \<lparr> tshape = s,
             tval = (\<lambda>idx.
               let batch = butlast (butlast idx); oc = last (butlast idx); t = last idx in
               bias st [oc]
               + (\<Sum>c < in_channels. \<Sum>j < kernel_size'.
                    let q = t * stride + j * dilation in
                    if padding \<le> q \<and> q - padding < last (tshape x)
                    then weight st [oc, c, j] * tval x (batch @ [c, q - padding])
                    else 0)) \<rparr>)"

text \<open>
  Max pooling: position \<open>t\<close> is the maximum of the input over the window that starts at
  \<open>t * stride - padding\<close>, the padded positions left aside.
\<close>

definition t_MaxPool1d :: "nat \<Rightarrow> nat \<Rightarrow> nat \<Rightarrow> tensor \<Rightarrow> error + tensor" where
  "t_MaxPool1d kernel_size' stride padding x =
     and_then (MaxPool1d_forward kernel_size' stride padding (tshape x)) (\<lambda>s.
       Inr \<lparr> tshape = s,
             tval = (\<lambda>idx.
               Max (set (map (\<lambda>q. tval x (butlast idx @ [q - padding]))
                          (filter (\<lambda>q. padding \<le> q \<and> q - padding < last (tshape x))
                             [last idx * stride ..< last idx * stride + kernel_size'])))) \<rparr>)"

text \<open>The outcome of a call on values, reduced to the exception or the shape of the tensor.\<close>

definition result_shape :: "error + tensor \<Rightarrow> error + shape" where
  "result_shape r = (case r of Inl e \<Rightarrow> Inl e | Inr t \<Rightarrow> Inr (tshape t))"

text \<open>
  Calling a module on values. Whether the call raises, and the shape of the tensor it
  returns, are those of \<open>forward\<close> (lemma \<open>forward_values_shape\<close>).
\<close>

fun forward_values :: "bool \<Rightarrow> module \<Rightarrow> state \<Rightarrow> tensor \<Rightarrow> error + tensor"
  and forward_seq_values :: "bool \<Rightarrow> module list \<Rightarrow> nat \<Rightarrow> state \<Rightarrow> tensor \<Rightarrow> error + tensor" where
  "forward_values tr (BatchNorm1d num_features) st x =
     t_BatchNorm1d tr num_features (st []) x"
| "forward_values tr (Conv1d in_channels out_channels kernel_size' stride padding dilation) st x =
     t_Conv1d in_channels out_channels kernel_size' stride padding dilation (st []) x"
| "forward_values tr (MaxPool1d kernel_size' stride padding) st x =
     t_MaxPool1d kernel_size' stride padding x"
| "forward_values tr ReLU st x = Inr (t_ReLU x)"
| "forward_values tr (Dropout p) st x = Inr (t_Dropout tr p (st []) x)"
| "forward_values tr (Linear in_features out_features) st x =
     t_Linear in_features out_features (st []) x"
| "forward_values tr (Sequential layers) st x = forward_seq_values tr layers 0 st x"
| "forward_values tr (ResBlock layer) st x =
     (case forward_values tr layer (\<lambda>pos. st (0 # pos)) x of
        Inl e \<Rightarrow> Inl e
      | Inr out \<Rightarrow> ResBlock_skip_values x out)"
| "forward_seq_values tr [] i st x = Inr x"
| "forward_seq_values tr (m # ms) i st x =
     (case forward_values tr m (\<lambda>pos. st (i # pos)) x of
        Inl e \<Rightarrow> Inl e
      | Inr y \<Rightarrow> forward_seq_values tr ms (Suc i) st y)"

section \<open>The local model on values\<close>

text \<open>
  The state of a \<^verbatim>\<open>FeedForwardNN\<close>: that of each of its layers, the layers of a
  \<^verbatim>\<open>ModuleList\<close> by their index.
\<close>

record FeedForwardNN_state =
  emb_layer_state :: layer_state
  lin_layers_state :: "nat \<Rightarrow> state"
  first_bn_layer_state :: state
  bn_layers_state :: "nat \<Rightarrow> state"
  emb_dropout_layer_state :: state
  droput_layers_state :: "nat \<Rightarrow> state"
  output_layer_state :: state

text \<open>The embedding of a vector of indices: row \<open>r\<close> is row \<open>idx[r]\<close> of the table.\<close>

definition t_Embedding :: "embedding \<Rightarrow> layer_state \<Rightarrow> int list \<Rightarrow> error + tensor" where
  "t_Embedding emb st idx =
     and_then (Embedding_forward emb idx) (\<lambda>s.
       Inr \<lparr> tshape = s, tval = (\<lambda>pos. weight st [nat (idx ! (pos ! 0)), pos ! 1]) \<rparr>)"

fun t_embed_columns ::
  "embedding \<Rightarrow> layer_state \<Rightarrow> index_tensor \<Rightarrow> nat list \<Rightarrow> error + tensor list" where
  "t_embed_columns emb st cat_data [] = Inr []"
| "t_embed_columns emb st cat_data (i # is) =
     and_then (select_column cat_data i) (\<lambda>col.
     and_then (t_Embedding emb st col) (\<lambda>x.
     and_then (t_embed_columns emb st cat_data is) (\<lambda>xs. Inr (x # xs))))"

text \<open>
  \<^verbatim>\<open>torch.cat(xs, dim=1)\<close> on values: column \<open>j\<close> of the result is a column of the first
  tensor, or column \<open>j\<close> less the width of the first tensor of the concatenation of the
  others.
\<close>

fun cat_values :: "tensor list \<Rightarrow> nat list \<Rightarrow> real" where
  "cat_values [] pos = 0"
| "cat_values (x # xs) pos =
     (if pos ! 1 < tshape x ! 1 then tval x pos
      else cat_values xs (pos[1 := pos ! 1 - tshape x ! 1]))"

definition t_cat_dim1 :: "tensor list \<Rightarrow> error + tensor" where
  "t_cat_dim1 xs =
     and_then (torch_cat_dim1 (map tshape xs)) (\<lambda>s. Inr \<lparr> tshape = s, tval = cat_values xs \<rparr>)"

text \<open>The loop over the hidden layers, \<open>i\<close> being the index of the first layer of the list.\<close>

fun lin_loop_values ::
  "bool \<Rightarrow> nat \<Rightarrow> (module \<times> module \<times> module) list \<Rightarrow> FeedForwardNN_state \<Rightarrow> tensor
   \<Rightarrow> error + tensor" where
  "lin_loop_values tr i [] st local_out = Inr local_out"
| "lin_loop_values tr i ((lin_layer, dropout_layer, bn_layer) # rest) st local_out =
     and_then (forward_values tr lin_layer (lin_layers_state st i) local_out) (\<lambda>local_out.
     let local_out = t_ReLU local_out in
     and_then (forward_values tr bn_layer (bn_layers_state st i) local_out) (\<lambda>local_out.
     and_then (forward_values tr dropout_layer (droput_layers_state st i) local_out)
       (\<lambda>local_out.
       lin_loop_values tr (Suc i) rest st local_out)))"

text \<open>
  \<^verbatim>\<open>FeedForwardNN.forward(cont_data, cat_data)\<close> on values, statement by statement as
  \<open>FeedForwardNN_forward\<close>.
\<close>

definition FeedForwardNN_forward_values ::
  "FeedForwardNN \<Rightarrow> FeedForwardNN_state \<Rightarrow> tensor \<Rightarrow> index_tensor \<Rightarrow> error + tensor" where
  "FeedForwardNN_forward_values self st cont_data cat_data =
     (let tr = FeedForwardNN.training self in
     and_then
       (if FeedForwardNN.no_of_embs self \<noteq> 0
        then and_then
               (t_embed_columns (FeedForwardNN.emb_layer self) (emb_layer_state st) cat_data
                  [0..<FeedForwardNN.no_of_cat self])
               (\<lambda>xs. Inr (Some xs))
        else Inr None) (\<lambda>local_out.
     and_then
       (case local_out of
          None \<Rightarrow> Inl (UnboundLocalError ''local variable local_out referenced before assignment'')
        | Some xs \<Rightarrow> t_cat_dim1 xs) (\<lambda>local_out.
     and_then
       (forward_values tr (FeedForwardNN.emb_dropout_layer self) (emb_dropout_layer_state st)
          local_out) (\<lambda>local_out.
     and_then
       (if FeedForwardNN.no_of_cont self \<noteq> 0
        then and_then
               (forward_values tr (FeedForwardNN.first_bn_layer self) (first_bn_layer_state st)
                  cont_data)
               (\<lambda>normalized_cont_data.
                  if FeedForwardNN.no_of_embs self \<noteq> 0
                  then t_cat_dim1 [local_out, normalized_cont_data]
                  else Inr normalized_cont_data)
        else Inr local_out) (\<lambda>local_out.
     and_then
       (lin_loop_values tr 0
          (zip (FeedForwardNN.lin_layers self)
             (zip (FeedForwardNN.droput_layers self) (FeedForwardNN.bn_layers self)))
          st local_out) (\<lambda>local_out.
     forward_values tr (output_layer self) (output_layer_state st) local_out))))))"

text \<open>
  \<^verbatim>\<open>Network0.forward(local_input, distal_input=None)\<close>: the local input is unpacked and
  handed to the model. The state of a \<^verbatim>\<open>Network0\<close> is that of its model; the second
  argument is a tensor or the default \<open>None\<close>.
\<close>

definition Network0_forward ::
  "Network0 \<Rightarrow> FeedForwardNN_state \<Rightarrow> tensor \<times> index_tensor \<Rightarrow> tensor option \<Rightarrow> error + tensor" where
  "Network0_forward self st local_input distal_input =
     (case local_input of (cont_data, cat_data) \<Rightarrow>
        FeedForwardNN_forward_values (model self) st cont_data cat_data)"

section \<open>The model of a configuration\<close>

text \<open>
  The hyperparameters that the search space of the driver names and that decide the
  layers of a model (\<^verbatim>\<open>run_train_raytune.py\<close>, lines 438-458): one sampled value each.
\<close>

record config =
  local_radius :: nat
  local_order :: nat
  local_hidden1_size :: nat
  local_hidden2_size :: nat
  distal_radius :: int
  emb_dropout :: real
  local_dropout :: real
  CNN_kernel_size :: nat
  CNN_out_channels :: nat
  distal_fc_dropout :: real

datatype model_instance = LocalOnly Network0 | DistalOnly Network1 | LocalPlusDistal Network2

text \<open>
  Modelled from the spec: the function that builds the model of a trial from its
  configuration belongs to \<^verbatim>\<open>MuRaL.training\<close>, which is not among the source files. By
  the spec the model variant id selects the class (0 local only, 1 expanded only, 2
  both); the local sequence has \<open>2 * local_radius + 1\<close> positions and is reduced to k-mer
  indices of order \<open>local_order\<close>, one embedded position per k-mer; the embedding table
  holds the \<open>4 ^ local_order\<close> k-mers and one padding slot; the sizes of the two hidden
  layers, the dropout rates, the kernel size and the channel count are those of the
  configuration. The variant id, the order of the expanded sequence and the number of
  classes are arguments of the command line; the number of continuous features and of
  input channels come with the data.
\<close>

definition build_model ::
  "nat \<Rightarrow> int \<Rightarrow> nat \<Rightarrow> nat \<Rightarrow> nat \<Rightarrow> config \<Rightarrow> error + model_instance" where
  "build_model model_no distal_order n_class' n_cont in_channels cfg =
     (let emb_dims = replicate (2 * local_radius cfg + 1 - (local_order cfg - 1))
                       (4 ^ local_order cfg + 1, 5 :: nat);
          emb_padding_idx = Some (4 ^ local_order cfg);
          lin_layer_sizes = [local_hidden1_size cfg, local_hidden2_size cfg];
          lin_layer_dropouts = [local_dropout cfg, local_dropout cfg]
      in if model_no = 0
         then and_then
                (Network0_init emb_dims n_cont lin_layer_sizes (emb_dropout cfg) lin_layer_dropouts
                   n_class' emb_padding_idx)
                (\<lambda>m. Inr (LocalOnly m))
         else if model_no = 1
         then and_then
                (Network1_init in_channels (CNN_out_channels cfg) (CNN_kernel_size cfg)
                   (distal_radius cfg) distal_order (distal_fc_dropout cfg) n_class')
                (\<lambda>m. Inr (DistalOnly m))
         else if model_no = 2
         then and_then
                (Network2_init emb_dims n_cont lin_layer_sizes (emb_dropout cfg) lin_layer_dropouts
                   in_channels (CNN_out_channels cfg) (CNN_kernel_size cfg) (distal_radius cfg)
                   distal_order (distal_fc_dropout cfg) n_class' emb_padding_idx)
                (\<lambda>m. Inr (LocalPlusDistal m))
         else Inl (ValueError ''no such model''))"

section \<open>The search driver\<close>

text \<open>
  \<^verbatim>\<open>main\<close> of \<^verbatim>\<open>MuRaL/run_train_raytune.py\<close> from the check of the GPU request (line
  416) to its end. The driver acts through calls into Ray, the operating system and the
  standard streams; each call is recorded, in order, with the arguments the driver
  passes. The parsing of the command line and the generation of the HDF5 files come
  before and are calls into modules that are not part of the model; the search space and
  the progress reporter passed to \<^verbatim>\<open>tune.run\<close> are left out, and the error message is cut
  after its first sentence.
\<close>

record args =
  ray_ngpus :: int
  gpu_per_trial :: real
  cuda_id :: string
  rerun_failed :: bool
  ray_ncpus :: int
  cpu_per_trial :: int
  epochs :: int
  grace_period :: int
  n_trials :: int
  experiment_name :: string
  ASHA_metric :: string

datatype scheduler =
  ASHAScheduler (metric: string) (mode: string) (max_t: int) (rung_grace_period: int)
    (reduction_factor: int)

text \<open>
  The constructor \<^verbatim>\<open>ASHAScheduler(metric, mode, max_t, grace_period, reduction_factor)\<close>
  of Ray Tune checks its arguments with assertions, in this order.
\<close>

definition ASHAScheduler_init :: "string \<Rightarrow> string \<Rightarrow> int \<Rightarrow> int \<Rightarrow> int \<Rightarrow> error + scheduler" where
  "ASHAScheduler_init metric' mode' max_t' grace_period' reduction_factor' =
     (if \<not> 0 < max_t' then Inl (AssertionError ''Max (time_attr) not valid!'')
      else if \<not> grace_period' \<le> max_t' then Inl (AssertionError ''grace_period must be <= max_t!'')
      else if \<not> 0 < grace_period' then Inl (AssertionError ''grace_period must be positive!'')
      else if \<not> 1 < reduction_factor' then Inl (AssertionError ''Reduction Factor not valid!'')
      else if mode' \<noteq> ''min'' \<and> mode' \<noteq> ''max''
      then Inl (AssertionError ''mode must be min or max'')
      else Inr (ASHAScheduler metric' mode' max_t' grace_period' reduction_factor'))"

datatype resume = ResumeFalse | ERRORED_ONLY

datatype tune_run =
  TuneRun (trainable: string) (run_name: string) (resources_per_trial: "int \<times> real")
    (num_samples: int) (local_dir: string) (run_scheduler: scheduler)
    (stop: "(string \<times> int) list") (run_resume: resume)

datatype event =
    Print string
  | PrintStderr string
  | SetEnv string string
  | RayInit int int string
  | RegisterTrainable string
  | Run tune_run
  | RayShutdown

text \<open>
  How \<^verbatim>\<open>main\<close> ends: it returns, \<^verbatim>\<open>sys.exit\<close> is called with its argument, or an
  exception is raised that nothing catches.
\<close>

datatype outcome = Return | SysExit "int option" | Uncaught error

text \<open>
  The exit status of the Python process: 0 when \<^verbatim>\<open>main\<close> returns, for
  \<^verbatim>\<open>sys.exit(arg)\<close> the integer \<open>arg\<close>, or 0 when the argument is omitted, and 1 after an
  uncaught exception.
\<close>

fun exit_status :: "outcome \<Rightarrow> int" where
  "exit_status Return = 0"
| "exit_status (SysExit None) = 0"
| "exit_status (SysExit (Some n)) = n"
| "exit_status (Uncaught e) = 1"

definition main :: "args \<Rightarrow> bool \<Rightarrow> event list \<times> outcome" where
  "main a cuda_is_available =
     (let gpu_check =
        (if ray_ngpus a > 0 \<or> gpu_per_trial a > 0
         then if \<not> cuda_is_available
              then ([PrintStderr ''Error: You requested GPU computing, but CUDA is not available!''],
                    Some (SysExit None))
              else ([SetEnv ''CUDA_DEVICE_ORDER'' ''PCI_BUS_ID'',
                     SetEnv ''CUDA_VISIBLE_DEVICES'' (cuda_id a),
                     Print (''Ray is using GPU device cuda:'' @ cuda_id a)], None)
         else ([Print ''Ray is using only CPUs ...''], None))
      in case snd gpu_check of
           Some exit \<Rightarrow> (fst gpu_check, exit)
         | None \<Rightarrow>
             let resume_flag = (if rerun_failed a then ERRORED_ONLY else ResumeFalse);
                 ray_init = [RayInit (ray_ncpus a) (ray_ngpus a) ''0.0.0.0'']
             in case ASHAScheduler_init (ASHA_metric a) ''min'' (epochs a) (grace_period a) 2 of
                  Inl e \<Rightarrow> (fst gpu_check @ ray_init, Uncaught e)
                | Inr scheduler \<Rightarrow>
                    let trainable_id = ''Train''
                    in (fst gpu_check @ ray_init @
                        [RegisterTrainable trainable_id,
                         Run (TuneRun trainable_id (experiment_name a)
                                (cpu_per_trial a, gpu_per_trial a) (n_trials a) ''./ray_results''
                                scheduler [(''after_min_loss'', 3)] resume_flag),
                         RayShutdown,
                         Print ''Total time used''],
                        Return))"

text \<open>
  What Ray Tune does with a report of a trial, given the \<^verbatim>\<open>stop\<close> dictionary and the
  scheduler of \<^verbatim>\<open>tune.run\<close>. A report maps the names of metrics to values. A criterion of
  the dictionary is met when the reported value of its metric is greater than or equal to
  its threshold; a report that lacks the metric of a criterion is an error. The trial is
  stopped when a criterion is met, and only otherwise is the scheduler asked.
\<close>

datatype decision = CONTINUE | PAUSE | STOP

type_synonym report = "string \<Rightarrow> real option"

fun should_stop :: "(string \<times> int) list \<Rightarrow> report \<Rightarrow> error + bool" where
  "should_stop [] result = Inr False"
| "should_stop ((criteria, stop_value) # rest) result =
     (case result criteria of
        None \<Rightarrow> Inl (TuneError ''Stopping criteria not provided in result'')
      | Some v \<Rightarrow> if real_of_int stop_value \<le> v then Inr True else should_stop rest result)"

definition trial_decision :: "tune_run \<Rightarrow> decision \<Rightarrow> report \<Rightarrow> error + decision" where
  "trial_decision run scheduler_decision result =
     and_then (should_stop (stop run) result)
       (\<lambda>met. Inr (if met then STOP else scheduler_decision))"

text \<open>
  Modelled from the spec: the training function registered as the trainable belongs to
  \<^verbatim>\<open>MuRaL.training\<close>, which is not among the source files. By the spec a trial emits one
  record per reporting interval, with its validation loss among other metrics, and keeps
  the counter of the iterations without improvement in best loss, which the driver's
  criterion reads under the name \<^verbatim>\<open>after_min_loss\<close>. The counter is 0 at a report whose
  loss is below the best loss of the reports before it, so at the first report, and one
  more than at the report before otherwise.
\<close>

fun count_after_min_loss :: "real \<Rightarrow> nat \<Rightarrow> real list \<Rightarrow> nat list" where
  "count_after_min_loss min_loss n [] = []"
| "count_after_min_loss min_loss n (loss # losses) =
     (if loss < min_loss then 0 # count_after_min_loss loss 0 losses
      else Suc n # count_after_min_loss min_loss (Suc n) losses)"

definition after_min_loss :: "real list \<Rightarrow> nat list" where
  "after_min_loss losses =
     (case losses of [] \<Rightarrow> [] | loss # rest \<Rightarrow> 0 # count_after_min_loss loss 0 rest)"

text \<open>
  The reports of a trial with the given validation losses, under the names \<^verbatim>\<open>loss\<close> and
  \<^verbatim>\<open>after_min_loss\<close> of the driver's progress table (line 471); \<open>other i\<close> holds the
  other metrics of report \<open>i\<close>.
\<close>

definition trial_reports :: "(nat \<Rightarrow> report) \<Rightarrow> real list \<Rightarrow> report list" where
  "trial_reports other losses =
     map (\<lambda>i. (other i)(''loss'' \<mapsto> losses ! i,
                        ''after_min_loss'' \<mapsto> real (after_min_loss losses ! i)))
       [0..<length losses]"

section \<open>Shapes through the layers\<close>


lemma and_then_simps [simp]:
  "and_then (Inl e) f = Inl e"
  "and_then (Inr x) f = f x"
  by (simp_all add: and_then_def)

lemma BatchNorm1d_2d:
  assumes "0 < c" "tr \<longrightarrow> n \<noteq> 1"
  shows "BatchNorm1d_forward tr c [n, c] = Inr [n, c]"
  using assms by auto

lemma BatchNorm1d_3d:
  assumes "0 < c" "tr \<longrightarrow> n * l \<noteq> 1"
  shows "BatchNorm1d_forward tr c [n, c, l] = Inr [n, c, l]"
  using assms by auto

lemma Conv1d_3d:
  assumes "0 < cout" "0 < l" "conv_out_len k s p d l = Inr l'"
  shows "Conv1d_forward cin cout k s p d [n, cin, l] = Inr [n, cout, l']"
  using assms by simp

lemma tensor_add_same3: "tensor_add [b, c, l] [b, c, l] = Inr [b, c, l]"
  by (simp add: tensor_add_def)

lemma tensor_add_same2: "tensor_add [b, n] [b, n] = Inr [b, n]"
  by (simp add: tensor_add_def)

lemma slice_len_prefix: "m \<le> l \<Longrightarrow> slice_len l 0 (int m) = m"
  by (simp add: slice_len_def slice_bound_def)

lemma jump_add_same: "jump_add [b, c, l] [b, c, l] = Inr [b, c, l]"
  by (simp add: jump_add_def shape_at_def slice_len_prefix tensor_add_same3)

lemma conv_out_len_pos: "conv_out_len k s p d l = Inr l' \<Longrightarrow> 0 < l'"
  by (auto simp add: conv_out_len_def split: if_splits)

lemma ResBlock_skip_shorter:
  assumes "l2 \<le> l"
  shows "ResBlock_skip [b, c, l] [b, c, l2] = Inr [b, c, l2]"
  using assms
  by (simp add: ResBlock_skip_def shape_at_def Let_def slice_len_prefix tensor_add_same3)

lemma ResBlock_forward_len:
  assumes c: "0 < c" and l: "0 < l"
    and b: "tr \<longrightarrow> b * l \<noteq> 1 \<and> b * l1 \<noteq> 1"
    and l1: "conv_out_len k s p d l = Inr l1"
    and l2: "conv_out_len k s p d l1 = Inr l2"
    and le: "l2 \<le> l"
  shows "forward tr (ResBlock_init c k s p d) [b, c, l] = Inr [b, c, l2]"
proof -
  have bn1: "BatchNorm1d_forward tr c [b, c, l] = Inr [b, c, l]"
    using c b by (intro BatchNorm1d_3d) simp_all
  have bn2: "BatchNorm1d_forward tr c [b, c, l1] = Inr [b, c, l1]"
    using c b by (intro BatchNorm1d_3d) simp_all
  have cv1: "Conv1d_forward c c k s p d [b, c, l] = Inr [b, c, l1]"
    using c l l1 by (rule Conv1d_3d)
  have cv2: "Conv1d_forward c c k s p d [b, c, l1] = Inr [b, c, l2]"
    using c conv_out_len_pos[OF l1] l2 by (rule Conv1d_3d)
  show ?thesis
    by (simp add: ResBlock_init_def Let_def bn1 bn2 cv1 cv2 ResBlock_skip_shorter[OF le]
        del: BatchNorm1d_forward.simps Conv1d_forward.simps)
qed

lemma ResBlock_same:
  assumes "0 < c" "0 < l" "tr \<longrightarrow> b * l \<noteq> 1"
  shows "forward tr (ResBlock_init c 3 1 1 1) [b, c, l] = Inr [b, c, l]"
  using assms
  by (intro ResBlock_forward_len[where ?l1.0 = l]) (simp_all add: conv_out_len_def)

lemma RBs_same:
  assumes "0 < c" "0 < l" "tr \<longrightarrow> b * l \<noteq> 1"
  shows "forward tr (Sequential (map (\<lambda>x. ResBlock_init c 3 1 ((3 - 1) div 2) 1) [0..<2])) [b, c, l] = Inr [b, c, l]"
proof -
  have u: "[0..<2] = [0, Suc 0]" by (simp add: upt_rec numeral_2_eq_2)
  have d: "(3 - 1) div 2 = (1::nat)" by simp
  show ?thesis unfolding u d using ResBlock_same[OF assms] by simp
qed


lemma stem_len:
  assumes c: "0 < cin" "0 < cout" and l: "0 < l" and b: "tr \<longrightarrow> b \<noteq> 1"
    and cv: "conv_out_len k s p d l = Inr l'"
  shows "forward tr (Sequential [BatchNorm1d cin, Conv1d cin cout k s p d]) [b, cin, l]
         = Inr [b, cout, l']"
    and "forward tr (Sequential [BatchNorm1d cin, Conv1d cin cout k s p d, ReLU]) [b, cin, l]
         = Inr [b, cout, l']"
proof -
  have bn: "BatchNorm1d_forward tr cin [b, cin, l] = Inr [b, cin, l]"
    using c(1) b by (intro BatchNorm1d_3d) simp_all
  have conv: "Conv1d_forward cin cout k s p d [b, cin, l] = Inr [b, cout, l']"
    using c(2) l cv by (rule Conv1d_3d)
  show "forward tr (Sequential [BatchNorm1d cin, Conv1d cin cout k s p d]) [b, cin, l]
         = Inr [b, cout, l']"
    by (simp add: bn conv del: BatchNorm1d_forward.simps Conv1d_forward.simps)
  show "forward tr (Sequential [BatchNorm1d cin, Conv1d cin cout k s p d, ReLU]) [b, cin, l]
         = Inr [b, cout, l']"
    by (simp add: bn conv del: BatchNorm1d_forward.simps Conv1d_forward.simps)
qed

lemma stem_fail:
  assumes c: "0 < cin" "0 < cout" and b: "tr \<longrightarrow> b \<noteq> 1"
    and cv: "conv_out_len k s p d l = Inl e"
  shows "forward tr (Sequential [BatchNorm1d cin, Conv1d cin cout k s p d, ReLU]) [b, cin, l]
         = Inl e"
proof -
  have bn: "BatchNorm1d_forward tr cin [b, cin, l] = Inr [b, cin, l]"
    using c(1) b by (intro BatchNorm1d_3d) simp_all
  have conv: "Conv1d_forward cin cout k s p d [b, cin, l] = Inl e"
    using c(2) cv by simp
  show ?thesis
    by (simp add: bn conv del: BatchNorm1d_forward.simps Conv1d_forward.simps)
qed

lemma conv_odd:
  assumes "odd k" "0 < l"
  shows "conv_out_len k 1 ((k - 1) div 2) 1 l = Inr l"
proof -
  from \<open>odd k\<close> obtain j where k: "k = 2 * j + 1" by (auto elim: oddE)
  show ?thesis using \<open>0 < l\<close> by (simp add: conv_out_len_def k)
qed

lemma conv_even:
  assumes "even k" "0 < k"
  shows "2 \<le> l \<Longrightarrow> conv_out_len k 1 ((k - 1) div 2) 1 l = Inr (l - 1)"
    and "conv_out_len k 1 ((k - 1) div 2) 1 1
         = Inl (RuntimeError ''Kernel size can't be greater than actual input size'')"
proof -
  from \<open>even k\<close> obtain i where i: "k = 2 * i" by (auto elim: evenE)
  with \<open>0 < k\<close> have "0 < i" by simp
  then obtain j where "i = Suc j" by (cases i) auto
  with i have k: "k = 2 * j + 2" by simp
  show "2 \<le> l \<Longrightarrow> conv_out_len k 1 ((k - 1) div 2) 1 l = Inr (l - 1)"
    by (simp add: conv_out_len_def k)
  show "conv_out_len k 1 ((k - 1) div 2) 1 1
         = Inl (RuntimeError ''Kernel size can't be greater than actual input size'')"
    by (simp add: conv_out_len_def k)
qed

lemma stem_odd:
  assumes "odd k" "0 < l" "tr \<longrightarrow> b \<noteq> 1" "0 < cin" "0 < cout"
  shows "forward tr (Sequential [BatchNorm1d cin, Conv1d cin cout k 1 ((k - 1) div 2) 1]) [b, cin, l]
         = Inr [b, cout, l]"
  using assms by (intro stem_len(1) conv_odd)

lemma stem_even:
  assumes "even k" "0 < k" "2 \<le> l" "tr \<longrightarrow> b \<noteq> 1" "0 < cin" "0 < cout"
  shows "forward tr (Sequential [BatchNorm1d cin, Conv1d cin cout k 1 ((k - 1) div 2) 1]) [b, cin, l]
         = Inr [b, cout, l - 1]"
  using assms by (intro stem_len(1) conv_even(1)) simp_all

lemma stem_even_fail:
  assumes "even k" "0 < k" "tr \<longrightarrow> b \<noteq> 1" "0 < cin" "0 < cout"
  shows "forward tr (Sequential [BatchNorm1d cin, Conv1d cin cout k 1 ((k - 1) div 2) 1, ReLU]) [b, cin, 1]
         = Inl (RuntimeError ''Kernel size can't be greater than actual input size'')"
  using assms by (intro stem_fail conv_even(2))

lemma pool_fwd:
  assumes "0 < k" "2 * p \<le> k" "k \<le> l + 2 * p" "0 < c" "0 < l"
  shows "forward tr (MaxPool1d k k p) [b, c, l] = Inr [b, c, (l + 2 * p - k) div k + 1]"
  using assms by (simp add: pool_out_len_def)

lemma stem3_odd:
  assumes "odd k" "0 < l" "tr \<longrightarrow> b \<noteq> 1" "0 < cin" "0 < cout"
  shows "forward tr (Sequential [BatchNorm1d cin, Conv1d cin cout k 1 ((k - 1) div 2) 1, ReLU]) [b, cin, l]
         = Inr [b, cout, l]"
  using assms by (intro stem_len(2) conv_odd)

lemma stem3_even:
  assumes "even k" "0 < k" "2 \<le> l" "tr \<longrightarrow> b \<noteq> 1" "0 < cin" "0 < cout"
  shows "forward tr (Sequential [BatchNorm1d cin, Conv1d cin cout k 1 ((k - 1) div 2) 1, ReLU]) [b, cin, l]
         = Inr [b, cout, l - 1]"
  using assms by (intro stem_len(2) conv_even(1)) simp_all

lemma batch_len: "tr \<longrightarrow> b \<noteq> 1 \<Longrightarrow> tr \<longrightarrow> b * l \<noteq> (1::nat)"
  by simp

text \<open>One scale with an odd kernel: every layer keeps or pools a positive length.\<close>

lemma conv_stack_odd:
  assumes k: "odd k" and l: "0 < l" and b: "tr \<longrightarrow> b \<noteq> 1" and c: "0 < cin" "0 < cout"
    and p1: "0 < k1" "2 * p1 \<le> k1" "k1 \<le> 1 + 2 * p1"
    and p2: "0 < k2" "2 * p2 \<le> k2" "k2 \<le> 1 + 2 * p2"
  shows "conv_stack tr
           (Sequential [BatchNorm1d cin, Conv1d cin cout k 1 ((k - 1) div 2) 1])
           (MaxPool1d k1 k1 p1)
           (Sequential (map (\<lambda>x. ResBlock_init cout 3 1 ((3 - 1) div 2) 1) [0..<2]))
           (MaxPool1d k2 k2 p2)
           (Sequential [BatchNorm1d cout, Conv1d cout cout k 1 ((k - 1) div 2) 1])
           (Sequential (map (\<lambda>x. ResBlock_init cout 3 1 ((3 - 1) div 2) 1) [0..<2]))
           (MaxPool1d 3 3 1)
           (Sequential [BatchNorm1d cout, Conv1d cout cout k 1 ((k - 1) div 2) 1, ReLU])
           [b, cin, l] = Inr [b, cout]"
proof -
  define m1 where "m1 = (l + 2 * p1 - k1) div k1 + 1"
  define m2 where "m2 = (m1 + 2 * p2 - k2) div k2 + 1"
  define m3 where "m3 = (m2 + 2 * 1 - 3) div 3 + 1"
  have pos: "0 < m1" "0 < m2" "0 < m3" by (simp_all add: m1_def m2_def m3_def)
  note bl = batch_len[OF b]
  have s1: "forward tr (MaxPool1d k1 k1 p1) [b, cout, l] = Inr [b, cout, m1]"
    unfolding m1_def using p1 l c by (intro pool_fwd) auto
  have s2: "forward tr (MaxPool1d k2 k2 p2) [b, cout, m1] = Inr [b, cout, m2]"
    unfolding m2_def using p2 pos(1) c by (intro pool_fwd) auto
  have s3: "forward tr (MaxPool1d 3 3 1) [b, cout, m2] = Inr [b, cout, m3]"
    unfolding m3_def using pos(2) c by (intro pool_fwd) auto
  show ?thesis
    unfolding conv_stack_def Let_def
    using pos
    by (simp only: stem_odd[OF k l b c] stem_odd[OF k pos(2) b c(2,2)]
        stem3_odd[OF k pos(3) b c(2,2)]
        RBs_same[OF c(2) pos(1) bl] RBs_same[OF c(2) pos(2) bl] s1 s2 s3 jump_add_same
        and_then_simps torch_max_dim2.simps) simp
qed

lemma conv_stack_even:
  assumes k: "even k" "0 < k" and b: "tr \<longrightarrow> b \<noteq> 1" and c: "0 < cin" "0 < cout"
    and p1: "0 < k1" "2 * p1 \<le> k1" "k1 \<le> 1 + 2 * p1"
    and p2: "0 < k2" "2 * p2 \<le> k2" "k2 \<le> 1 + 2 * p2"
    and l: "2 \<le> l"
    and m1: "m1 = (l - 1 + 2 * p1 - k1) div k1 + 1"
    and m2: "m2 = (m1 + 2 * p2 - k2) div k2 + 1" "2 \<le> m2"
    and m3: "m3 = (m2 - 1 + 2 * 1 - 3) div 3 + 1" "2 \<le> m3"
  shows "conv_stack tr
           (Sequential [BatchNorm1d cin, Conv1d cin cout k 1 ((k - 1) div 2) 1])
           (MaxPool1d k1 k1 p1)
           (Sequential (map (\<lambda>x. ResBlock_init cout 3 1 ((3 - 1) div 2) 1) [0..<2]))
           (MaxPool1d k2 k2 p2)
           (Sequential [BatchNorm1d cout, Conv1d cout cout k 1 ((k - 1) div 2) 1])
           (Sequential (map (\<lambda>x. ResBlock_init cout 3 1 ((3 - 1) div 2) 1) [0..<2]))
           (MaxPool1d 3 3 1)
           (Sequential [BatchNorm1d cout, Conv1d cout cout k 1 ((k - 1) div 2) 1, ReLU])
           [b, cin, l] = Inr [b, cout]"
proof -
  have pos: "0 < l - 1" "0 < m1" "0 < m2 - 1" "0 < m3 - 1"
    using l m1 m2(2) m3(2) by simp_all
  note bl = batch_len[OF b]
  have s1: "forward tr (MaxPool1d k1 k1 p1) [b, cout, l - 1] = Inr [b, cout, m1]"
    unfolding m1 using p1 pos(1) c by (intro pool_fwd) auto
  have s2: "forward tr (MaxPool1d k2 k2 p2) [b, cout, m1] = Inr [b, cout, m2]"
    unfolding m2(1) using p2 pos(2) c by (intro pool_fwd) auto
  have s3: "forward tr (MaxPool1d 3 3 1) [b, cout, m2 - 1] = Inr [b, cout, m3]"
    unfolding m3(1) using pos(3) c by (intro pool_fwd) auto
  show ?thesis
    unfolding conv_stack_def Let_def
    using pos
    by (simp only: stem_even[OF k l b c] stem_even[OF k m2(2) b c(2,2)]
        stem3_even[OF k m3(2) b c(2,2)]
        RBs_same[OF c(2) pos(2) bl] RBs_same[OF c(2) pos(3) bl] s1 s2 s3 jump_add_same
        and_then_simps torch_max_dim2.simps) simp
qed

lemma conv_stack_even_fail:
  assumes k: "even k" "0 < k" and b: "tr \<longrightarrow> b \<noteq> 1" and c: "0 < cin" "0 < cout"
    and p1: "0 < k1" "2 * p1 \<le> k1" "k1 \<le> 1 + 2 * p1"
    and p2: "0 < k2" "2 * p2 \<le> k2" "k2 \<le> 1 + 2 * p2"
    and l: "2 \<le> l"
    and m1: "m1 = (l - 1 + 2 * p1 - k1) div k1 + 1"
    and m2: "m2 = (m1 + 2 * p2 - k2) div k2 + 1" "2 \<le> m2"
    and m3: "(m2 - 1 + 2 * 1 - 3) div 3 + 1 = 1"
  shows "conv_stack tr
           (Sequential [BatchNorm1d cin, Conv1d cin cout k 1 ((k - 1) div 2) 1])
           (MaxPool1d k1 k1 p1)
           (Sequential (map (\<lambda>x. ResBlock_init cout 3 1 ((3 - 1) div 2) 1) [0..<2]))
           (MaxPool1d k2 k2 p2)
           (Sequential [BatchNorm1d cout, Conv1d cout cout k 1 ((k - 1) div 2) 1])
           (Sequential (map (\<lambda>x. ResBlock_init cout 3 1 ((3 - 1) div 2) 1) [0..<2]))
           (MaxPool1d 3 3 1)
           (Sequential [BatchNorm1d cout, Conv1d cout cout k 1 ((k - 1) div 2) 1, ReLU])
           [b, cin, l] = Inl (RuntimeError ''Kernel size can't be greater than actual input size'')"
proof -
  have pos: "0 < l - 1" "0 < m1" "0 < m2 - 1"
    using l m1 m2(2) by simp_all
  note bl = batch_len[OF b]
  have s1: "forward tr (MaxPool1d k1 k1 p1) [b, cout, l - 1] = Inr [b, cout, m1]"
    unfolding m1 using p1 pos(1) c by (intro pool_fwd) auto
  have s2: "forward tr (MaxPool1d k2 k2 p2) [b, cout, m1] = Inr [b, cout, m2]"
    unfolding m2(1) using p2 pos(2) c by (intro pool_fwd) auto
  have s3: "forward tr (MaxPool1d 3 3 1) [b, cout, m2 - 1] = Inr [b, cout, 1]"
    using pool_fwd[of 3 1 "m2 - 1" cout tr b] pos(3) m3 c by simp
  show ?thesis
    unfolding conv_stack_def Let_def
    by (simp only: stem_even[OF k l b c] stem_even[OF k m2(2) b c(2,2)]
        stem_even_fail[OF k b c(2,2)]
        RBs_same[OF c(2) pos(2) bl] RBs_same[OF c(2) pos(3) bl] s1 s2 s3 jump_add_same
        and_then_simps)
qed

lemma distal_fc_fwd:
  assumes "tr \<longrightarrow> b \<noteq> 1" "0 < c"
  shows "forward tr (Sequential [BatchNorm1d c, Dropout p, Linear c n]) [b, c] = Inr [b, n]"
  using BatchNorm1d_2d[OF assms(2,1)]
  by (simp add: Linear_forward_def del: BatchNorm1d_forward.simps)

lemma softmax_mean_same: "softmax_mean [b, n] [b, n] = Inr [b, n]"
  by (simp add: softmax_mean_def softmax_dim1_def tensor_add_same2)

lemma centred_window:
  assumes "200 < L"
  shows "slice_dim2 [b, c, L] (int L div 2 - 100) (int L div 2 + 100 + 1) = Inr [b, c, 201]"
proof -
  have "slice_len L (int L div 2 - 100) (int L div 2 + 100 + 1) = 201"
    using assms by (simp add: slice_len_def slice_bound_def)
  then show ?thesis by simp
qed

lemma Network1_init_fields:
  assumes "Network1_init cin cout k dr dord p n = Inr self"
  shows "n_class self = n"
    "conv1 self = Sequential [BatchNorm1d cin, Conv1d cin cout k 1 ((k - 1) div 2) 1]"
    "maxpool1 self = MaxPool1d 3 3 1"
    "RBs1 self = Sequential (map (\<lambda>x. ResBlock_init cout 3 1 ((3 - 1) div 2) 1) [0..<2])"
    "maxpool2 self = MaxPool1d 3 3 1"
    "conv2 self = Sequential [BatchNorm1d cout, Conv1d cout cout k 1 ((k - 1) div 2) 1]"
    "RBs2 self = Sequential (map (\<lambda>x. ResBlock_init cout 3 1 ((3 - 1) div 2) 1) [0..<2])"
    "maxpool3 self = MaxPool1d 3 3 1"
    "conv3 self = Sequential [BatchNorm1d cout, Conv1d cout cout k 1 ((k - 1) div 2) 1, ReLU]"
    "distal_fc1 self = Sequential [BatchNorm1d cout, Dropout p, Linear cout n]"
    "conv1_2 self = Sequential [BatchNorm1d cin, Conv1d cin cout k 1 ((k - 1) div 2) 1]"
    "maxpool1_2 self = MaxPool1d 15 15 7"
    "RBs1_2 self = Sequential (map (\<lambda>x. ResBlock_init cout 3 1 ((3 - 1) div 2) 1) [0..<2])"
    "maxpool2_2 self = MaxPool1d 7 7 3"
    "conv2_2 self = Sequential [BatchNorm1d cout, Conv1d cout cout k 1 ((k - 1) div 2) 1]"
    "RBs2_2 self = Sequential (map (\<lambda>x. ResBlock_init cout 3 1 ((3 - 1) div 2) 1) [0..<2])"
    "maxpool3_2 self = MaxPool1d 3 3 1"
    "conv3_2 self = Sequential [BatchNorm1d cout, Conv1d cout cout k 1 ((k - 1) div 2) 1, ReLU]"
    "distal_fc2 self = Sequential [BatchNorm1d cout, Dropout p, Linear cout n]"
    "training self = True"
    "seq_len self = dr * 2 + 1 - (dord - 1)"
  using assms
  by (auto simp add: Network1_init_def Dropout_init_def Let_def split: if_splits)

lemma first_scale:
  assumes k: "0 < k" and b: "tr \<longrightarrow> b \<noteq> 1" and c: "0 < cin" "0 < cout"
  shows "conv_stack tr
           (Sequential [BatchNorm1d cin, Conv1d cin cout k 1 ((k - 1) div 2) 1])
           (MaxPool1d 3 3 1)
           (Sequential (map (\<lambda>x. ResBlock_init cout 3 1 ((3 - 1) div 2) 1) [0..<2]))
           (MaxPool1d 3 3 1)
           (Sequential [BatchNorm1d cout, Conv1d cout cout k 1 ((k - 1) div 2) 1])
           (Sequential (map (\<lambda>x. ResBlock_init cout 3 1 ((3 - 1) div 2) 1) [0..<2]))
           (MaxPool1d 3 3 1)
           (Sequential [BatchNorm1d cout, Conv1d cout cout k 1 ((k - 1) div 2) 1, ReLU])
           [b, cin, 201] = Inr [b, cout]"
proof (cases "odd k")
  case True
  then show ?thesis using b c by (intro conv_stack_odd) simp_all
next
  case False
  then have "even k" by simp
  then show ?thesis using k b c
    by (intro conv_stack_even[where ?m1.0 = 67 and ?m2.0 = 23 and ?m3.0 = 8]) simp_all
qed

lemma second_scale:
  assumes k: "0 < k" and b: "tr \<longrightarrow> b \<noteq> 1" and c: "0 < cin" "0 < cout" and L: "200 < L" and ok: "odd k \<or> 422 \<le> L"
  shows "conv_stack tr
           (Sequential [BatchNorm1d cin, Conv1d cin cout k 1 ((k - 1) div 2) 1])
           (MaxPool1d 15 15 7)
           (Sequential (map (\<lambda>x. ResBlock_init cout 3 1 ((3 - 1) div 2) 1) [0..<2]))
           (MaxPool1d 7 7 3)
           (Sequential [BatchNorm1d cout, Conv1d cout cout k 1 ((k - 1) div 2) 1])
           (Sequential (map (\<lambda>x. ResBlock_init cout 3 1 ((3 - 1) div 2) 1) [0..<2]))
           (MaxPool1d 3 3 1)
           (Sequential [BatchNorm1d cout, Conv1d cout cout k 1 ((k - 1) div 2) 1, ReLU])
           [b, cin, L] = Inr [b, cout]"
proof (cases "odd k")
  case True
  then show ?thesis using b c L by (intro conv_stack_odd) simp_all
next
  case False
  then have e: "even k" and L': "422 \<le> L" using ok by simp_all
  define m1 where "m1 = (L - 1 + 2 * 7 - 15) div 15 + 1"
  define m2 where "m2 = (m1 + 2 * 3 - 7) div 7 + 1"
  define m3 where "m3 = (m2 - 1 + 2 * 1 - 3) div 3 + 1"
  have "29 \<le> m1" using L' unfolding m1_def by simp
  then have "5 \<le> m2" unfolding m2_def by simp
  then have "2 \<le> m3" unfolding m3_def by simp
  show ?thesis
    using e k b c L' \<open>5 \<le> m2\<close> \<open>2 \<le> m3\<close>
    by (intro conv_stack_even[where ?m1.0 = m1 and ?m2.0 = m2 and ?m3.0 = m3])
       (simp_all add: m1_def m2_def m3_def)
qed

lemma second_scale_fail:
  assumes k: "0 < k" "even k" and b: "tr \<longrightarrow> b \<noteq> 1" and c: "0 < cin" "0 < cout" and L: "200 < L" "L < 422"
  shows "conv_stack tr
           (Sequential [BatchNorm1d cin, Conv1d cin cout k 1 ((k - 1) div 2) 1])
           (MaxPool1d 15 15 7)
           (Sequential (map (\<lambda>x. ResBlock_init cout 3 1 ((3 - 1) div 2) 1) [0..<2]))
           (MaxPool1d 7 7 3)
           (Sequential [BatchNorm1d cout, Conv1d cout cout k 1 ((k - 1) div 2) 1])
           (Sequential (map (\<lambda>x. ResBlock_init cout 3 1 ((3 - 1) div 2) 1) [0..<2]))
           (MaxPool1d 3 3 1)
           (Sequential [BatchNorm1d cout, Conv1d cout cout k 1 ((k - 1) div 2) 1, ReLU])
           [b, cin, L] = Inl (RuntimeError ''Kernel size can't be greater than actual input size'')"
proof -
  define m1 where "m1 = (L - 1 + 2 * 7 - 15) div 15 + 1"
  define m2 where "m2 = (m1 + 2 * 3 - 7) div 7 + 1"
  have "14 \<le> m1" "m1 \<le> 28" using L unfolding m1_def by simp_all
  then have "2 \<le> m2" "m2 \<le> 4" unfolding m2_def by simp_all
  then have "(m2 - 1 + 2 * 1 - 3) div 3 + 1 = 1" by simp
  then show ?thesis
    using k b c L \<open>2 \<le> m2\<close>
    by (intro conv_stack_even_fail[where ?m1.0 = m1 and ?m2.0 = m2])
       (simp_all add: m1_def m2_def)
qed

lemma Network1_mode_fields:
  assumes "Network1_init cin cout k dr dord p n = Inr self"
  shows "training (self\<lparr>training := tr\<rparr>) = tr"
    "conv1 (self\<lparr>training := tr\<rparr>) = Sequential [BatchNorm1d cin, Conv1d cin cout k 1 ((k - 1) div 2) 1]"
    "maxpool1 (self\<lparr>training := tr\<rparr>) = MaxPool1d 3 3 1"
    "RBs1 (self\<lparr>training := tr\<rparr>) = Sequential (map (\<lambda>x. ResBlock_init cout 3 1 ((3 - 1) div 2) 1) [0..<2])"
    "maxpool2 (self\<lparr>training := tr\<rparr>) = MaxPool1d 3 3 1"
    "conv2 (self\<lparr>training := tr\<rparr>) = Sequential [BatchNorm1d cout, Conv1d cout cout k 1 ((k - 1) div 2) 1]"
    "RBs2 (self\<lparr>training := tr\<rparr>) = Sequential (map (\<lambda>x. ResBlock_init cout 3 1 ((3 - 1) div 2) 1) [0..<2])"
    "maxpool3 (self\<lparr>training := tr\<rparr>) = MaxPool1d 3 3 1"
    "conv3 (self\<lparr>training := tr\<rparr>) = Sequential [BatchNorm1d cout, Conv1d cout cout k 1 ((k - 1) div 2) 1, ReLU]"
    "distal_fc1 (self\<lparr>training := tr\<rparr>) = Sequential [BatchNorm1d cout, Dropout p, Linear cout n]"
    "conv1_2 (self\<lparr>training := tr\<rparr>) = Sequential [BatchNorm1d cin, Conv1d cin cout k 1 ((k - 1) div 2) 1]"
    "maxpool1_2 (self\<lparr>training := tr\<rparr>) = MaxPool1d 15 15 7"
    "RBs1_2 (self\<lparr>training := tr\<rparr>) = Sequential (map (\<lambda>x. ResBlock_init cout 3 1 ((3 - 1) div 2) 1) [0..<2])"
    "maxpool2_2 (self\<lparr>training := tr\<rparr>) = MaxPool1d 7 7 3"
    "conv2_2 (self\<lparr>training := tr\<rparr>) = Sequential [BatchNorm1d cout, Conv1d cout cout k 1 ((k - 1) div 2) 1]"
    "RBs2_2 (self\<lparr>training := tr\<rparr>) = Sequential (map (\<lambda>x. ResBlock_init cout 3 1 ((3 - 1) div 2) 1) [0..<2])"
    "maxpool3_2 (self\<lparr>training := tr\<rparr>) = MaxPool1d 3 3 1"
    "conv3_2 (self\<lparr>training := tr\<rparr>) = Sequential [BatchNorm1d cout, Conv1d cout cout k 1 ((k - 1) div 2) 1, ReLU]"
    "distal_fc2 (self\<lparr>training := tr\<rparr>) = Sequential [BatchNorm1d cout, Dropout p, Linear cout n]"
  using Network1_init_fields[OF assms] by simp_all

lemma Network1_forward_shape:
  assumes init: "Network1_init cin cout k dr dord p n = Inr self"
    and k: "0 < k" and L: "200 < L" and b: "tr \<longrightarrow> b \<noteq> 1" and c: "0 < cin" "0 < cout" and ok: "odd k \<or> 422 \<le> L"
  shows "Network1_forward (self\<lparr>training := tr\<rparr>) local_input [b, cin, L] = Inr [b, n]"
proof -
  have at2: "shape_at [b, cin, L] 2 = Inr L" by (simp add: shape_at_def)
  show ?thesis
    unfolding Network1_forward_def
    using L
    by (simp only: at2 and_then_simps Network1_mode_fields[OF init]
        centred_window[OF L] first_scale[OF k b c] second_scale[OF k b c L ok]
        distal_fc_fwd[OF b c(2)]
        softmax_mean_same if_False not_not if_True not_True_eq_False)
qed

lemma Network1_forward_even_fail:
  assumes init: "Network1_init cin cout k dr dord p n = Inr self"
    and k: "0 < k" "even k" and L: "200 < L" "L < 422" and b: "tr \<longrightarrow> b \<noteq> 1" and c: "0 < cin" "0 < cout"
  shows "Network1_forward (self\<lparr>training := tr\<rparr>) local_input [b, cin, L]
         = Inl (RuntimeError ''Kernel size can't be greater than actual input size'')"
proof -
  have at2: "shape_at [b, cin, L] 2 = Inr L" by (simp add: shape_at_def)
  show ?thesis
    unfolding Network1_forward_def
    using L
    by (simp only: at2 and_then_simps Network1_mode_fields[OF init]
        centred_window[OF L(1)] first_scale[OF k(1) b c] second_scale_fail[OF k b c L]
        distal_fc_fwd[OF b c(2)] if_False not_not if_True not_True_eq_False)
qed

lemma embed_columns_ok:
  assumes "\<forall>i \<in> set is. i < n_cols cat_data \<and>
             (\<forall>r < n_rows cat_data. 0 \<le> entry cat_data r i \<and> entry cat_data r i < int num)"
  shows "embed_columns (Embedding num dm) cat_data is
         = Inr (replicate (length is) [n_rows cat_data, dm])"
  using assms
proof (induction "is")
  case Nil
  then show ?case by simp
next
  case (Cons i "is")
  then have i: "i < n_cols cat_data"
    and e: "\<forall>r < n_rows cat_data. 0 \<le> entry cat_data r i \<and> entry cat_data r i < int num"
    by simp_all
  have col: "select_column cat_data i = Inr (map (\<lambda>r. entry cat_data r i) [0..<n_rows cat_data])"
    using i by (simp add: select_column_def)
  have emb: "Embedding_forward (Embedding num dm) (map (\<lambda>r. entry cat_data r i) [0..<n_rows cat_data])
             = Inr [n_rows cat_data, dm]"
    using e by (simp add: list_all_iff)
  show ?case using Cons col emb by simp
qed

lemma torch_cat_replicate:
  "torch_cat_dim1 (replicate (Suc m) [b, d]) = Inr [b, Suc m * d]"
  by (induction m) simp_all

lemma make_lin_layers_eq:
  assumes "sizes \<noteq> []"
  shows "make_lin_layers a sizes = map2 Linear (a # butlast sizes) sizes"
proof (rule nth_equalityI)
  show "length (make_lin_layers a sizes) = length (map2 Linear (a # butlast sizes) sizes)"
    using assms by (simp add: make_lin_layers_def)
next
  fix i assume i: "i < length (make_lin_layers a sizes)"
  then have il: "i < length sizes" using assms by (simp add: make_lin_layers_def)
  show "make_lin_layers a sizes ! i = map2 Linear (a # butlast sizes) sizes ! i"
  proof (cases i)
    case 0
    then show ?thesis using assms by (cases sizes) (simp_all add: make_lin_layers_def)
  next
    case (Suc j)
    then have "j < length sizes - 1" using il by simp
    then show ?thesis using Suc il
      by (simp add: make_lin_layers_def nth_butlast)
  qed
qed

lemma lin_step:
  assumes "0 < s" "tr \<longrightarrow> b \<noteq> 1"
  shows "and_then (forward tr (Linear a s) [b, a]) (\<lambda>local_out.
         and_then (forward tr ReLU local_out) (\<lambda>local_out.
         and_then (forward tr (BatchNorm1d s) local_out) (\<lambda>local_out.
         and_then (forward tr (Dropout p) local_out) f))) = f [b, s]"
  using BatchNorm1d_2d[OF assms]
  by (simp add: Linear_forward_def del: BatchNorm1d_forward.simps)

lemma lin_loop_ok:
  assumes "length sizes \<le> length ps" "tr \<longrightarrow> b \<noteq> 1" "\<forall>s \<in> set sizes. 0 < s"
  shows "lin_loop tr (zip (map2 Linear (a # butlast sizes) sizes)
                        (zip (map Dropout ps) (map BatchNorm1d sizes))) [b, a]
         = Inr [b, last (a # sizes)]"
  using assms
proof (induction sizes arbitrary: a ps)
  case Nil
  then show ?case by simp
next
  case (Cons s sizes)
  then obtain p ps' where ps: "ps = p # ps'" by (cases ps) auto
  have s: "0 < s" using Cons.prems(3) by simp
  have step: "lin_loop tr (zip (map2 Linear (s # butlast sizes) sizes)
                             (zip (map Dropout ps') (map BatchNorm1d sizes))) [b, s]
        = Inr [b, last (s # sizes)]"
    using Cons.IH[of ps' s] Cons.prems ps by simp
  show ?case
  proof (cases sizes)
    case Nil
    then show ?thesis
      by (simp add: ps lin_step[OF s Cons.prems(2)] del: forward.simps)
  next
    case (Cons s' rest)
    then show ?thesis using step
      by (simp add: ps lin_step[OF s Cons.prems(2)] del: forward.simps)
  qed
qed

lemma Dropout_init_list_Inr:
  "Dropout_init_list ps = Inr ds \<Longrightarrow> ds = map Dropout ps"
proof (induction ps arbitrary: ds)
  case Nil
  then show ?case by simp
next
  case (Cons p ps)
  then show ?case
    by (auto simp add: and_then_def Dropout_init_def split: if_splits sum.splits)
qed

text \<open>The local layers on a well-formed local input.\<close>

lemma local_layers_ok:
  assumes sizes: "sizes \<noteq> []" "length sizes \<le> length ps" "\<forall>s \<in> set sizes. 0 < s"
    and b: "tr \<longrightarrow> b \<noteq> 1"
    and cat: "0 < ncat" "n_rows cat_data = b" "ncat \<le> n_cols cat_data"
      "\<forall>i < ncat. \<forall>r < b. 0 \<le> entry cat_data r i \<and> entry cat_data r i < int num"
  shows "local_layers tr (ncat * 5) ncat (Embedding num 5) (Dropout q) ncont (BatchNorm1d ncont)
           (make_lin_layers (ncat * 5 + ncont) sizes) (map Dropout ps) (map BatchNorm1d sizes)
           [b, ncont] cat_data
         = Inr [b, last sizes]"
proof -
  obtain m where m: "ncat = Suc m" using cat(1) by (cases ncat) auto
  have emb: "embed_columns (Embedding num 5) cat_data [0..<ncat]
             = Inr (replicate ncat [b, 5])"
    using embed_columns_ok[of "[0..<ncat]" cat_data num 5] cat by auto
  have cat1: "torch_cat_dim1 (replicate ncat [b, 5]) = Inr [b, ncat * 5]"
    unfolding m by (rule torch_cat_replicate)
  have bn: "ncont \<noteq> 0 \<Longrightarrow> forward tr (BatchNorm1d ncont) [b, ncont] = Inr [b, ncont]"
    using BatchNorm1d_2d[OF _ b, of ncont] by simp
  have loop: "lin_loop tr (zip (make_lin_layers (ncat * 5 + ncont) sizes)
                (zip (map Dropout ps) (map BatchNorm1d sizes))) [b, ncat * 5 + ncont]
              = Inr [b, last sizes]"
    using lin_loop_ok[OF sizes(2) b sizes(3), of "ncat * 5 + ncont"] sizes(1)
    by (simp add: make_lin_layers_eq)
  show ?thesis
  proof (cases "ncont = 0")
    case True
    then show ?thesis using cat(1) emb cat1 loop by (simp add: local_layers_def)
  next
    case False
    have dr: "forward tr (Dropout q) [b, ncat * 5] = Inr [b, ncat * 5]" by simp
    from False show ?thesis using cat(1) emb cat1 bn loop dr
      by (simp add: local_layers_def del: forward.simps)
  qed
qed

lemma local_layers_no_embeddings:
  "local_layers tr 0 ncat emb dl ncont bn lins drops bns cont_data cat_data
   = Inl (UnboundLocalError ''local variable local_out referenced before assignment'')"
  by (simp add: local_layers_def)

lemma Network2_mode_fields:
  assumes "Network2_init emb_dims ncont sizes ed drops cin cout k dr dord p n pad = Inr self"
  shows "training (self\<lparr>training := tr\<rparr>) = tr"
    "conv1 (self\<lparr>training := tr\<rparr>) = Sequential [BatchNorm1d cin, Conv1d cin cout k 1 ((k - 1) div 2) 1]"
    "maxpool1 (self\<lparr>training := tr\<rparr>) = MaxPool1d 3 3 1"
    "RBs1 (self\<lparr>training := tr\<rparr>) = Sequential (map (\<lambda>x. ResBlock_init cout 3 1 ((3 - 1) div 2) 1) [0..<2])"
    "maxpool2 (self\<lparr>training := tr\<rparr>) = MaxPool1d 3 3 1"
    "conv2 (self\<lparr>training := tr\<rparr>) = Sequential [BatchNorm1d cout, Conv1d cout cout k 1 ((k - 1) div 2) 1]"
    "RBs2 (self\<lparr>training := tr\<rparr>) = Sequential (map (\<lambda>x. ResBlock_init cout 3 1 ((3 - 1) div 2) 1) [0..<2])"
    "maxpool3 (self\<lparr>training := tr\<rparr>) = MaxPool1d 3 3 1"
    "conv3 (self\<lparr>training := tr\<rparr>) = Sequential [BatchNorm1d cout, Conv1d cout cout k 1 ((k - 1) div 2) 1, ReLU]"
    "distal_fc1 (self\<lparr>training := tr\<rparr>) = Sequential [BatchNorm1d cout, Dropout p, Linear cout n]"
    "conv1_2 (self\<lparr>training := tr\<rparr>) = Sequential [BatchNorm1d cin, Conv1d cin cout k 1 ((k - 1) div 2) 1]"
    "maxpool1_2 (self\<lparr>training := tr\<rparr>) = MaxPool1d 15 15 7"
    "RBs1_2 (self\<lparr>training := tr\<rparr>) = Sequential (map (\<lambda>x. ResBlock_init cout 3 1 ((3 - 1) div 2) 1) [0..<2])"
    "maxpool2_2 (self\<lparr>training := tr\<rparr>) = MaxPool1d 7 7 3"
    "conv2_2 (self\<lparr>training := tr\<rparr>) = Sequential [BatchNorm1d cout, Conv1d cout cout k 1 ((k - 1) div 2) 1]"
    "RBs2_2 (self\<lparr>training := tr\<rparr>) = Sequential (map (\<lambda>x. ResBlock_init cout 3 1 ((3 - 1) div 2) 1) [0..<2])"
    "maxpool3_2 (self\<lparr>training := tr\<rparr>) = MaxPool1d 3 3 1"
    "conv3_2 (self\<lparr>training := tr\<rparr>) = Sequential [BatchNorm1d cout, Conv1d cout cout k 1 ((k - 1) div 2) 1, ReLU]"
    "distal_fc2 (self\<lparr>training := tr\<rparr>) = Sequential [BatchNorm1d cout, Dropout p, Linear cout n]"
    "no_of_cat (self\<lparr>training := tr\<rparr>) = length emb_dims"
    "emb_layer (self\<lparr>training := tr\<rparr>) = Embedding (the pad + 1) 5"
    "no_of_embs (self\<lparr>training := tr\<rparr>) = length emb_dims * 5"
    "no_of_cont (self\<lparr>training := tr\<rparr>) = ncont"
    "lin_layers (self\<lparr>training := tr\<rparr>) = make_lin_layers (length emb_dims * 5 + ncont) sizes"
    "first_bn_layer (self\<lparr>training := tr\<rparr>) = BatchNorm1d ncont"
    "bn_layers (self\<lparr>training := tr\<rparr>) = map BatchNorm1d sizes"
    "emb_dropout_layer (self\<lparr>training := tr\<rparr>) = Dropout ed"
    "droput_layers (self\<lparr>training := tr\<rparr>) = map Dropout drops"
    "local_fc (self\<lparr>training := tr\<rparr>) = Sequential [Linear (last sizes) n]"
    "sizes \<noteq> []"
proof -
  from assms obtain padding_idx where pad: "pad = Some padding_idx"
    by (cases pad) (simp_all add: Network2_init_def)
  from assms pad have ne: "sizes \<noteq> []"
    by (auto simp add: Network2_init_def split: if_splits)
  from assms pad ne obtain ds where ds: "Dropout_init_list drops = Inr ds"
    by (cases "Dropout_init_list drops")
       (auto simp add: Network2_init_def Let_def Dropout_init_def split: if_splits)
  have ds': "ds = map Dropout drops" using ds by (rule Dropout_init_list_Inr)
  have self: "self = \<lparr> n_class = n, kernel_size = k, seq_len = dr * 2 + 1 - (dord - 1),
      conv1 = Sequential [BatchNorm1d cin, Conv1d cin cout k 1 ((k - 1) div 2) 1],
      maxpool1 = MaxPool1d 3 3 1,
      RBs1 = Sequential (map (\<lambda>x. ResBlock_init cout 3 1 ((3 - 1) div 2) 1) [0..<2]),
      maxpool2 = MaxPool1d 3 3 1,
      conv2 = Sequential [BatchNorm1d cout, Conv1d cout cout k 1 ((k - 1) div 2) 1],
      RBs2 = Sequential (map (\<lambda>x. ResBlock_init cout 3 1 ((3 - 1) div 2) 1) [0..<2]),
      maxpool3 = MaxPool1d 3 3 1,
      conv3 = Sequential [BatchNorm1d cout, Conv1d cout cout k 1 ((k - 1) div 2) 1, ReLU],
      distal_fc1 = Sequential [BatchNorm1d cout, Dropout p, Linear cout n],
      conv1_2 = Sequential [BatchNorm1d cin, Conv1d cin cout k 1 ((k - 1) div 2) 1],
      maxpool1_2 = MaxPool1d 15 15 7,
      RBs1_2 = Sequential (map (\<lambda>x. ResBlock_init cout 3 1 ((3 - 1) div 2) 1) [0..<2]),
      maxpool2_2 = MaxPool1d 7 7 3,
      conv2_2 = Sequential [BatchNorm1d cout, Conv1d cout cout k 1 ((k - 1) div 2) 1],
      RBs2_2 = Sequential (map (\<lambda>x. ResBlock_init cout 3 1 ((3 - 1) div 2) 1) [0..<2]),
      maxpool3_2 = MaxPool1d 3 3 1,
      conv3_2 = Sequential [BatchNorm1d cout, Conv1d cout cout k 1 ((k - 1) div 2) 1, ReLU],
      distal_fc2 = Sequential [BatchNorm1d cout, Dropout p, Linear cout n],
      training = True,
      no_of_cat = length emb_dims,
      emb_layer = Embedding (padding_idx + 1) 5,
      no_of_embs = length emb_dims * 5,
      no_of_cont = ncont,
      lin_layers = make_lin_layers (length emb_dims * 5 + ncont) sizes,
      first_bn_layer = BatchNorm1d ncont,
      bn_layers = map BatchNorm1d sizes,
      emb_dropout_layer = Dropout ed,
      droput_layers = map Dropout drops,
      local_fc = Sequential [Linear (last sizes) n] \<rparr>"
    using assms pad ne ds ds'
    by (auto simp add: Network2_init_def Let_def Dropout_init_def split: if_splits)
  show "training (self\<lparr>training := tr\<rparr>) = tr"
    "conv1 (self\<lparr>training := tr\<rparr>) = Sequential [BatchNorm1d cin, Conv1d cin cout k 1 ((k - 1) div 2) 1]"
    "maxpool1 (self\<lparr>training := tr\<rparr>) = MaxPool1d 3 3 1"
    "RBs1 (self\<lparr>training := tr\<rparr>) = Sequential (map (\<lambda>x. ResBlock_init cout 3 1 ((3 - 1) div 2) 1) [0..<2])"
    "maxpool2 (self\<lparr>training := tr\<rparr>) = MaxPool1d 3 3 1"
    "conv2 (self\<lparr>training := tr\<rparr>) = Sequential [BatchNorm1d cout, Conv1d cout cout k 1 ((k - 1) div 2) 1]"
    "RBs2 (self\<lparr>training := tr\<rparr>) = Sequential (map (\<lambda>x. ResBlock_init cout 3 1 ((3 - 1) div 2) 1) [0..<2])"
    "maxpool3 (self\<lparr>training := tr\<rparr>) = MaxPool1d 3 3 1"
    "conv3 (self\<lparr>training := tr\<rparr>) = Sequential [BatchNorm1d cout, Conv1d cout cout k 1 ((k - 1) div 2) 1, ReLU]"
    "distal_fc1 (self\<lparr>training := tr\<rparr>) = Sequential [BatchNorm1d cout, Dropout p, Linear cout n]"
    "conv1_2 (self\<lparr>training := tr\<rparr>) = Sequential [BatchNorm1d cin, Conv1d cin cout k 1 ((k - 1) div 2) 1]"
    "maxpool1_2 (self\<lparr>training := tr\<rparr>) = MaxPool1d 15 15 7"
    "RBs1_2 (self\<lparr>training := tr\<rparr>) = Sequential (map (\<lambda>x. ResBlock_init cout 3 1 ((3 - 1) div 2) 1) [0..<2])"
    "maxpool2_2 (self\<lparr>training := tr\<rparr>) = MaxPool1d 7 7 3"
    "conv2_2 (self\<lparr>training := tr\<rparr>) = Sequential [BatchNorm1d cout, Conv1d cout cout k 1 ((k - 1) div 2) 1]"
    "RBs2_2 (self\<lparr>training := tr\<rparr>) = Sequential (map (\<lambda>x. ResBlock_init cout 3 1 ((3 - 1) div 2) 1) [0..<2])"
    "maxpool3_2 (self\<lparr>training := tr\<rparr>) = MaxPool1d 3 3 1"
    "conv3_2 (self\<lparr>training := tr\<rparr>) = Sequential [BatchNorm1d cout, Conv1d cout cout k 1 ((k - 1) div 2) 1, ReLU]"
    "distal_fc2 (self\<lparr>training := tr\<rparr>) = Sequential [BatchNorm1d cout, Dropout p, Linear cout n]"
    "no_of_cat (self\<lparr>training := tr\<rparr>) = length emb_dims"
    "emb_layer (self\<lparr>training := tr\<rparr>) = Embedding (the pad + 1) 5"
    "no_of_embs (self\<lparr>training := tr\<rparr>) = length emb_dims * 5"
    "no_of_cont (self\<lparr>training := tr\<rparr>) = ncont"
    "lin_layers (self\<lparr>training := tr\<rparr>) = make_lin_layers (length emb_dims * 5 + ncont) sizes"
    "first_bn_layer (self\<lparr>training := tr\<rparr>) = BatchNorm1d ncont"
    "bn_layers (self\<lparr>training := tr\<rparr>) = map BatchNorm1d sizes"
    "emb_dropout_layer (self\<lparr>training := tr\<rparr>) = Dropout ed"
    "droput_layers (self\<lparr>training := tr\<rparr>) = map Dropout drops"
    "local_fc (self\<lparr>training := tr\<rparr>) = Sequential [Linear (last sizes) n]"
    "sizes \<noteq> []"
    unfolding self using pad ne by simp_all
qed

lemma diagnostic_print_ok:
  assumes "2 \<le> n"
  shows "diagnostic_print tr u [b, n] [b, n] = Inr ()"
  using assms by (simp add: diagnostic_print_def shape_at_def)

lemma local_fc_fwd: "forward tr (Sequential [Linear m n]) [b, m] = Inr [b, n]"
  by (simp add: Linear_forward_def)

lemma Network2_local_layers_ok:
  assumes init: "Network2_init emb_dims ncont sizes ed drops cin cout k dr dord p n (Some pad) = Inr self"
    and b: "tr \<longrightarrow> b \<noteq> 1"
    and pos: "\<forall>s \<in> set sizes. 0 < s"
    and loc: "emb_dims \<noteq> []" "length sizes \<le> length drops"
      "n_rows cat_data = b" "length emb_dims \<le> n_cols cat_data"
      "\<forall>i < length emb_dims. \<forall>r < b. 0 \<le> entry cat_data r i \<and> entry cat_data r i \<le> int pad"
  shows "local_layers (training (self\<lparr>training := tr\<rparr>)) (no_of_embs (self\<lparr>training := tr\<rparr>))
           (no_of_cat (self\<lparr>training := tr\<rparr>)) (emb_layer (self\<lparr>training := tr\<rparr>))
           (emb_dropout_layer (self\<lparr>training := tr\<rparr>)) (no_of_cont (self\<lparr>training := tr\<rparr>))
           (first_bn_layer (self\<lparr>training := tr\<rparr>)) (lin_layers (self\<lparr>training := tr\<rparr>))
           (droput_layers (self\<lparr>training := tr\<rparr>)) (bn_layers (self\<lparr>training := tr\<rparr>))
           [b, ncont] cat_data
         = Inr [b, last sizes]"
proof -
  note f = Network2_mode_fields[OF init]
  have e: "\<forall>i < length emb_dims. \<forall>r < b. 0 \<le> entry cat_data r i \<and> entry cat_data r i < int (pad + 1)"
  proof (intro allI impI)
    fix i r assume "i < length emb_dims" "r < b"
    with loc(5) have "0 \<le> entry cat_data r i \<and> entry cat_data r i \<le> int pad" by blast
    then show "0 \<le> entry cat_data r i \<and> entry cat_data r i < int (pad + 1)" by simp
  qed
  show ?thesis
    unfolding f option.sel
    using loc(1) by (intro local_layers_ok f(30) loc(2,3,4) b e pos) simp
qed

lemma Network2_forward_shape:
  assumes init: "Network2_init emb_dims ncont sizes ed drops cin cout k dr dord p n (Some pad) = Inr self"
    and k: "0 < k" and L: "200 < L" and b: "tr \<longrightarrow> b \<noteq> 1" and ok: "odd k \<or> 422 \<le> L"
    and c: "0 < cin" "0 < cout" and pos: "\<forall>s \<in> set sizes. 0 < s"
    and n: "2 \<le> n"
    and loc: "emb_dims \<noteq> []" "length sizes \<le> length drops"
      "n_rows cat_data = b" "length emb_dims \<le> n_cols cat_data"
      "\<forall>i < length emb_dims. \<forall>r < b. 0 \<le> entry cat_data r i \<and> entry cat_data r i \<le> int pad"
  shows "Network2_forward (self\<lparr>training := tr\<rparr>) ([b, ncont], cat_data) [b, cin, L] u = Inr [b, n]"
proof -
  note f = Network2_mode_fields[OF init]
  have at2: "shape_at [b, cin, L] 2 = Inr L" by (simp add: shape_at_def)
  have sm: "softmax_dim1 [b, n] = Inr [b, n]" by (simp add: softmax_dim1_def)
  show ?thesis
    unfolding Network2_forward_def prod.case Network2_local_layers_ok[OF init b pos loc]
    using L
    by (simp only: at2 and_then_simps f(1-19) f(29)
        centred_window[OF L] first_scale[OF k b c] second_scale[OF k b c L ok]
        distal_fc_fwd[OF b c(2)] local_fc_fwd softmax_mean_same sm diagnostic_print_ok[OF n] tensor_add_same2
        if_False not_not if_True not_True_eq_False)
qed

lemma Network2_forward_even_fail:
  assumes init: "Network2_init emb_dims ncont sizes ed drops cin cout k dr dord p n (Some pad) = Inr self"
    and k: "0 < k" "even k" and L: "200 < L" "L < 422" and b: "tr \<longrightarrow> b \<noteq> 1"
    and c: "0 < cin" "0 < cout" and pos: "\<forall>s \<in> set sizes. 0 < s"
    and loc: "emb_dims \<noteq> []" "length sizes \<le> length drops"
      "n_rows cat_data = b" "length emb_dims \<le> n_cols cat_data"
      "\<forall>i < length emb_dims. \<forall>r < b. 0 \<le> entry cat_data r i \<and> entry cat_data r i \<le> int pad"
  shows "Network2_forward (self\<lparr>training := tr\<rparr>) ([b, ncont], cat_data) [b, cin, L] u
         = Inl (RuntimeError ''Kernel size can't be greater than actual input size'')"
proof -
  note f = Network2_mode_fields[OF init]
  have at2: "shape_at [b, cin, L] 2 = Inr L" by (simp add: shape_at_def)
  show ?thesis
    unfolding Network2_forward_def prod.case Network2_local_layers_ok[OF init b pos loc]
    using L
    by (simp only: at2 and_then_simps f(1-19) f(29)
        centred_window[OF L(1)] first_scale[OF k(1) b c] second_scale_fail[OF k b c L]
        distal_fc_fwd[OF b c(2)] local_fc_fwd
        if_False not_not if_True not_True_eq_False)
qed

lemma Network2_forward_short:
  assumes "L \<le> 200"
    and "local_layers (training self) (no_of_embs self) (no_of_cat self) (emb_layer self)
           (emb_dropout_layer self) (no_of_cont self) (first_bn_layer self)
           (lin_layers self) (droput_layers self) (bn_layers self) cont_data cat_data
         = Inr local_out"
  shows "Network2_forward self (cont_data, cat_data) [b, c, L] u
         = Inl (AssertionError ''Error: distal seq len must be >200'')"
  using assms by (simp add: Network2_forward_def shape_at_def)

lemma FeedForwardNN_init_no_of_embs:
  assumes "FeedForwardNN_init emb_dims ncont sizes ed drops n pad = Inr self"
  shows "FeedForwardNN.no_of_embs (self\<lparr>FeedForwardNN.training := tr\<rparr>) = length emb_dims * 5"
    "FeedForwardNN.no_of_cont (self\<lparr>FeedForwardNN.training := tr\<rparr>) = ncont"
  using assms
  by (auto simp add: FeedForwardNN_init_def Let_def Dropout_init_def and_then_def
      split: option.splits if_splits sum.splits)

lemma Network2_init_no_of_embs:
  assumes "Network2_init emb_dims ncont sizes ed drops cin cout k dr dord p n pad = Inr self"
  shows "no_of_embs (self\<lparr>training := tr\<rparr>) = length emb_dims * 5"
    "no_of_cont (self\<lparr>training := tr\<rparr>) = ncont"
  using assms
  by (auto simp add: Network2_init_def Let_def Dropout_init_def and_then_def
      split: option.splits if_splits sum.splits)

text \<open>The other half: without continuous features the local layers do not read \<open>cont_data\<close>.\<close>

lemma FeedForwardNN_mode_fields:
  assumes "FeedForwardNN_init emb_dims ncont sizes ed drops n (Some pad) = Inr self"
  shows "FeedForwardNN.training (self\<lparr>FeedForwardNN.training := tr\<rparr>) = tr"
    "FeedForwardNN.no_of_cat (self\<lparr>FeedForwardNN.training := tr\<rparr>) = length emb_dims"
    "FeedForwardNN.emb_layer (self\<lparr>FeedForwardNN.training := tr\<rparr>) = Embedding (pad + 1) 5"
    "FeedForwardNN.no_of_embs (self\<lparr>FeedForwardNN.training := tr\<rparr>) = length emb_dims * 5"
    "FeedForwardNN.no_of_cont (self\<lparr>FeedForwardNN.training := tr\<rparr>) = ncont"
    "FeedForwardNN.lin_layers (self\<lparr>FeedForwardNN.training := tr\<rparr>)
       = make_lin_layers (length emb_dims * 5 + ncont) sizes"
    "FeedForwardNN.first_bn_layer (self\<lparr>FeedForwardNN.training := tr\<rparr>) = BatchNorm1d ncont"
    "FeedForwardNN.bn_layers (self\<lparr>FeedForwardNN.training := tr\<rparr>) = map BatchNorm1d sizes"
    "FeedForwardNN.emb_dropout_layer (self\<lparr>FeedForwardNN.training := tr\<rparr>) = Dropout ed"
    "FeedForwardNN.droput_layers (self\<lparr>FeedForwardNN.training := tr\<rparr>) = map Dropout drops"
    "output_layer (self\<lparr>FeedForwardNN.training := tr\<rparr>) = Linear (last sizes) n"
    "sizes \<noteq> []"
proof -
  from assms have ne: "sizes \<noteq> []"
    by (auto simp add: FeedForwardNN_init_def split: if_splits)
  from assms ne obtain ds where ds: "Dropout_init_list drops = Inr ds"
    by (cases "Dropout_init_list drops")
       (auto simp add: FeedForwardNN_init_def Let_def Dropout_init_def split: if_splits)
  have ds': "ds = map Dropout drops" using ds by (rule Dropout_init_list_Inr)
  have self: "self = \<lparr> FeedForwardNN.n_class = n,
      no_of_cat = length emb_dims,
      emb_layer = Embedding (pad + 1) 5,
      no_of_embs = length emb_dims * 5,
      no_of_cont = ncont,
      lin_layers = make_lin_layers (length emb_dims * 5 + ncont) sizes,
      first_bn_layer = BatchNorm1d ncont,
      bn_layers = map BatchNorm1d sizes,
      emb_dropout_layer = Dropout ed,
      droput_layers = map Dropout drops,
      output_layer = Linear (last sizes) n,
      training = True \<rparr>"
    using assms ne ds ds'
    by (auto simp add: FeedForwardNN_init_def Let_def Dropout_init_def split: if_splits)
  show "FeedForwardNN.training (self\<lparr>FeedForwardNN.training := tr\<rparr>) = tr"
    "FeedForwardNN.no_of_cat (self\<lparr>FeedForwardNN.training := tr\<rparr>) = length emb_dims"
    "FeedForwardNN.emb_layer (self\<lparr>FeedForwardNN.training := tr\<rparr>) = Embedding (pad + 1) 5"
    "FeedForwardNN.no_of_embs (self\<lparr>FeedForwardNN.training := tr\<rparr>) = length emb_dims * 5"
    "FeedForwardNN.no_of_cont (self\<lparr>FeedForwardNN.training := tr\<rparr>) = ncont"
    "FeedForwardNN.lin_layers (self\<lparr>FeedForwardNN.training := tr\<rparr>)
       = make_lin_layers (length emb_dims * 5 + ncont) sizes"
    "FeedForwardNN.first_bn_layer (self\<lparr>FeedForwardNN.training := tr\<rparr>) = BatchNorm1d ncont"
    "FeedForwardNN.bn_layers (self\<lparr>FeedForwardNN.training := tr\<rparr>) = map BatchNorm1d sizes"
    "FeedForwardNN.emb_dropout_layer (self\<lparr>FeedForwardNN.training := tr\<rparr>) = Dropout ed"
    "FeedForwardNN.droput_layers (self\<lparr>FeedForwardNN.training := tr\<rparr>) = map Dropout drops"
    "output_layer (self\<lparr>FeedForwardNN.training := tr\<rparr>) = Linear (last sizes) n"
    "sizes \<noteq> []"
    unfolding self using ne by simp_all
qed

lemma FeedForwardNN_forward_shape:
  assumes init: "FeedForwardNN_init emb_dims ncont sizes ed drops n (Some pad) = Inr self"
    and b: "tr \<longrightarrow> b \<noteq> 1"
    and pos: "\<forall>s \<in> set sizes. 0 < s"
    and loc: "emb_dims \<noteq> []" "length sizes \<le> length drops"
      "n_rows cat_data = b" "length emb_dims \<le> n_cols cat_data"
      "\<forall>i < length emb_dims. \<forall>r < b. 0 \<le> entry cat_data r i \<and> entry cat_data r i \<le> int pad"
  shows "FeedForwardNN_forward (self\<lparr>FeedForwardNN.training := tr\<rparr>) [b, ncont] cat_data = Inr [b, n]"
proof -
  note f = FeedForwardNN_mode_fields[OF init]
  have e: "\<forall>i < length emb_dims. \<forall>r < b. 0 \<le> entry cat_data r i \<and> entry cat_data r i < int (pad + 1)"
  proof (intro allI impI)
    fix i r assume "i < length emb_dims" "r < b"
    with loc(5) have "0 \<le> entry cat_data r i \<and> entry cat_data r i \<le> int pad" by blast
    then show "0 \<le> entry cat_data r i \<and> entry cat_data r i < int (pad + 1)" by simp
  qed
  have ll: "local_layers tr (length emb_dims * 5) (length emb_dims) (Embedding (pad + 1) 5)
              (Dropout ed) ncont (BatchNorm1d ncont)
              (make_lin_layers (length emb_dims * 5 + ncont) sizes) (map Dropout drops)
              (map BatchNorm1d sizes) [b, ncont] cat_data = Inr [b, last sizes]"
    using loc(1) by (intro local_layers_ok f(12) loc(2,3,4) b e pos) simp
  show ?thesis
    unfolding FeedForwardNN_forward_def f ll
    by (simp add: Linear_forward_def)
qed

lemma no_continuous_feature_ignored:
  assumes "FeedForwardNN_init emb_dims 0 sizes ed drops n pad = Inr self1"
    and "Network2_init emb_dims 0 sizes ed drops cin cout k dr dord p n pad = Inr self2"
  shows "FeedForwardNN_forward (self1\<lparr>FeedForwardNN.training := tr\<rparr>) cont_data cat_data
           = FeedForwardNN_forward (self1\<lparr>FeedForwardNN.training := tr\<rparr>) cont_data' cat_data"
    and "Network2_forward (self2\<lparr>training := tr\<rparr>) (cont_data, cat_data) distal_input u
           = Network2_forward (self2\<lparr>training := tr\<rparr>) (cont_data', cat_data) distal_input u"
  using FeedForwardNN_init_no_of_embs(2)[OF assms(1), of tr]
    Network2_init_no_of_embs(2)[OF assms(2), of tr]
  by (simp_all add: FeedForwardNN_forward_def Network2_forward_def local_layers_def)

lemma broadcast_index3:
  assumes "i < b" "j < c" "t < l"
  shows "broadcast_index [b, c, l] [i, j, t] = [i, j, t]"
  using assms by (auto simp add: broadcast_index_def)

lemma ResBlock_skip_values_prefix:
  assumes x: "tshape x = [b, c, l]" and out: "tshape out = [b, c, l2]" and le: "l2 \<le> l"
  shows "\<exists>r. ResBlock_skip_values x out = Inr r \<and> tshape r = [b, c, l2]
           \<and> (\<forall>i < b. \<forall>j < c. \<forall>t < l2. tval r [i, j, t] = tval x [i, j, t] + tval out [i, j, t])"
proof -
  have sl: "slice_len l 0 (int l2) = l2"
    by (rule slice_len_prefix[OF le])
  have sb: "slice_bound l 0 = 0" by (simp add: slice_bound_def)
  show ?thesis
    using le
    by (simp add: ResBlock_skip_values_def shape_at_def Let_def x out t_slice_dim2_def t_add_def
        sl sb tensor_add_same3 broadcast_index3)
qed

lemma broadcast_index2:
  assumes "i < b" "j < n"
  shows "broadcast_index [b, n] [i, j] = [i, j]"
  using assms by (auto simp add: broadcast_index_def)

lemma t_softmax_dim1_2d:
  assumes "tshape x = [b, n]"
  shows "\<exists>p. t_softmax_dim1 x = Inr p \<and> tshape p = [b, n]
           \<and> (\<forall>i j. tval p [i, j] = softmax_of x i j)"
  using assms by (simp add: t_softmax_dim1_def softmax_dim1_def softmax_of_def)

lemma t_add_2d:
  assumes "tshape x = [b, n]" "tshape y = [b, n]"
  shows "\<exists>r. t_add x y = Inr r \<and> tshape r = [b, n]
           \<and> (\<forall>i < b. \<forall>j < n. tval r [i, j] = tval x [i, j] + tval y [i, j])"
  using assms by (simp add: t_add_def tensor_add_same2 broadcast_index2)

lemma Network1_fusion_values:
  assumes d1: "tshape d1 = [b, n]" and d2: "tshape d2 = [b, n]"
  shows "\<exists>r. Network1_fusion d1 d2 = Inr r \<and> tshape r = [b, n]
           \<and> (\<forall>i < b. \<forall>j < n.
                 tval r [i, j]
                 = ln (max 0.000000001 ((softmax_of d1 i j + softmax_of d2 i j) / 2)))"
proof -
  from t_softmax_dim1_2d[OF d1] obtain p1 where p1: "t_softmax_dim1 d1 = Inr p1"
    "tshape p1 = [b, n]" "\<And>i j. tval p1 [i, j] = softmax_of d1 i j" by blast
  from t_softmax_dim1_2d[OF d2] obtain p2 where p2: "t_softmax_dim1 d2 = Inr p2"
    "tshape p2 = [b, n]" "\<And>i j. tval p2 [i, j] = softmax_of d2 i j" by blast
  from t_add_2d[OF p1(2) p2(2)] obtain s where s: "t_add p1 p2 = Inr s" "tshape s = [b, n]"
    "\<And>i j. i < b \<Longrightarrow> j < n \<Longrightarrow> tval s [i, j] = tval p1 [i, j] + tval p2 [i, j]" by blast
  show ?thesis
    by (simp add: Network1_fusion_def p1 p2 s t_log_def t_clamp_min_def t_div_def)
qed

lemma Network2_fusion_values:
  assumes l: "tshape local_out = [b, n]" and d1: "tshape d1 = [b, n]" and d2: "tshape d2 = [b, n]"
    and n: "2 \<le> n"
  shows "\<exists>r. Network2_fusion tr u local_out d1 d2 = Inr r \<and> tshape r = [b, n]
           \<and> (\<forall>i < b. \<forall>j < n.
                 tval r [i, j]
                 = ln (max 0.000000001
                     ((softmax_of local_out i j + (softmax_of d1 i j + softmax_of d2 i j) / 2) / 2)))"
proof -
  from t_softmax_dim1_2d[OF d1] obtain p1 where p1: "t_softmax_dim1 d1 = Inr p1"
    "tshape p1 = [b, n]" "\<And>i j. tval p1 [i, j] = softmax_of d1 i j" by blast
  from t_softmax_dim1_2d[OF d2] obtain p2 where p2: "t_softmax_dim1 d2 = Inr p2"
    "tshape p2 = [b, n]" "\<And>i j. tval p2 [i, j] = softmax_of d2 i j" by blast
  from t_softmax_dim1_2d[OF l] obtain pl where pl: "t_softmax_dim1 local_out = Inr pl"
    "tshape pl = [b, n]" "\<And>i j. tval pl [i, j] = softmax_of local_out i j" by blast
  from t_add_2d[OF p1(2) p2(2)] obtain s where s: "t_add p1 p2 = Inr s" "tshape s = [b, n]"
    "\<And>i j. i < b \<Longrightarrow> j < n \<Longrightarrow> tval s [i, j] = tval p1 [i, j] + tval p2 [i, j]" by blast
  have sh: "tshape (t_div s 2) = [b, n]" by (simp add: t_div_def s)
  from t_add_2d[OF pl(2) sh] obtain t where t: "t_add pl (t_div s 2) = Inr t" "tshape t = [b, n]"
    "\<And>i j. i < b \<Longrightarrow> j < n \<Longrightarrow> tval t [i, j] = tval pl [i, j] + tval (t_div s 2) [i, j]" by blast
  have dp: "diagnostic_print tr u (tshape pl) (tshape (t_div s 2)) = Inr ()"
    unfolding pl(2) sh by (rule diagnostic_print_ok[OF n])
  have f: "Network2_fusion tr u local_out d1 d2
           = Inr (t_log (t_clamp_min (t_div t 2) 0.000000001))"
    unfolding Network2_fusion_def Let_def p1(1) p2(1) pl(1) s(1) t(1) dp and_then_simps ..
  have v: "tval (t_log (t_clamp_min (t_div t 2) 0.000000001)) [i, j]
           = ln (max 0.000000001
               ((softmax_of local_out i j + (softmax_of d1 i j + softmax_of d2 i j) / 2) / 2))"
    if "i < b" "j < n" for i j
    using that by (simp add: t_log_def t_clamp_min_def t_div_def t(3) s(3) p1(3) p2(3) pl(3))
  have sh': "tshape (t_log (t_clamp_min (t_div t 2) 0.000000001)) = [b, n]"
    by (simp add: t_log_def t_clamp_min_def t_div_def t(2))
  show ?thesis using f v sh' by blast
qed

lemma main_stop_criterion:
  assumes "Run run \<in> set (fst (main a cuda_is_available))"
  shows "stop run = [(''after_min_loss'', 3)]"
  using assms
  by (auto simp add: main_def Let_def split: if_splits sum.splits)

text \<open>
  The counter of the reports without improvement, report by report: it is 0 at the first
  report and at every report whose loss is below all the losses before it, and one more
  than at the report before otherwise.
\<close>

lemma count_after_min_loss_length [simp]:
  "length (count_after_min_loss m n ls) = length ls"
  by (induction ls arbitrary: m n) simp_all

lemma Min_insert_real:
  fixes m x :: real
  assumes "finite S"
  shows "x < m \<Longrightarrow> Min (insert m (insert x S)) = Min (insert x S)"
    and "\<not> x < m \<Longrightarrow> Min (insert m (insert x S)) = Min (insert m S)"
  using assms by (cases "S = {}"; auto simp add: min_def)+

lemma ASHAScheduler_init_refuses:
  assumes "\<not> (0 < g \<and> g \<le> t)"
  shows "\<exists>msg. ASHAScheduler_init m ''min'' t g 2 = Inl (AssertionError msg)"
  using assms by (auto simp add: ASHAScheduler_init_def)

lemma count_after_min_loss_step:
  assumes "i < length ls"
  shows "count_after_min_loss m n ls ! i
         = (if ls ! i < Min (insert m (set (take i ls))) then 0
            else Suc (if i = 0 then n else count_after_min_loss m n ls ! (i - 1)))"
  using assms
proof (induction ls arbitrary: m n i)
  case Nil
  then show ?case by simp
next
  case (Cons x xs)
  show ?case
  proof (cases i)
    case 0
    then show ?thesis by simp
  next
    case (Suc j)
    then have j: "j < length xs" using Cons.prems by simp
    have fin: "finite (set (take j xs))" by simp
    show ?thesis
    proof (cases "x < m")
      case True
      then have mn: "Min (insert m (insert x (set (take j xs)))) = Min (insert x (set (take j xs)))"
        by (rule Min_insert_real(1)[OF fin])
      show ?thesis
        using True Suc Cons.IH[OF j, of x 0] mn
        by (cases j) (simp_all add: insert_commute)
    next
      case False
      then have mn: "Min (insert m (insert x (set (take j xs)))) = Min (insert m (set (take j xs)))"
        by (rule Min_insert_real(2)[OF fin])
      show ?thesis
        using False Suc Cons.IH[OF j, of m "Suc n"] mn
        by (cases j) (simp_all add: insert_commute)
    qed
  qed
qed

lemma after_min_loss_step:
  assumes "i < length losses"
  shows "after_min_loss losses ! i
         = (if i = 0 \<or> losses ! i < Min (set (take i losses)) then 0
            else Suc (after_min_loss losses ! (i - 1)))"
proof (cases losses)
  case Nil
  then show ?thesis using assms by simp
next
  case (Cons l ls)
  show ?thesis
  proof (cases i)
    case 0
    then show ?thesis by (simp add: after_min_loss_def Cons)
  next
    case (Suc j)
    then have j: "j < length ls" using assms Cons by simp
    show ?thesis
      using count_after_min_loss_step[OF j, of l 0] Suc
      by (cases j) (simp_all add: after_min_loss_def Cons)
  qed
qed

text \<open>
  The layers on values agree with the layers on shapes: a call raises the same exception,
  or returns a tensor of the shape computed there.
\<close>

lemma result_shape_simps [simp]:
  "result_shape (Inl e) = Inl e"
  "result_shape (Inr t) = Inr (tshape t)"
  by (simp_all add: result_shape_def)

lemma result_shape_and_then:
  "result_shape (and_then r (\<lambda>s. Inr \<lparr>tshape = s, tval = f s\<rparr>)) = r"
  by (cases r) simp_all

lemma ResBlock_skip_values_shape:
  "result_shape (ResBlock_skip_values x out) = ResBlock_skip (tshape x) (tshape out)"
proof -
  have sl: "result_shape (and_then (t_slice_dim2 x a b) (\<lambda>x_cut. t_add x_cut out))
            = and_then (slice_dim2 (tshape x) a b) (\<lambda>x_cut. tensor_add x_cut (tshape out))" for a b
    unfolding t_slice_dim2_def t_add_def
    by (cases "slice_dim2 (tshape x) a b")
       (simp_all add: result_shape_and_then)
  show ?thesis
    unfolding ResBlock_skip_values_def ResBlock_skip_def Let_def
    by (cases "shape_at (tshape x) 2"; cases "shape_at (tshape out) 2") (simp_all add: sl)
qed

lemma forward_values_shape:
  "result_shape (forward_values tr m st x) = forward tr m (tshape x)"
  "result_shape (forward_seq_values tr ms i st x) = forward_seq tr ms (tshape x)"
proof (induction tr m st x and tr ms i st x rule: forward_values_forward_seq_values.induct)
  case (8 tr layer st x)
  then show ?case
    by (cases "forward_values tr layer (\<lambda>pos. st (0 # pos)) x")
       (auto simp add: ResBlock_skip_values_shape split: sum.splits)
next
  case (10 tr m ms i st x)
  then show ?case
    by (cases "forward_values tr m (\<lambda>pos. st (i # pos)) x") (auto split: sum.splits)
qed (simp_all add: t_BatchNorm1d_def t_Conv1d_def t_MaxPool1d_def t_Linear_def t_ReLU_def
      t_Dropout_def result_shape_and_then del: BatchNorm1d_forward.simps Conv1d_forward.simps
      MaxPool1d_forward.simps)

lemma t_embed_columns_shape:
  "(case t_embed_columns emb st cat_data is of Inl e \<Rightarrow> Inl e | Inr xs \<Rightarrow> Inr (map tshape xs))
   = embed_columns emb cat_data is"
proof (induction "is")
  case Nil
  then show ?case by simp
next
  case (Cons i "is")
  show ?case
  proof (cases "select_column cat_data i")
    case (Inl e)
    then show ?thesis by simp
  next
    case (Inr col)
    show ?thesis
    proof (cases "Embedding_forward emb col")
      case (Inl e)
      then show ?thesis using Inr by (simp add: t_Embedding_def)
    next
      case (Inr s)
      then show ?thesis using \<open>select_column cat_data i = Inr col\<close> Cons.IH
        by (cases "t_embed_columns emb st cat_data is"; cases "embed_columns emb cat_data is")
           (simp_all add: t_Embedding_def)
    qed
  qed
qed

lemma t_cat_dim1_shape: "result_shape (t_cat_dim1 xs) = torch_cat_dim1 (map tshape xs)"
  by (simp add: t_cat_dim1_def result_shape_and_then)

lemma result_shape_cases:
  assumes "result_shape r = r'"
  obtains e where "r = Inl e" "r' = Inl e" | t where "r = Inr t" "r' = Inr (tshape t)"
  using assms by (cases r) auto

lemma lin_loop_values_shape:
  "result_shape (lin_loop_values tr i layers st x) = lin_loop tr layers (tshape x)"
proof (induction layers arbitrary: i x)
  case Nil
  then show ?case by simp
next
  case (Cons a layers)
  obtain lin_layer dropout_layer bn_layer where a: "a = (lin_layer, dropout_layer, bn_layer)"
    by (cases a) auto
  show ?case
  proof (cases rule: result_shape_cases[OF forward_values_shape(1)[of tr lin_layer "lin_layers_state st i" x]])
    case (1 e)
    then show ?thesis by (simp add: a del: forward.simps forward_values.simps)
  next
    case (2 t)
    note l = 2
    have r: "tshape (t_ReLU t) = tshape t" by (simp add: t_ReLU_def)
    show ?thesis
    proof (cases rule: result_shape_cases[OF forward_values_shape(1)[of tr bn_layer "bn_layers_state st i" "t_ReLU t"]])
      case (1 e)
      then show ?thesis using l r by (simp add: a Let_def del: forward.simps(1-3,5-8) forward_values.simps)
    next
      case (2 t2)
      note b = 2
      show ?thesis
      proof (cases rule: result_shape_cases[OF forward_values_shape(1)[of tr dropout_layer "droput_layers_state st i" t2]])
        case (1 e)
        then show ?thesis using l r b
          by (simp add: a Let_def del: forward.simps(1-3,5-8) forward_values.simps)
      next
        case (2 t3)
        then show ?thesis using l r b Cons.IH[of "Suc i" t3]
          by (simp add: a Let_def del: forward.simps(1-3,5-8) forward_values.simps)
      qed
    qed
  qed
qed

lemma result_shape_bind:
  assumes "result_shape r = r'"
    and "\<And>t. r = Inr t \<Longrightarrow> result_shape (f t) = g (tshape t)"
  shows "result_shape (and_then r f) = and_then r' g"
  using assms by (cases r) auto

lemma and_then_assoc:
  "and_then (and_then r f) g = and_then r (\<lambda>x. and_then (f x) g)"
  by (cases r) simp_all

lemma FeedForwardNN_forward_values_shape:
  "result_shape (FeedForwardNN_forward_values self st cont_data cat_data)
   = FeedForwardNN_forward self (tshape cont_data) cat_data"
proof (cases "FeedForwardNN.no_of_embs self \<noteq> 0")
  case False
  then show ?thesis
    by (simp add: FeedForwardNN_forward_values_def FeedForwardNN_forward_def local_layers_def)
next
  case True
  note ifT = if_P[OF True]
  let ?tr = "FeedForwardNN.training self"
  let ?layers = "zip (FeedForwardNN.lin_layers self)
             (zip (FeedForwardNN.droput_layers self) (FeedForwardNN.bn_layers self))"
  let ?tail = "\<lambda>local_out. and_then (lin_loop_values ?tr 0 ?layers st local_out)
      (\<lambda>local_out. forward_values ?tr (output_layer self) (output_layer_state st) local_out)"
  let ?tail' = "\<lambda>local_out. and_then (lin_loop ?tr ?layers local_out)
      (\<lambda>local_out. forward ?tr (output_layer self) local_out)"
  have tail: "result_shape (?tail t) = ?tail' (tshape t)" for t
    by (rule result_shape_bind[OF lin_loop_values_shape]) (rule forward_values_shape)
  let ?cont = "\<lambda>local_out.
       (if FeedForwardNN.no_of_cont self \<noteq> 0
        then and_then
               (forward_values ?tr (FeedForwardNN.first_bn_layer self) (first_bn_layer_state st)
                  cont_data)
               (\<lambda>normalized_cont_data. t_cat_dim1 [local_out, normalized_cont_data])
        else Inr local_out)"
  let ?cont' = "\<lambda>local_out.
       (if FeedForwardNN.no_of_cont self \<noteq> 0
        then and_then (forward ?tr (FeedForwardNN.first_bn_layer self) (tshape cont_data))
               (\<lambda>normalized_cont_data. torch_cat_dim1 [local_out, normalized_cont_data])
        else Inr local_out)"
  have cont: "result_shape (?cont t) = ?cont' (tshape t)" for t
  proof (cases "FeedForwardNN.no_of_cont self \<noteq> 0")
    case True
    have "result_shape (and_then
               (forward_values ?tr (FeedForwardNN.first_bn_layer self) (first_bn_layer_state st)
                  cont_data)
               (\<lambda>normalized_cont_data. t_cat_dim1 [t, normalized_cont_data]))
          = and_then (forward ?tr (FeedForwardNN.first_bn_layer self) (tshape cont_data))
               (\<lambda>normalized_cont_data. torch_cat_dim1 [tshape t, normalized_cont_data])"
      by (rule result_shape_bind[OF forward_values_shape(1)]) (simp add: t_cat_dim1_shape)
    then show ?thesis unfolding if_P[OF True] .
  next
    case False
    show ?thesis unfolding if_not_P[OF False] by simp
  qed
  have rest: "result_shape (and_then (?cont t) ?tail) = and_then (?cont' (tshape t)) ?tail'" for t
    by (rule result_shape_bind[OF cont]) (rule tail)
  have drop: "result_shape
      (and_then (forward_values ?tr (FeedForwardNN.emb_dropout_layer self)
                   (emb_dropout_layer_state st) t)
         (\<lambda>local_out. and_then (?cont local_out) ?tail))
      = and_then (forward ?tr (FeedForwardNN.emb_dropout_layer self) (tshape t))
         (\<lambda>local_out. and_then (?cont' local_out) ?tail')" for t
    by (rule result_shape_bind[OF forward_values_shape(1)]) (rule rest)
  have cat: "result_shape
      (and_then (t_cat_dim1 xs)
         (\<lambda>local_out.
            and_then (forward_values ?tr (FeedForwardNN.emb_dropout_layer self)
                        (emb_dropout_layer_state st) local_out)
              (\<lambda>local_out. and_then (?cont local_out) ?tail)))
      = and_then (torch_cat_dim1 (map tshape xs))
         (\<lambda>local_out.
            and_then (forward ?tr (FeedForwardNN.emb_dropout_layer self) local_out)
              (\<lambda>local_out. and_then (?cont' local_out) ?tail'))" for xs
    by (rule result_shape_bind[OF t_cat_dim1_shape]) (rule drop)
  show ?thesis
  proof (cases "t_embed_columns (FeedForwardNN.emb_layer self) (emb_layer_state st) cat_data
                  [0..<FeedForwardNN.no_of_cat self]")
    case (Inl e)
    then have "embed_columns (FeedForwardNN.emb_layer self) cat_data
                 [0..<FeedForwardNN.no_of_cat self] = Inl e"
      using t_embed_columns_shape[of "FeedForwardNN.emb_layer self" "emb_layer_state st" cat_data
          "[0..<FeedForwardNN.no_of_cat self]"] by simp
    then show ?thesis using True Inl
      by (simp add: FeedForwardNN_forward_values_def FeedForwardNN_forward_def local_layers_def)
  next
    case (Inr xs)
    then have e: "embed_columns (FeedForwardNN.emb_layer self) cat_data
                 [0..<FeedForwardNN.no_of_cat self] = Inr (map tshape xs)"
      using t_embed_columns_shape[of "FeedForwardNN.emb_layer self" "emb_layer_state st" cat_data
          "[0..<FeedForwardNN.no_of_cat self]"] by simp
    show ?thesis
      unfolding FeedForwardNN_forward_values_def FeedForwardNN_forward_def local_layers_def Let_def
        ifT Inr e and_then_simps option.case and_then_assoc
      by (rule cat)
  qed
qed

section \<open>The claims\<close>

subsection \<open>The local-only model does not read the expanded input\<close>

text \<open>
  Claim C10. For every model, every state of its layers (parameters, buffers and the
  dropout masks of the call), every local input and any two values \<open>d1\<close> and \<open>d2\<close> of the
  second argument, a tensor or the default \<open>None\<close>, \<^verbatim>\<open>Network0.forward\<close> returns the same:
  the same exception, or the same tensor, in shape and in every entry. What it returns is
  what the feed-forward model returns on the continuous and the categorical part of the
  local input (lemma \<open>FeedForwardNN_forward_values_shape\<close> relates it to the model on
  shapes).
\<close>

theorem Network0_forward_ignores_distal_input:
  "Network0_forward self st local_input d1 = Network0_forward self st local_input d2
   \<and> Network0_forward self st (cont_data, cat_data) d1
       = FeedForwardNN_forward_values (model self) st cont_data cat_data"
  by (simp add: Network0_forward_def)

subsection \<open>The assertion on the length of the expanded sequence\<close>

text \<open>
  Claim C2. Let the expanded input have a third dimension of at most 200. Then
  \<^verbatim>\<open>Network1.forward\<close> raises the assertion error of its first statement, whatever the
  model and the rest of the input are, so also where a convolution would itself refuse
  the input: no layer is applied before. \<^verbatim>\<open>Network2.forward\<close> runs its local layers
  first, which hold no convolution; when they return it raises the assertion error of
  its own assertion, and in no case does it return a tensor.
\<close>

theorem short_distal_input_fails_assertion:
  assumes "L \<le> 200"
  shows "Network1_forward self1 local_input (b # c # L # rest)
           = Inl (AssertionError ''Error: distal seq len must be >200bp'')
       \<and> (\<forall>local_out.
            local_layers (training self2) (no_of_embs self2) (no_of_cat self2) (emb_layer self2)
              (emb_dropout_layer self2) (no_of_cont self2) (first_bn_layer self2)
              (lin_layers self2) (droput_layers self2) (bn_layers self2) cont_data cat_data
            = Inr local_out
            \<longrightarrow> Network2_forward self2 (cont_data, cat_data) (b # c # L # rest) u
                = Inl (AssertionError ''Error: distal seq len must be >200''))
       \<and> (\<exists>e. Network2_forward self2 (cont_data, cat_data) (b # c # L # rest) u = Inl e)"
  using assms
  by (cases "local_layers (training self2) (no_of_embs self2) (no_of_cat self2) (emb_layer self2)
              (emb_dropout_layer self2) (no_of_cont self2) (first_bn_layer self2)
              (lin_layers self2) (droput_layers self2) (bn_layers self2) cont_data cat_data")
     (simp_all add: Network1_forward_def Network2_forward_def shape_at_def)

text \<open>An instance: both models on an expanded input of length 150.\<close>

theorem short_distal_input_fails_assertion_witness:
  "(150 :: nat) \<le> 200
   \<and> (case Network1_init 4 32 3 50 1 0.25 4 of
        Inl e \<Rightarrow> False
      | Inr self1 \<Rightarrow>
          Network1_forward self1 () [2, 4, 150]
          = Inl (AssertionError ''Error: distal seq len must be >200bp''))
   \<and> (case Network2_init [(4, 5), (4, 5)] 0 [8] 0.1 [0.1] 4 32 3 50 1 0.25 4 (Some 4) of
        Inl e \<Rightarrow> False
      | Inr self2 \<Rightarrow>
          local_layers (training self2) (no_of_embs self2) (no_of_cat self2) (emb_layer self2)
            (emb_dropout_layer self2) (no_of_cont self2) (first_bn_layer self2)
            (lin_layers self2) (droput_layers self2) (bn_layers self2) [2, 0]
            \<lparr>n_rows = 2, n_cols = 2, entry = (\<lambda>r i. 1)\<rparr> = Inr [2, 8]
          \<and> Network2_forward self2 ([2, 0], \<lparr>n_rows = 2, n_cols = 2, entry = (\<lambda>r i. 1)\<rparr>)
              [2, 4, 150] 0.5
            = Inl (AssertionError ''Error: distal seq len must be >200''))"
proof -
  have L: "(150 :: nat) \<le> 200" by simp
  obtain self1 where i1: "Network1_init 4 32 3 50 1 0.25 4 = Inr self1"
    by (simp add: Network1_init_def Dropout_init_def)
  obtain self2 where i2:
    "Network2_init [(4, 5), (4, 5)] 0 [8] 0.1 [0.1] 4 32 3 50 1 0.25 4 (Some 4) = Inr self2"
    by (simp add: Network2_init_def Dropout_init_def)
  let ?cat = "\<lparr>n_rows = 2, n_cols = 2, entry = (\<lambda>r i. 1)\<rparr>"
  have "self2\<lparr>training := True\<rparr> = self2"
    using i2 by (auto simp add: Network2_init_def Dropout_init_def)
  then have loc: "local_layers (training self2) (no_of_embs self2) (no_of_cat self2) (emb_layer self2)
            (emb_dropout_layer self2) (no_of_cont self2) (first_bn_layer self2)
            (lin_layers self2) (droput_layers self2) (bn_layers self2) [2, 0] ?cat = Inr [2, 8]"
    using Network2_local_layers_ok[OF i2, of True 2 ?cat] by simp
  note t = short_distal_input_fails_assertion[OF L, of self1 "()" 2 4 "[]" self2 "[2, 0]" ?cat "0.5"]
  show ?thesis
    unfolding i1 i2 sum.case using L t loc by simp
qed

subsection \<open>The output shape of the two-scale models\<close>

text \<open>
  Claim C1, as amended. Let the models be built with a kernel size \<open>k > 0\<close> and with at
  least one input channel and one output channel, and let the expanded input have the
  model's number of input channels and a length \<open>L > 200\<close>; in training mode let the
  batch not be a single sample (batch normalisation refuses a single value per channel
  there). For \<^verbatim>\<open>Network2\<close> let moreover the local input be well formed (at least one
  embedded position, every index within the embedding table, hidden layers of positive
  sizes, a dropout rate for each) and the number of classes be at least 2. If \<open>k\<close> is odd,
  or \<open>L \<ge> 422\<close>, the forward pass of \<^verbatim>\<open>Network1\<close> and of \<^verbatim>\<open>Network2\<close> returns a tensor
  of shape \<open>[batch, n_class]\<close>. If \<open>k\<close> is even and \<open>L < 422\<close>, the last convolution of
  the second scale receives a sequence of length 1 and raises: the padding
  \<^verbatim>\<open>(kernel_size-1)//2\<close> keeps the length for odd kernels only.
\<close>

theorem dual_scale_forward_shape:
  assumes "0 < k" and "0 < cin" and "0 < cout" and "200 < L" and "tr \<longrightarrow> b \<noteq> 1"
    and "Network1_init cin cout k dr dord p n = Inr self1"
  shows "(odd k \<or> 422 \<le> L \<longrightarrow>
            Network1_forward (self1\<lparr>training := tr\<rparr>) local_input [b, cin, L] = Inr [b, n])
       \<and> (even k \<and> L < 422 \<longrightarrow>
            Network1_forward (self1\<lparr>training := tr\<rparr>) local_input [b, cin, L]
              = Inl (RuntimeError ''Kernel size can't be greater than actual input size''))
       \<and> (Network2_init emb_dims ncont sizes ed drops cin cout k dr dord p n (Some pad) = Inr self2
            \<and> 2 \<le> n \<and> emb_dims \<noteq> [] \<and> length sizes \<le> length drops
            \<and> (\<forall>s \<in> set sizes. 0 < s)
            \<and> n_rows cat_data = b \<and> length emb_dims \<le> n_cols cat_data
            \<and> (\<forall>i < length emb_dims. \<forall>r < b.
                  0 \<le> entry cat_data r i \<and> entry cat_data r i \<le> int pad)
          \<longrightarrow> (odd k \<or> 422 \<le> L \<longrightarrow>
                 Network2_forward (self2\<lparr>training := tr\<rparr>) ([b, ncont], cat_data) [b, cin, L] u
                   = Inr [b, n])
              \<and> (even k \<and> L < 422 \<longrightarrow>
                 Network2_forward (self2\<lparr>training := tr\<rparr>) ([b, ncont], cat_data) [b, cin, L] u
                   = Inl (RuntimeError ''Kernel size can't be greater than actual input size'')))"
proof (intro conjI impI)
  assume ok: "odd k \<or> 422 \<le> L"
  show "Network1_forward (self1\<lparr>training := tr\<rparr>) local_input [b, cin, L] = Inr [b, n]"
    using assms(6,1,4,5,2,3) ok by (rule Network1_forward_shape)
next
  assume e: "even k \<and> L < 422"
  then have ek: "even k" and lt: "L < 422" by simp_all
  show "Network1_forward (self1\<lparr>training := tr\<rparr>) local_input [b, cin, L]
        = Inl (RuntimeError ''Kernel size can't be greater than actual input size'')"
    using assms(6,1) ek assms(4) lt assms(5,2,3) by (rule Network1_forward_even_fail)
next
  assume w: "Network2_init emb_dims ncont sizes ed drops cin cout k dr dord p n (Some pad) = Inr self2
            \<and> 2 \<le> n \<and> emb_dims \<noteq> [] \<and> length sizes \<le> length drops
            \<and> (\<forall>s \<in> set sizes. 0 < s)
            \<and> n_rows cat_data = b \<and> length emb_dims \<le> n_cols cat_data
            \<and> (\<forall>i < length emb_dims. \<forall>r < b.
                  0 \<le> entry cat_data r i \<and> entry cat_data r i \<le> int pad)"
    and ok: "odd k \<or> 422 \<le> L"
  from w have init: "Network2_init emb_dims ncont sizes ed drops cin cout k dr dord p n (Some pad) = Inr self2"
    and n: "2 \<le> n" and pos: "\<forall>s \<in> set sizes. 0 < s"
    and loc: "emb_dims \<noteq> []" "length sizes \<le> length drops" "n_rows cat_data = b"
      "length emb_dims \<le> n_cols cat_data"
      "\<forall>i < length emb_dims. \<forall>r < b. 0 \<le> entry cat_data r i \<and> entry cat_data r i \<le> int pad"
    by simp_all
  show "Network2_forward (self2\<lparr>training := tr\<rparr>) ([b, ncont], cat_data) [b, cin, L] u = Inr [b, n]"
    using init assms(1,4,5) ok assms(2,3) pos n loc by (rule Network2_forward_shape)
next
  assume w: "Network2_init emb_dims ncont sizes ed drops cin cout k dr dord p n (Some pad) = Inr self2
            \<and> 2 \<le> n \<and> emb_dims \<noteq> [] \<and> length sizes \<le> length drops
            \<and> (\<forall>s \<in> set sizes. 0 < s)
            \<and> n_rows cat_data = b \<and> length emb_dims \<le> n_cols cat_data
            \<and> (\<forall>i < length emb_dims. \<forall>r < b.
                  0 \<le> entry cat_data r i \<and> entry cat_data r i \<le> int pad)"
    and e: "even k \<and> L < 422"
  from w have init: "Network2_init emb_dims ncont sizes ed drops cin cout k dr dord p n (Some pad) = Inr self2"
    and pos: "\<forall>s \<in> set sizes. 0 < s"
    and loc: "emb_dims \<noteq> []" "length sizes \<le> length drops" "n_rows cat_data = b"
      "length emb_dims \<le> n_cols cat_data"
      "\<forall>i < length emb_dims. \<forall>r < b. 0 \<le> entry cat_data r i \<and> entry cat_data r i \<le> int pad"
    by simp_all
  from e have ek: "even k" and lt: "L < 422" by simp_all
  show "Network2_forward (self2\<lparr>training := tr\<rparr>) ([b, ncont], cat_data) [b, cin, L] u
        = Inl (RuntimeError ''Kernel size can't be greater than actual input size'')"
    using init assms(1) ek assms(4) lt assms(5,2,3) pos loc by (rule Network2_forward_even_fail)
qed

text \<open>
  Two instances: kernel size 3 on a single sample of length 1001 in evaluation mode, and
  kernel size 2 on 32 samples of length 201 in training mode.
\<close>

theorem dual_scale_forward_shape_witness:
  "(case (Network1_init 4 32 3 500 1 0.25 4,
          Network2_init (replicate 11 (4, 5)) 0 [150, 75] 0.1 [0.1, 0.1] 4 32 3 500 1 0.25 4 (Some 4)) of
      (Inr self1, Inr self2) \<Rightarrow>
        Network1_forward (self1\<lparr>training := False\<rparr>) () [1, 4, 1001] = Inr [1, 4]
        \<and> Network2_forward (self2\<lparr>training := False\<rparr>)
             ([1, 0], \<lparr>n_rows = 1, n_cols = 11, entry = (\<lambda>r i. 2)\<rparr>) [1, 4, 1001] 0.5 = Inr [1, 4]
    | _ \<Rightarrow> False)
   \<and> (case (Network1_init 4 32 2 100 1 0.25 4,
            Network2_init (replicate 11 (4, 5)) 0 [150, 75] 0.1 [0.1, 0.1] 4 32 2 100 1 0.25 4 (Some 4)) of
        (Inr self1, Inr self2) \<Rightarrow>
          Network1_forward (self1\<lparr>training := True\<rparr>) () [32, 4, 201]
            = Inl (RuntimeError ''Kernel size can't be greater than actual input size'')
          \<and> Network2_forward (self2\<lparr>training := True\<rparr>)
               ([32, 0], \<lparr>n_rows = 32, n_cols = 11, entry = (\<lambda>r i. 2)\<rparr>) [32, 4, 201] 0.5
            = Inl (RuntimeError ''Kernel size can't be greater than actual input size'')
      | _ \<Rightarrow> False)"
proof -
  obtain a1 where a1: "Network1_init 4 32 3 500 1 0.25 4 = Inr a1"
    by (simp add: Network1_init_def Dropout_init_def)
  obtain a2 where a2:
    "Network2_init (replicate 11 (4, 5)) 0 [150, 75] 0.1 [0.1, 0.1] 4 32 3 500 1 0.25 4 (Some 4) = Inr a2"
    by (simp add: Network2_init_def Dropout_init_def)
  obtain b1 where b1: "Network1_init 4 32 2 100 1 0.25 4 = Inr b1"
    by (simp add: Network1_init_def Dropout_init_def)
  obtain b2 where b2:
    "Network2_init (replicate 11 (4, 5)) 0 [150, 75] 0.1 [0.1, 0.1] 4 32 2 100 1 0.25 4 (Some 4) = Inr b2"
    by (simp add: Network2_init_def Dropout_init_def)
  let ?c1 = "\<lparr>n_rows = 1, n_cols = 11, entry = (\<lambda>r i. 2)\<rparr>"
  let ?c32 = "\<lparr>n_rows = 32, n_cols = 11, entry = (\<lambda>r i. 2)\<rparr>"
  have A: "Network1_forward (a1\<lparr>training := False\<rparr>) () [1, 4, 1001] = Inr [1, 4]
        \<and> Network2_forward (a2\<lparr>training := False\<rparr>) ([1, 0], ?c1) [1, 4, 1001] 0.5 = Inr [1, 4]"
    using dual_scale_forward_shape[where k = 3 and L = 1001 and b = 1 and tr = False
        and ?self1.0 = a1 and ?self2.0 = a2 and cat_data = ?c1 and u = "0.5"
        and local_input = "()" and emb_dims = "replicate 11 (4, 5)" and pad = 4
        and ncont = 0 and sizes = "[150, 75]" and ed = "0.1" and drops = "[0.1, 0.1]", OF _ _ _ _ _ a1]
    using a2 by simp
  have B: "Network1_forward (b1\<lparr>training := True\<rparr>) () [32, 4, 201]
            = Inl (RuntimeError ''Kernel size can't be greater than actual input size'')
        \<and> Network2_forward (b2\<lparr>training := True\<rparr>) ([32, 0], ?c32) [32, 4, 201] 0.5
            = Inl (RuntimeError ''Kernel size can't be greater than actual input size'')"
    using dual_scale_forward_shape[where k = 2 and L = 201 and b = 32 and tr = True
        and ?self1.0 = b1 and ?self2.0 = b2 and cat_data = ?c32 and u = "0.5"
        and local_input = "()" and emb_dims = "replicate 11 (4, 5)" and pad = 4
        and ncont = 0 and sizes = "[150, 75]" and ed = "0.1" and drops = "[0.1, 0.1]", OF _ _ _ _ _ b1]
    using b2 by simp
  show ?thesis
    unfolding a1 a2 b1 b2 prod.case sum.case using A B by simp
qed

text \<open>
  The claim as it was stated, for every kernel size, fails for \<^verbatim>\<open>Network1\<close> with kernel
  size 2 on an expanded input of length 201 (\<^verbatim>\<open>distal_radius = 100\<close>).
\<close>

theorem dual_scale_forward_shape_counterexample:
  "\<not> isl (Network1_init 4 32 2 100 1 0.25 4)
   \<and> Network1_forward (projr (Network1_init 4 32 2 100 1 0.25 4)) () [32, 4, 201]
       = Inl (RuntimeError ''Kernel size can't be greater than actual input size'')"
proof -
  obtain s where s: "Network1_init 4 32 2 100 1 0.25 4 = Inr s"
    by (simp add: Network1_init_def Dropout_init_def)
  have "s\<lparr>training := True\<rparr> = s"
    using s by (auto simp add: Network1_init_def Dropout_init_def)
  then have "Network1_forward s () [32, 4, 201]
       = Inl (RuntimeError ''Kernel size can't be greater than actual input size'')"
    using Network1_forward_even_fail[OF s, where tr = True and L = 201 and b = 32
        and local_input = "()"] by simp
  then show ?thesis unfolding s by simp
qed

subsection \<open>A local input with an empty side\<close>

text \<open>
  Claim C7, where the code departs from it. A model built with no categorical position
  (\<^verbatim>\<open>emb_dims = []\<close>, so \<^verbatim>\<open>self.no_of_embs = 0\<close>) raises on every input, in
  \<^verbatim>\<open>FeedForwardNN.forward\<close> and in \<^verbatim>\<open>Network2.forward\<close> alike: the list of embeddings
  is built only when \<^verbatim>\<open>self.no_of_embs != 0\<close>, and \<^verbatim>\<open>torch.cat(local_out, dim = 1)\<close>
  reads the variable in either case. The branch \<^verbatim>\<open>else: local_out = normalized_cont_data\<close>
  further down, written for this case, is never reached. (The other side is as the
  claim says: with no continuous feature the local layers run on the embeddings alone,
  lemmas \<open>FeedForwardNN_forward_shape\<close> and \<open>no_continuous_feature_ignored\<close>.)
\<close>

theorem no_embedded_position_raises:
  assumes "FeedForwardNN_init [] ncont sizes ed drops n pad = Inr self1"
    and "Network2_init [] ncont sizes ed drops cin cout k dr dord p n pad = Inr self2"
  shows "FeedForwardNN_forward (self1\<lparr>FeedForwardNN.training := tr\<rparr>) cont_data cat_data
           = Inl (UnboundLocalError ''local variable local_out referenced before assignment'')
       \<and> Network2_forward (self2\<lparr>training := tr\<rparr>) (cont_data, cat_data) distal_input u
           = Inl (UnboundLocalError ''local variable local_out referenced before assignment'')"
  using FeedForwardNN_init_no_of_embs(1)[OF assms(1), of tr]
    Network2_init_no_of_embs(1)[OF assms(2), of tr]
  by (simp add: FeedForwardNN_forward_def Network2_forward_def local_layers_no_embeddings)

text \<open>An instance: three continuous features and no categorical position.\<close>

theorem no_embedded_position_raises_witness:
  "(case (FeedForwardNN_init [] 3 [150, 75] 0.1 [0.1, 0.1] 4 (Some 4),
          Network2_init [] 3 [150, 75] 0.1 [0.1, 0.1] 7 32 3 100 1 0.25 4 (Some 4)) of
      (Inr self1, Inr self2) \<Rightarrow>
        FeedForwardNN_forward (self1\<lparr>FeedForwardNN.training := False\<rparr>) [32, 3]
            \<lparr>n_rows = 32, n_cols = 0, entry = (\<lambda>r i. 0)\<rparr>
          = Inl (UnboundLocalError ''local variable local_out referenced before assignment'')
        \<and> Network2_forward (self2\<lparr>training := False\<rparr>)
              ([32, 3], \<lparr>n_rows = 32, n_cols = 0, entry = (\<lambda>r i. 0)\<rparr>) [32, 7, 201] 0.5
          = Inl (UnboundLocalError ''local variable local_out referenced before assignment'')
    | _ \<Rightarrow> False)"
proof -
  obtain a1 where a1: "FeedForwardNN_init [] 3 [150, 75] 0.1 [0.1, 0.1] 4 (Some 4) = Inr a1"
    by (simp add: FeedForwardNN_init_def Dropout_init_def)
  obtain a2 where a2:
    "Network2_init [] 3 [150, 75] 0.1 [0.1, 0.1] 7 32 3 100 1 0.25 4 (Some 4) = Inr a2"
    by (simp add: Network2_init_def Dropout_init_def)
  show ?thesis
    unfolding a1 a2 prod.case sum.case
    using no_embedded_position_raises[OF a1 a2] by simp
qed

subsection \<open>The configuration with an expanded radius of 50\<close>

text \<open>
  Claim C6, as amended. Let the model be built for the variant 2 and 4 classes from a
  configuration with \<^verbatim>\<open>local_radius = 5\<close>, \<^verbatim>\<open>local_order = 1\<close> and
  \<^verbatim>\<open>distal_radius = 50\<close>, with a positive kernel size, positive numbers of channels and
  positive sizes of the hidden layers. It is a \<^verbatim>\<open>Network2\<close> with 11 embedded positions,
  and its local layers accept a batch of token sequences of length 11, the tokens being
  the four bases and the padding index 4 (in training mode the batch is not a single
  sample). Its forward pass on such a local input and an expanded tensor of length
  \<open>2 * 50 + 1 = 101\<close> does not succeed: it raises the assertion error, since 101 is not
  above 200. On an expanded tensor of a length \<open>L > 200\<close> (201 for
  \<^verbatim>\<open>distal_radius = 100\<close>) the same model returns \<open>[batch, 4]\<close>, for an odd kernel size or
  \<open>L \<ge> 422\<close>. With \<^verbatim>\<open>distal_order = 1\<close> the model records the sequence length 101.
\<close>

theorem radius_50_configuration:
  assumes cfg: "local_radius cfg = 5" "local_order cfg = 1" "distal_radius cfg = 50"
    and build: "build_model 2 dord 4 ncont cin cfg = Inr m"
    and pos: "0 < CNN_kernel_size cfg" "0 < cin" "0 < CNN_out_channels cfg"
      "0 < local_hidden1_size cfg" "0 < local_hidden2_size cfg"
    and b: "tr \<longrightarrow> b \<noteq> 1"
    and cat: "n_rows cat_data = b" "n_cols cat_data = 11"
      "\<forall>i < 11. \<forall>r < b. 0 \<le> entry cat_data r i \<and> entry cat_data r i \<le> 4"
  shows "\<exists>self. m = LocalPlusDistal self
       \<and> no_of_cat self = 11
       \<and> (dord = 1 \<longrightarrow> seq_len self = 101)
       \<and> local_layers (training (self\<lparr>training := tr\<rparr>)) (no_of_embs (self\<lparr>training := tr\<rparr>))
           (no_of_cat (self\<lparr>training := tr\<rparr>)) (emb_layer (self\<lparr>training := tr\<rparr>))
           (emb_dropout_layer (self\<lparr>training := tr\<rparr>)) (no_of_cont (self\<lparr>training := tr\<rparr>))
           (first_bn_layer (self\<lparr>training := tr\<rparr>)) (lin_layers (self\<lparr>training := tr\<rparr>))
           (droput_layers (self\<lparr>training := tr\<rparr>)) (bn_layers (self\<lparr>training := tr\<rparr>))
           [b, ncont] cat_data
         = Inr [b, local_hidden2_size cfg]
       \<and> Network2_forward (self\<lparr>training := tr\<rparr>) ([b, ncont], cat_data) [b, cin, 101] u
         = Inl (AssertionError ''Error: distal seq len must be >200'')
       \<and> (200 < L \<and> (odd (CNN_kernel_size cfg) \<or> 422 \<le> L) \<longrightarrow>
            Network2_forward (self\<lparr>training := tr\<rparr>) ([b, ncont], cat_data) [b, cin, L] u
            = Inr [b, 4])"
proof -
  let ?emb_dims = "replicate 11 (5 :: nat, 5 :: nat)"
  let ?sizes = "[local_hidden1_size cfg, local_hidden2_size cfg]"
  let ?drops = "[local_dropout cfg, local_dropout cfg]"
  from build cfg obtain self where m: "m = LocalPlusDistal self"
    and init: "Network2_init ?emb_dims ncont ?sizes (emb_dropout cfg) ?drops cin
                 (CNN_out_channels cfg) (CNN_kernel_size cfg) 50 dord (distal_fc_dropout cfg) 4
                 (Some 4) = Inr self"
    by (auto simp add: build_model_def Let_def and_then_def split: sum.splits)
  have ne: "?emb_dims \<noteq> []" by simp
  have drops: "length ?sizes \<le> length ?drops" by simp
  have sz: "\<forall>s \<in> set ?sizes. 0 < s" using pos(4,5) by simp
  have cols: "length ?emb_dims \<le> n_cols cat_data" using cat(2) by simp
  have ent: "\<forall>i < length ?emb_dims. \<forall>r < b.
               0 \<le> entry cat_data r i \<and> entry cat_data r i \<le> int 4"
    using cat(3) by simp
  have nc: "no_of_cat self = 11"
    using init by (auto simp add: Network2_init_def Let_def and_then_def split: sum.splits)
  have sl: "dord = 1 \<longrightarrow> seq_len self = 101"
    using init by (auto simp add: Network2_init_def Let_def and_then_def split: sum.splits)
  have loc: "local_layers (training (self\<lparr>training := tr\<rparr>)) (no_of_embs (self\<lparr>training := tr\<rparr>))
           (no_of_cat (self\<lparr>training := tr\<rparr>)) (emb_layer (self\<lparr>training := tr\<rparr>))
           (emb_dropout_layer (self\<lparr>training := tr\<rparr>)) (no_of_cont (self\<lparr>training := tr\<rparr>))
           (first_bn_layer (self\<lparr>training := tr\<rparr>)) (lin_layers (self\<lparr>training := tr\<rparr>))
           (droput_layers (self\<lparr>training := tr\<rparr>)) (bn_layers (self\<lparr>training := tr\<rparr>))
           [b, ncont] cat_data
         = Inr [b, local_hidden2_size cfg]"
    using Network2_local_layers_ok[OF init b sz ne drops cat(1) cols ent] by simp
  have short: "Network2_forward (self\<lparr>training := tr\<rparr>) ([b, ncont], cat_data) [b, cin, 101] u
         = Inl (AssertionError ''Error: distal seq len must be >200'')"
    by (rule Network2_forward_short[OF _ loc]) simp
  have long: "Network2_forward (self\<lparr>training := tr\<rparr>) ([b, ncont], cat_data) [b, cin, L] u
            = Inr [b, 4]" if "200 < L" "odd (CNN_kernel_size cfg) \<or> 422 \<le> L"
    using init pos(1) that(1) b that(2) pos(2,3) sz _ ne drops cat(1) cols ent
    by (rule Network2_forward_shape) simp
  show ?thesis using m nc sl loc short long by blast
qed

text \<open>
  An instance: the defaults of the command line (hidden layers of 150 and 75 units, kernel
  size 3 and 32 channels), no continuous feature and the 4 channels of a one-hot
  expanded sequence, on a batch of 32 samples in training mode.
\<close>

theorem radius_50_configuration_witness:
  "(case build_model 2 1 4 0 4
           \<lparr>local_radius = 5, local_order = 1, local_hidden1_size = 150,
            local_hidden2_size = 75, distal_radius = 50, emb_dropout = 0.1,
            local_dropout = 0.1, CNN_kernel_size = 3, CNN_out_channels = 32,
            distal_fc_dropout = 0.25\<rparr> of
      Inr (LocalPlusDistal self) \<Rightarrow>
        no_of_cat self = 11 \<and> seq_len self = 101
        \<and> Network2_forward (self\<lparr>training := True\<rparr>)
              ([32, 0], \<lparr>n_rows = 32, n_cols = 11, entry = (\<lambda>r i. 3)\<rparr>) [32, 4, 101] 0.5
            = Inl (AssertionError ''Error: distal seq len must be >200'')
        \<and> Network2_forward (self\<lparr>training := True\<rparr>)
              ([32, 0], \<lparr>n_rows = 32, n_cols = 11, entry = (\<lambda>r i. 3)\<rparr>) [32, 4, 201] 0.5
            = Inr [32, 4]
    | _ \<Rightarrow> False)"
proof -
  let ?cfg = "\<lparr>local_radius = 5, local_order = 1, local_hidden1_size = 150,
            local_hidden2_size = 75, distal_radius = 50, emb_dropout = 0.1,
            local_dropout = 0.1, CNN_kernel_size = 3, CNN_out_channels = 32,
            distal_fc_dropout = 0.25\<rparr>"
  let ?cat = "\<lparr>n_rows = 32, n_cols = 11, entry = (\<lambda>r i. 3)\<rparr>"
  obtain m where m: "build_model 2 1 4 0 4 ?cfg = Inr m"
    by (simp add: build_model_def Network2_init_def Dropout_init_def)
  from radius_50_configuration[OF _ _ _ m, where b = 32 and tr = True and cat_data = ?cat
        and u = "0.5" and L = 201]
  obtain self where s: "m = LocalPlusDistal self" "no_of_cat self = 11" "seq_len self = 101"
    "Network2_forward (self\<lparr>training := True\<rparr>) ([32, 0], ?cat) [32, 4, 101] 0.5
       = Inl (AssertionError ''Error: distal seq len must be >200'')"
    "Network2_forward (self\<lparr>training := True\<rparr>) ([32, 0], ?cat) [32, 4, 201] 0.5 = Inr [32, 4]"
    by auto
  show ?thesis unfolding m s(1) using s(2-5) by simp
qed

text \<open>
  The claim as it was stated fails at the configuration it names: the forward pass of the
  model on token sequences of length 11 and an expanded tensor of length 101 raises.
\<close>

theorem radius_50_configuration_counterexample:
  "(case build_model 2 1 4 0 4
           \<lparr>local_radius = 5, local_order = 1, local_hidden1_size = 150,
            local_hidden2_size = 75, distal_radius = 50, emb_dropout = 0.1,
            local_dropout = 0.1, CNN_kernel_size = 3, CNN_out_channels = 32,
            distal_fc_dropout = 0.25\<rparr> of
      Inr (LocalPlusDistal self) \<Rightarrow>
        Network2_forward self
            ([32, 0], \<lparr>n_rows = 32, n_cols = 11, entry = (\<lambda>r i. 3)\<rparr>) [32, 4, 101] 0.5
          = Inl (AssertionError ''Error: distal seq len must be >200'')
    | _ \<Rightarrow> False)"
proof -
  let ?cat = "\<lparr>n_rows = 32, n_cols = 11, entry = (\<lambda>r i. 3)\<rparr>"
  obtain s where s:
    "Network2_init (replicate 11 (5, 5)) 0 [150, 75] 0.1 [0.1, 0.1] 4 32 3 50 1 0.25 4 (Some 4) = Inr s"
    by (simp add: Network2_init_def Dropout_init_def)
  have bm: "build_model 2 1 4 0 4
           \<lparr>local_radius = 5, local_order = 1, local_hidden1_size = 150,
            local_hidden2_size = 75, distal_radius = 50, emb_dropout = 0.1,
            local_dropout = 0.1, CNN_kernel_size = 3, CNN_out_channels = 32,
            distal_fc_dropout = 0.25\<rparr> = Inr (LocalPlusDistal s)"
    using s by (simp add: build_model_def eval_nat_numeral)
  have t: "s\<lparr>training := True\<rparr> = s"
    using s by (auto simp add: Network2_init_def Dropout_init_def)
  have loc: "local_layers (training s) (no_of_embs s) (no_of_cat s) (emb_layer s)
           (emb_dropout_layer s) (no_of_cont s) (first_bn_layer s) (lin_layers s)
           (droput_layers s) (bn_layers s) [32, 0] ?cat = Inr [32, last [150, 75]]"
    using Network2_local_layers_ok[OF s, where tr = True and b = 32 and cat_data = ?cat]
    unfolding t by simp
  have "Network2_forward s ([32, 0], ?cat) [32, 4, 101] 0.5
        = Inl (AssertionError ''Error: distal seq len must be >200'')"
    by (rule Network2_forward_short[OF _ loc]) simp
  then show ?thesis unfolding bm by simp
qed

subsection \<open>A GPU request without CUDA\<close>

text \<open>
  Claim C8, where the code departs from it. When GPU use is requested (\<^verbatim>\<open>ray_ngpus > 0\<close>
  or \<^verbatim>\<open>gpu_per_trial > 0\<close>) and CUDA is not available, the driver prints the error
  message on the standard error stream and stops there: Ray is not initialised and
  \<^verbatim>\<open>tune.run\<close> is not called, as the claim says. But it stops with \<^verbatim>\<open>sys.exit()\<close>, called
  without an argument, so the exit status of the process is 0 and not, as the claim says,
  a non-zero one.
\<close>

theorem gpu_request_without_cuda:
  assumes "ray_ngpus a > 0 \<or> gpu_per_trial a > 0"
  shows "main a False
           = ([PrintStderr ''Error: You requested GPU computing, but CUDA is not available!''],
              SysExit None)
       \<and> exit_status (snd (main a False)) = 0"
  using assms by (simp add: main_def)

text \<open>An instance: the defaults of the command line, which request a GPU.\<close>

theorem gpu_request_without_cuda_witness:
  "(ray_ngpus \<lparr>ray_ngpus = 1, gpu_per_trial = 0.19, cuda_id = ''0'', rerun_failed = False,
       ray_ncpus = 6, cpu_per_trial = 3, epochs = 10, grace_period = 5, n_trials = 3,
       experiment_name = ''my_experiment'', ASHA_metric = ''loss''\<rparr> > 0)
   \<and> main \<lparr>ray_ngpus = 1, gpu_per_trial = 0.19, cuda_id = ''0'', rerun_failed = False,
       ray_ncpus = 6, cpu_per_trial = 3, epochs = 10, grace_period = 5, n_trials = 3,
       experiment_name = ''my_experiment'', ASHA_metric = ''loss''\<rparr> False
     = ([PrintStderr ''Error: You requested GPU computing, but CUDA is not available!''],
        SysExit None)
   \<and> exit_status (snd (main \<lparr>ray_ngpus = 1, gpu_per_trial = 0.19, cuda_id = ''0'',
       rerun_failed = False, ray_ncpus = 6, cpu_per_trial = 3, epochs = 10, grace_period = 5,
       n_trials = 3, experiment_name = ''my_experiment'', ASHA_metric = ''loss''\<rparr> False)) = 0"
  using gpu_request_without_cuda[of "\<lparr>ray_ngpus = 1, gpu_per_trial = 0.19, cuda_id = ''0'',
       rerun_failed = False, ray_ncpus = 6, cpu_per_trial = 3, epochs = 10, grace_period = 5,
       n_trials = 3, experiment_name = ''my_experiment'', ASHA_metric = ''loss''\<rparr>"]
  by simp

subsection \<open>The early-termination policy\<close>

text \<open>
  Claim C9. Let the driver get past the GPU check (CUDA is available, or no GPU is
  requested). It builds an \<^verbatim>\<open>ASHAScheduler\<close> on the metric the user selected, in mode
  \<^verbatim>\<open>min\<close>, with \<^verbatim>\<open>max_t\<close> the user's \<^verbatim>\<open>epochs\<close>, the grace period the user's
  \<^verbatim>\<open>grace_period\<close> and reduction factor 2. When Ray accepts these arguments
  (\<open>0 < grace_period \<le> epochs\<close>), the driver calls \<^verbatim>\<open>tune.run\<close> exactly once, with this
  scheduler and the stopping criterion \<^verbatim>\<open>{'after_min_loss': 3}\<close>; otherwise the
  constructor's assertion ends the driver before \<^verbatim>\<open>tune.run\<close>. Under this run, for every
  trial, whatever its losses and its other metrics are, and at every report: when the
  counter of the reports without improvement in best loss has reached 3, the trial is
  stopped, whatever the scheduler decides for it; and as long as the counter is below 3,
  the decision is the scheduler's. The counter is that of the training function as the
  spec describes it (lemma \<open>after_min_loss_step\<close>: 0 at a report whose loss is below all
  losses before, one more than at the report before otherwise), and the rule for the
  criterion is Ray's.
\<close>

theorem early_termination_policy:
  assumes "cuda_is_available \<or> (ray_ngpus a \<le> 0 \<and> gpu_per_trial a \<le> 0)"
  shows "(0 < grace_period a \<and> grace_period a \<le> epochs a \<longrightarrow>
            [run. Run run \<leftarrow> fst (main a cuda_is_available)]
            = [TuneRun ''Train'' (experiment_name a) (cpu_per_trial a, gpu_per_trial a) (n_trials a)
                 ''./ray_results''
                 (ASHAScheduler (ASHA_metric a) ''min'' (epochs a) (grace_period a) 2)
                 [(''after_min_loss'', 3)]
                 (if rerun_failed a then ERRORED_ONLY else ResumeFalse)])
       \<and> (\<not> (0 < grace_period a \<and> grace_period a \<le> epochs a) \<longrightarrow>
            [run. Run run \<leftarrow> fst (main a cuda_is_available)] = []
            \<and> (\<exists>msg. snd (main a cuda_is_available) = Uncaught (AssertionError msg)))
       \<and> (\<forall>run other losses i scheduler_decision.
            Run run \<in> set (fst (main a cuda_is_available)) \<and> i < length losses
            \<longrightarrow> trial_decision run scheduler_decision (trial_reports other losses ! i)
                = Inr (if 3 \<le> after_min_loss losses ! i then STOP else scheduler_decision))"
proof (intro conjI impI allI)
  assume ok: "0 < grace_period a \<and> grace_period a \<le> epochs a"
  then have "ASHAScheduler_init (ASHA_metric a) ''min'' (epochs a) (grace_period a) 2
             = Inr (ASHAScheduler (ASHA_metric a) ''min'' (epochs a) (grace_period a) 2)"
    by (simp add: ASHAScheduler_init_def)
  then show "[run. Run run \<leftarrow> fst (main a cuda_is_available)]
            = [TuneRun ''Train'' (experiment_name a) (cpu_per_trial a, gpu_per_trial a) (n_trials a)
                 ''./ray_results''
                 (ASHAScheduler (ASHA_metric a) ''min'' (epochs a) (grace_period a) 2)
                 [(''after_min_loss'', 3)]
                 (if rerun_failed a then ERRORED_ONLY else ResumeFalse)]"
    using assms by (auto simp add: main_def Let_def not_less)
next
  assume bad: "\<not> (0 < grace_period a \<and> grace_period a \<le> epochs a)"
  then obtain msg where e: "ASHAScheduler_init (ASHA_metric a) ''min'' (epochs a) (grace_period a) 2
             = Inl (AssertionError msg)"
    using ASHAScheduler_init_refuses by blast
  show "[run. Run run \<leftarrow> fst (main a cuda_is_available)] = []"
    using assms e by (auto simp add: main_def Let_def not_less)
  show "\<exists>msg. snd (main a cuda_is_available) = Uncaught (AssertionError msg)"
    using assms e by (auto simp add: main_def Let_def not_less)
next
  fix run other and losses :: "real list" and i scheduler_decision
  assume h: "Run run \<in> set (fst (main a cuda_is_available)) \<and> i < length losses"
  then have st: "stop run = [(''after_min_loss'', 3)]"
    by (rule_tac main_stop_criterion[of run a cuda_is_available]) simp
  have r: "(trial_reports other losses ! i) ''after_min_loss''
           = Some (real (after_min_loss losses ! i))"
    using h by (simp add: trial_reports_def)
  show "trial_decision run scheduler_decision (trial_reports other losses ! i)
        = Inr (if 3 \<le> after_min_loss losses ! i then STOP else scheduler_decision)"
    by (simp add: trial_decision_def st r)
qed

text \<open>
  An instance: the defaults of the command line with CUDA available, and a trial whose
  loss improves once and then no more; the scheduler says \<open>CONTINUE\<close> throughout. The
  third report after the best one is stopped, the one before is not.
\<close>

theorem early_termination_policy_witness:
  "[run. Run run \<leftarrow> fst (main \<lparr>ray_ngpus = 1, gpu_per_trial = 0.19, cuda_id = ''0'',
       rerun_failed = False, ray_ncpus = 6, cpu_per_trial = 3, epochs = 10, grace_period = 5,
       n_trials = 3, experiment_name = ''my_experiment'', ASHA_metric = ''loss''\<rparr> True)]
     = [TuneRun ''Train'' ''my_experiment'' (3, 0.19) 3 ''./ray_results''
          (ASHAScheduler ''loss'' ''min'' 10 5 2) [(''after_min_loss'', 3)] ResumeFalse]
   \<and> after_min_loss [0.7, 0.5, 0.6, 0.5, 0.8] = [0, 0, 1, 2, 3]
   \<and> trial_decision
        (TuneRun ''Train'' ''my_experiment'' (3, 0.19) 3 ''./ray_results''
          (ASHAScheduler ''loss'' ''min'' 10 5 2) [(''after_min_loss'', 3)] ResumeFalse)
        CONTINUE (trial_reports (\<lambda>i. Map.empty) [0.7, 0.5, 0.6, 0.5, 0.8] ! 3) = Inr CONTINUE
   \<and> trial_decision
        (TuneRun ''Train'' ''my_experiment'' (3, 0.19) 3 ''./ray_results''
          (ASHAScheduler ''loss'' ''min'' 10 5 2) [(''after_min_loss'', 3)] ResumeFalse)
        CONTINUE (trial_reports (\<lambda>i. Map.empty) [0.7, 0.5, 0.6, 0.5, 0.8] ! 4) = Inr STOP"
proof -
  let ?a = "\<lparr>ray_ngpus = 1, gpu_per_trial = 0.19, cuda_id = ''0'', rerun_failed = False,
       ray_ncpus = 6, cpu_per_trial = 3, epochs = 10, grace_period = 5, n_trials = 3,
       experiment_name = ''my_experiment'', ASHA_metric = ''loss''\<rparr>"
  let ?run = "TuneRun ''Train'' ''my_experiment'' (3, 0.19) 3 ''./ray_results''
          (ASHAScheduler ''loss'' ''min'' 10 5 2) [(''after_min_loss'', 3)] ResumeFalse"
  let ?ls = "[0.7, 0.5, 0.6, 0.5, 0.8 :: real]"
  note t = early_termination_policy[of True ?a]
  have 1: "[run. Run run \<leftarrow> fst (main ?a True)] = [?run]"
    using t by simp
  have c: "after_min_loss ?ls = [0, 0, 1, 2, 3]"
    by (simp add: after_min_loss_def)
  have m: "Run ?run \<in> set (fst (main ?a True))"
    by (simp add: main_def Let_def ASHAScheduler_init_def)
  have "trial_decision ?run CONTINUE (trial_reports (\<lambda>i. Map.empty) ?ls ! 3)
        = Inr (if 3 \<le> after_min_loss ?ls ! 3 then STOP else CONTINUE)"
    using t m by simp
  then have 3: "trial_decision ?run CONTINUE (trial_reports (\<lambda>i. Map.empty) ?ls ! 3) = Inr CONTINUE"
    unfolding c by simp
  have "trial_decision ?run CONTINUE (trial_reports (\<lambda>i. Map.empty) ?ls ! 4)
        = Inr (if 3 \<le> after_min_loss ?ls ! 4 then STOP else CONTINUE)"
    using t m by simp
  then have 4: "trial_decision ?run CONTINUE (trial_reports (\<lambda>i. Map.empty) ?ls ! 4) = Inr STOP"
    unfolding c by simp
  from 1 c 3 4 show ?thesis by simp
qed

subsection \<open>The residual block\<close>

text \<open>
  Claim C5, as amended. Let a \<^verbatim>\<open>ResBlock\<close> with at least one channel be applied to an
  input of length \<open>L > 0\<close>, let both convolutions apply, the first giving the length \<open>l1\<close>
  and the second \<open>l2\<close>, each by the formula of the kernel size, stride, padding and
  dilation, and let \<open>l2 \<le> L\<close>; in training mode let the input of each batch
  normalisation hold more than one value per channel (\<open>batch * L \<noteq> 1\<close> and
  \<open>batch * l1 \<noteq> 1\<close>). Then the output has length \<open>l2\<close>, that is \<open>L\<close> minus the
  reduction of the two convolutions. With kernel size 3, stride 1, padding 1 and dilation
  1, the values with which \<^verbatim>\<open>Network1\<close> and \<^verbatim>\<open>Network2\<close> build their blocks, the output
  length is \<open>L\<close>. The skip connection adds to every position \<open>t < l2\<close> of the transformed
  tensor position \<open>t\<close> of the input: the first \<open>l2\<close> positions, the left edge.
\<close>

theorem ResBlock_output_length:
  assumes "0 < c" and "0 < l"
    and "tr \<longrightarrow> b * l \<noteq> 1 \<and> b * l1 \<noteq> 1"
    and "conv_out_len k s p d l = Inr l1"
    and "conv_out_len k s p d l1 = Inr l2"
    and "l2 \<le> l"
    and "tshape x = [b, c, l]" and "tshape out = [b, c, l2]"
  shows "forward tr (ResBlock_init c k s p d) [b, c, l] = Inr [b, c, l2]
       \<and> forward tr (ResBlock_init c 3 1 1 1) [b, c, l] = Inr [b, c, l]
       \<and> (\<exists>r. ResBlock_skip_values x out = Inr r \<and> tshape r = [b, c, l2]
             \<and> (\<forall>i < b. \<forall>j < c. \<forall>t < l2.
                   tval r [i, j, t] = tval x [i, j, t] + tval out [i, j, t]))"
proof -
  have "tr \<longrightarrow> b * l \<noteq> 1" using assms(3) by simp
  then have same: "forward tr (ResBlock_init c 3 1 1 1) [b, c, l] = Inr [b, c, l]"
    using assms(1,2) by (intro ResBlock_same)
  show ?thesis
    using ResBlock_forward_len[OF assms(1-6)] same ResBlock_skip_values_prefix[OF assms(7,8,6)]
    by blast
qed

text \<open>
  An instance: a single sample of length 10 in training mode, through the block with the
  constructor's defaults (padding 0) and through the block with padding 1.
\<close>

theorem ResBlock_output_length_witness:
  "conv_out_len 3 1 0 1 10 = Inr 8 \<and> conv_out_len 3 1 0 1 8 = Inr 6
   \<and> forward True (ResBlock_init 32 3 1 0 1) [1, 32, 10] = Inr [1, 32, 6]
   \<and> forward True (ResBlock_init 32 3 1 1 1) [1, 32, 10] = Inr [1, 32, 10]
   \<and> (case ResBlock_skip_values \<lparr>tshape = [1, 32, 10], tval = (\<lambda>idx. real (idx ! 2))\<rparr>
              \<lparr>tshape = [1, 32, 6], tval = (\<lambda>idx. 100)\<rparr> of
          Inl e \<Rightarrow> False
        | Inr r \<Rightarrow> tshape r = [1, 32, 6] \<and> tval r [0, 31, 5] = 105)"
proof -
  let ?x = "\<lparr>tshape = [1, 32, 10], tval = (\<lambda>idx. real (idx ! 2))\<rparr>"
  let ?out = "\<lparr>tshape = [1, 32, 6], tval = (\<lambda>idx. 100)\<rparr>"
  have h1: "conv_out_len 3 1 0 1 10 = Inr 8" by (simp add: conv_out_len_def)
  have h2: "conv_out_len 3 1 0 1 8 = Inr 6" by (simp add: conv_out_len_def)
  note t = ResBlock_output_length[where l = 10 and tr = True and b = 1 and c = 32
      and x = ?x and out = ?out, OF _ _ _ h1 h2]
  from t obtain r where r: "ResBlock_skip_values ?x ?out = Inr r" "tshape r = [1, 32, 6]"
    "\<forall>i < 1. \<forall>j < 32. \<forall>t < 6. tval r [i, j, t] = tval ?x [i, j, t] + tval ?out [i, j, t]"
    by auto
  from r(3) have "tval r [0, 31, 5] = tval ?x [0, 31, 5] + tval ?out [0, 31, 5]"
    by simp
  then have v: "tval r [0, 31, 5] = 105" by simp
  show ?thesis
    unfolding r(1) sum.case using h1 h2 t r(2) v by simp
qed

text \<open>
  The claim as it was stated, for every input sequence, fails where a convolution does not
  apply and where the two convolutions lengthen the sequence: the block built with the
  defaults of the constructor (\<^verbatim>\<open>in_channels=32, kernel_size=3, stride=1, padding=0,
  dilation=1\<close>) raises on a sequence of length 4, which its first convolution shortens to
  2, less than the kernel; and the block with padding 2 raises on a sequence of length 10,
  which it lengthens to 14, so that the skip connection adds tensors of lengths 10 and 14.
  Nor is padding 1 the default: the block built with the defaults shortens a sequence of
  length 10 to 6.
\<close>

theorem ResBlock_output_length_counterexample:
  "forward True (ResBlock_init 32 3 1 0 1) [2, 32, 4]
     = Inl (RuntimeError ''Kernel size can't be greater than actual input size'')
   \<and> forward True (ResBlock_init 32 3 1 2 1) [2, 32, 10]
     = Inl (RuntimeError ''The size of tensor a must match the size of tensor b'')
   \<and> forward True (ResBlock_init 32 3 1 0 1) [2, 32, 10] = Inr [2, 32, 6]"
proof (intro conjI)
  show "forward True (ResBlock_init 32 3 1 0 1) [2, 32, 4]
     = Inl (RuntimeError ''Kernel size can't be greater than actual input size'')"
    by (simp add: ResBlock_init_def conv_out_len_def)
  show "forward True (ResBlock_init 32 3 1 2 1) [2, 32, 10]
     = Inl (RuntimeError ''The size of tensor a must match the size of tensor b'')"
    by (simp add: ResBlock_init_def conv_out_len_def ResBlock_skip_def shape_at_def
        slice_len_def slice_bound_def tensor_add_def)
  show "forward True (ResBlock_init 32 3 1 0 1) [2, 32, 10] = Inr [2, 32, 6]"
    by (rule ResBlock_forward_len[where ?l1.0 = 8]) (simp_all add: conv_out_len_def)
qed

subsection \<open>The fusion of the branches\<close>

text \<open>
  Claim C3. On exact real numbers, for logits of shape \<open>[batch, n_class]\<close>: the fusion of
  \<^verbatim>\<open>Network1\<close> returns, at every sample \<open>i\<close> and class \<open>j\<close>, the logarithm of the mean of
  the two softmax distributions of the expanded scales, clamped from below at
  \<open>10\<^sup>-\<^sup>9\<close>. The fusion of \<^verbatim>\<open>Network2\<close> returns the logarithm of the clamped mean of
  the softmax distribution of the local logits and the mean of the two expanded
  distributions: the local branch weighs as much as the two expanded scales together.
  (For \<^verbatim>\<open>Network2\<close> at least two classes are assumed, since its diagnostic print reads
  column 1.)
\<close>

theorem fusion_formula:
  assumes "tshape local_out = [b, n]" and "tshape distal_out = [b, n]"
    and "tshape distal_out2 = [b, n]"
  shows "(\<exists>r. Network1_fusion distal_out distal_out2 = Inr r \<and> tshape r = [b, n]
            \<and> (\<forall>i < b. \<forall>j < n.
                  tval r [i, j]
                  = ln (max 0.000000001
                      ((softmax_of distal_out i j + softmax_of distal_out2 i j) / 2))))
       \<and> (2 \<le> n \<longrightarrow>
           (\<exists>r. Network2_fusion tr u local_out distal_out distal_out2 = Inr r \<and> tshape r = [b, n]
            \<and> (\<forall>i < b. \<forall>j < n.
                  tval r [i, j]
                  = ln (max 0.000000001
                      ((softmax_of local_out i j
                        + (softmax_of distal_out i j + softmax_of distal_out2 i j) / 2) / 2)))))"
  using Network1_fusion_values[OF assms(2,3)] Network2_fusion_values[OF assms(1,2,3)]
  by blast

text \<open>An instance: two classes with equal logits, so that every distribution is uniform.\<close>

theorem fusion_formula_witness:
  "(case Network1_fusion \<lparr>tshape = [1, 2], tval = (\<lambda>idx. 0)\<rparr> \<lparr>tshape = [1, 2], tval = (\<lambda>idx. 0)\<rparr> of
      Inl e \<Rightarrow> False
    | Inr r \<Rightarrow> tshape r = [1, 2] \<and> tval r [0, 1] = ln (1 / 2))
   \<and> (2 :: nat) \<le> 2
   \<and> (case Network2_fusion False 0.5 \<lparr>tshape = [1, 2], tval = (\<lambda>idx. 0)\<rparr>
              \<lparr>tshape = [1, 2], tval = (\<lambda>idx. 0)\<rparr> \<lparr>tshape = [1, 2], tval = (\<lambda>idx. 0)\<rparr> of
        Inl e \<Rightarrow> False
      | Inr r \<Rightarrow> tshape r = [1, 2] \<and> tval r [0, 1] = ln (1 / 2))"
proof -
  let ?z = "\<lparr>tshape = [1, 2], tval = (\<lambda>idx. 0)\<rparr>"
  have sm: "softmax_of ?z 0 1 = 1 / 2"
    by (simp add: softmax_of_def numeral_2_eq_2)
  note t = fusion_formula[where local_out = ?z and distal_out = ?z and ?distal_out2.0 = ?z
      and b = 1 and n = 2 and tr = False and u = "0.5"]
  from t obtain r1 where r1: "Network1_fusion ?z ?z = Inr r1" "tshape r1 = [1, 2]"
    "\<forall>i < 1. \<forall>j < 2. tval r1 [i, j]
       = ln (max 0.000000001 ((softmax_of ?z i j + softmax_of ?z i j) / 2))"
    by auto
  from t obtain r2 where r2: "Network2_fusion False 0.5 ?z ?z ?z = Inr r2" "tshape r2 = [1, 2]"
    "\<forall>i < 1. \<forall>j < 2. tval r2 [i, j]
       = ln (max 0.000000001
           ((softmax_of ?z i j + (softmax_of ?z i j + softmax_of ?z i j) / 2) / 2))"
    by auto
  from r1(3) have "tval r1 [0, 1] = ln (max 0.000000001 ((softmax_of ?z 0 1 + softmax_of ?z 0 1) / 2))"
    by simp
  then have v1: "tval r1 [0, 1] = ln (1 / 2)" unfolding sm by simp
  from r2(3) have "tval r2 [0, 1] = ln (max 0.000000001
           ((softmax_of ?z 0 1 + (softmax_of ?z 0 1 + softmax_of ?z 0 1) / 2) / 2))"
    by simp
  then have v2: "tval r2 [0, 1] = ln (1 / 2)" unfolding sm by simp
  show ?thesis
    unfolding r1(1) r2(1) sum.case using r1(2) r2(2) v1 v2 by simp
qed

end
